theory Spec2Isabelle
  imports Complex_Main "HOL-Library.AList"
begin

section \<open>Python primitives used by the scripts\<close>

text \<open>
  The three scripts are plain Python: unbounded integers (\<^typ>\<open>int\<close>), lists, strings
  and insertion-ordered dictionaries. A dictionary is an association list in insertion
  order; assigning to a key that is present keeps its place and assigning to a new key
  appends it, which is what \<^const>\<open>AList.update\<close> does. Every exception a modelled
  function can raise is a value of \<open>py_error\<close>, returned as \<open>Inl\<close>.
\<close>

datatype py_error = KeyError | ZeroDivisionError | ValueError | TypeError | FileNotFoundError

text \<open>\<^verbatim>\<open>range(n)\<close> and \<^verbatim>\<open>range(a, b)\<close>: empty when the bound is not above the start.\<close>

definition py_range :: "int \<Rightarrow> int list" where
  "py_range n = [0..n - 1]"

definition py_range2 :: "int \<Rightarrow> int \<Rightarrow> int list" where
  "py_range2 a b = [a..b - 1]"

text \<open>The decimal text of an integer, as an f-string or \<^verbatim>\<open>str\<close> renders it.\<close>

function str_nat :: "nat \<Rightarrow> string" where
  "str_nat n = (if n < 10 then [''0123456789'' ! n]
                else str_nat (n div 10) @ [''0123456789'' ! (n mod 10)])"
  by pat_completeness auto
termination
  by (relation "measure id") auto

declare str_nat.simps [simp del]

definition str_int :: "int \<Rightarrow> string" where
  "str_int i = (if i < 0 then CHR ''-'' # str_nat (nat (- i)) else str_nat (nat i))"

text \<open>\<^verbatim>\<open>sep.join(xs)\<close>.\<close>

fun join :: "string \<Rightarrow> string list \<Rightarrow> string" where
  "join sep [] = []"
| "join sep [x] = x"
| "join sep (x # y # ys) = x @ sep @ join sep (y # ys)"

text \<open>
  Both topology generators close their list the same way:
  \<^verbatim>\<open>"[{" + "},\n    {".join(entries) + "}]\n"\<close>.
\<close>

definition bracketed :: "string list \<Rightarrow> string" where
  "bracketed entries =
     ''[{'' @ join (''},'' @ [CHR 0x0A] @ ''    {'') entries @ ''}]'' @ [CHR 0x0A]"

text \<open>
  The coordinates are computed in floating point (\<^verbatim>\<open>math.cos\<close>, \<^verbatim>\<open>math.sin\<close>,
  \<^verbatim>\<open>math.pi\<close>, float arithmetic, \<^verbatim>\<open>round\<close>), and so are the metric averages. The
  operations are parameters of the model: \<open>'f\<close> is the type of floats and a
  \<open>float_ops\<close> record supplies the operations, so that a property proved for every record
  holds whatever the rounding is.
  An integer operand of a mixed expression is converted with \<open>f_of_int\<close> first, as
  Python does. \<open>f_sum\<close> is the builtin \<^verbatim>\<open>sum\<close> on a list of floats, which is not the same
  computation in every interpreter: up to CPython 3.11 it adds from the left, from
  CPython 3.12 on it carries a compensation term.
\<close>

record 'f float_ops =
  f_of_int :: "int \<Rightarrow> 'f"
  f_pi :: "'f"
  f_add :: "'f \<Rightarrow> 'f \<Rightarrow> 'f"
  f_sub :: "'f \<Rightarrow> 'f \<Rightarrow> 'f"
  f_mul :: "'f \<Rightarrow> 'f \<Rightarrow> 'f"
  f_div :: "'f \<Rightarrow> 'f \<Rightarrow> 'f"
  f_sum :: "'f list \<Rightarrow> 'f"
  f_cos :: "'f \<Rightarrow> 'f"
  f_sin :: "'f \<Rightarrow> 'f"
  f_round :: "'f \<Rightarrow> int"

text \<open>
  \<^verbatim>\<open>r * math.cos(2 * math.pi * k / n)\<close> and the same with \<^verbatim>\<open>math.sin\<close>. Every call
  site is inside a loop over \<^verbatim>\<open>range(n)\<close>, so \<open>n \<ge> 1\<close> there and the division
  cannot raise.
\<close>

definition angle :: "'f float_ops \<Rightarrow> int \<Rightarrow> int \<Rightarrow> 'f" where
  "angle ops k n =
     f_div ops (f_mul ops (f_mul ops (f_of_int ops 2) (f_pi ops)) (f_of_int ops k))
               (f_of_int ops n)"

definition circle_x :: "'f float_ops \<Rightarrow> int \<Rightarrow> int \<Rightarrow> int \<Rightarrow> 'f" where
  "circle_x ops r k n = f_mul ops (f_of_int ops r) (f_cos ops (angle ops k n))"

definition circle_y :: "'f float_ops \<Rightarrow> int \<Rightarrow> int \<Rightarrow> int \<Rightarrow> 'f" where
  "circle_y ops r k n = f_mul ops (f_of_int ops r) (f_sin ops (angle ops k n))"

text \<open>
  One instance of the operations, for evaluating the generators at concrete inputs: exact
  real arithmetic, with \<^verbatim>\<open>round\<close> rounding a tie to the even neighbour as Python's does.
\<close>

definition py_round :: "real \<Rightarrow> int" where
  "py_round x =
     (let f = \<lfloor>x\<rfloor>; d = x - of_int f
      in if d < 1 / 2 then f else if 1 / 2 < d then f + 1 else if even f then f else f + 1)"

definition real_ops :: "real float_ops" where
  "real_ops = \<lparr>f_of_int = of_int, f_pi = pi, f_add = (+), f_sub = (-), f_mul = (*),
                f_div = (/), f_sum = sum_list, f_cos = cos, f_sin = sin,
                f_round = py_round\<rparr>"

text \<open>
  The other instances: IEEE 754 binary64 with rounding to nearest, ties to even, which is
  the arithmetic of a Python \<^verbatim>\<open>float\<close>. A float is the real number it stands for;
  an operation computes the exact result and rounds it with \<open>binary64\<close>. To round,
  \<open>normalise\<close> scales the magnitude by powers of two into \<open>[2^52, 2^53)\<close>, where the
  floats are the integers, and \<open>py_round\<close> takes the nearest integer, the even one on a
  tie. The fuel 2200 covers every exponent a binary64 has; overflow to infinity and the
  reduced precision of subnormal numbers are outside this model, and \<^verbatim>\<open>math.cos\<close> and
  \<^verbatim>\<open>math.sin\<close> are taken to be correctly rounded.
\<close>

primrec normalise :: "nat \<Rightarrow> real \<Rightarrow> real \<Rightarrow> real \<times> real" where
  "normalise 0 x s = (x, s)"
| "normalise (Suc n) x s =
     (if 9007199254740992 \<le> x then normalise n (x / 2) (s * 2)
      else if x < 4503599627370496 then normalise n (x * 2) (s / 2)
      else (x, s))"

definition binary64 :: "real \<Rightarrow> real" where
  "binary64 x =
     (if x = 0 then 0
      else let (m, s) = normalise 2200 \<bar>x\<bar> 1;
               r = of_int (py_round m) * s
           in if x < 0 then - r else r)"

text \<open>
  \<open>binary64_ops\<close> has the \<^verbatim>\<open>sum\<close> of CPython up to 3.11: starting from 0, each value
  is added to the running total and the total rounded.
\<close>

definition binary64_ops :: "real float_ops" where
  "binary64_ops =
     \<lparr>f_of_int = (\<lambda>i. binary64 (of_int i)), f_pi = binary64 pi,
      f_add = (\<lambda>a b. binary64 (a + b)), f_sub = (\<lambda>a b. binary64 (a - b)),
      f_mul = (\<lambda>a b. binary64 (a * b)), f_div = (\<lambda>a b. binary64 (a / b)),
      f_sum = (\<lambda>xs. fold (\<lambda>v acc. binary64 (acc + v)) xs 0),
      f_cos = (\<lambda>a. binary64 (cos a)), f_sin = (\<lambda>a. binary64 (sin a)),
      f_round = py_round\<rparr>"

text \<open>
  \<open>binary64_compensated_ops\<close> has the \<^verbatim>\<open>sum\<close> of CPython from 3.12 on (Neumaier's
  summation): the first value is added to the start value 0; for every further value
  \<open>x\<close> the total \<open>f_result\<close> becomes \<open>t = f_result + x\<close> and the compensation \<open>c\<close> grows
  by the rounding error of that addition, \<open>(f_result - t) + x\<close> when
  \<open>\<bar>f_result\<bar> \<ge> \<bar>x\<bar>\<close> and \<open>(x - t) + f_result\<close> otherwise; at the end a nonzero \<open>c\<close> is
  added to the total. Every operation rounds.
\<close>

fun neumaier :: "real \<Rightarrow> real \<Rightarrow> real list \<Rightarrow> real" where
  "neumaier f_result c [] = (if c \<noteq> 0 then binary64 (f_result + c) else f_result)"
| "neumaier f_result c (x # xs) =
     (let t = binary64 (f_result + x);
          c = (if \<bar>x\<bar> \<le> \<bar>f_result\<bar>
               then binary64 (c + binary64 (binary64 (f_result - t) + x))
               else binary64 (c + binary64 (binary64 (x - t) + f_result)))
      in neumaier t c xs)"

definition compensated_sum :: "real list \<Rightarrow> real" where
  "compensated_sum xs = (case xs of [] \<Rightarrow> 0 | x # rest \<Rightarrow> neumaier (binary64 (0 + x)) 0 rest)"

definition binary64_compensated_ops :: "real float_ops" where
  "binary64_compensated_ops = binary64_ops \<lparr>f_sum := compensated_sum\<rparr>"


section \<open>Static topology: \<^verbatim>\<open>niharika-ttp-smart-home/experiment.py\<close>\<close>

subsection \<open>Positions\<close>

text \<open>
  An entry of the list \<^verbatim>\<open>positions\<close> is the f-string
  \<^verbatim>\<open>"ID": {id}, "X": {x}, "Y": {y}\<close>. The model keeps the three integers that fill
  the holes in a record and renders the text with \<open>position_str\<close>.
\<close>

record position =
  pos_id :: int
  pos_x :: int
  pos_y :: int

definition position_str :: "position \<Rightarrow> string" where
  \<open>position_str p =
     ''"ID": '' @ str_int (pos_id p) @ '', "X": '' @ str_int (pos_x p)
       @ '', "Y": '' @ str_int (pos_y p)\<close>

definition gateway_position :: position where
  "gateway_position = \<lparr>pos_id = 1, pos_x = 0, pos_y = 0\<rparr>"

text \<open>The body of the loop at lines 100-104: TTP (relay) \<open>i\<close> on the radius-150 circle.\<close>

definition ttp_position :: "'f float_ops \<Rightarrow> int \<Rightarrow> int \<Rightarrow> position" where
  "ttp_position ops num_clusters i =
     (let x = circle_x ops 150 (i + 1) num_clusters;
          y = circle_y ops 150 (i + 1) num_clusters
      in \<lparr>pos_id = i + 2, pos_x = f_round ops x, pos_y = f_round ops y\<rparr>)"

text \<open>
  The body of the inner loop at lines 111-116: member \<open>j\<close> of cluster \<open>i\<close>, on a
  radius-40 circle around the cluster centre, which lies on the radius-250 circle.
\<close>

definition member_position :: "'f float_ops \<Rightarrow> int \<Rightarrow> int \<Rightarrow> int \<Rightarrow> int \<Rightarrow> position" where
  "member_position ops num_clusters num_per_cluster i j =
     (let cluster_x = circle_x ops 250 (i + 1) num_clusters;
          cluster_y = circle_y ops 250 (i + 1) num_clusters;
          ident = 2 + num_clusters + i * num_per_cluster + j;
          x = circle_x ops 40 (j + 1) num_per_cluster;
          y = circle_y ops 40 (j + 1) num_per_cluster
      in \<lparr>pos_id = ident,
          pos_x = f_round ops (f_add ops x cluster_x),
          pos_y = f_round ops (f_add ops y cluster_y)\<rparr>)"

text \<open>
  The list \<^verbatim>\<open>positions\<close> as it stands at line 118, before it is joined: each
  \<^verbatim>\<open>for\<close> loop is a \<^const>\<open>fold\<close> that appends to the list built so far.
\<close>

definition position_entries :: "'f float_ops \<Rightarrow> int \<Rightarrow> int \<Rightarrow> position list" where
  "position_entries ops num_clusters num_per_cluster =
     (let positions = [gateway_position];
          positions = fold (\<lambda>i positions. positions @ [ttp_position ops num_clusters i])
                        (py_range num_clusters) positions;
          positions = fold (\<lambda>i positions.
                          fold (\<lambda>j positions.
                                  positions @ [member_position ops num_clusters num_per_cluster i j])
                               (py_range num_per_cluster) positions)
                        (py_range num_clusters) positions
      in positions)"

definition generate_positions :: "'f float_ops \<Rightarrow> int \<Rightarrow> int \<Rightarrow> string" where
  "generate_positions ops num_clusters num_per_cluster =
     bracketed (map position_str (position_entries ops num_clusters num_per_cluster))"


subsection \<open>Connections\<close>

text \<open>
  The configuration constants of lines 10-14. A link quality is only ever rendered into
  text, so it is kept as the text that the f-string gives for the float \<^verbatim>\<open>0.9\<close>.
\<close>

definition TTP_TO_GATEWAY_LINK_QUALITY :: string where
  "TTP_TO_GATEWAY_LINK_QUALITY = ''0.9''"

definition CLUSTER_TO_TTP_LINK_QUALITY :: string where
  "CLUSTER_TO_TTP_LINK_QUALITY = ''0.9''"

definition CLUSTER_INTERNAL_LINK_QUALITY :: string where
  "CLUSTER_INTERNAL_LINK_QUALITY = ''0.9''"

definition DEFAULT_RSSI :: int where
  "DEFAULT_RSSI = - 80"

text \<open>
  An entry of the list \<^verbatim>\<open>connections\<close> is the f-string
  \<^verbatim>\<open>"FROM_ID": {a}, "TO_ID": {b}, "RSSI": {rssi}, "LINK_QUALITY": {q}, "LINK_MODEL": "Fixed"\<close>:
  a directed fixed link. The record keeps the values that fill the holes.
\<close>

record fixed_link =
  from_id :: int
  to_id :: int
  rssi :: int
  link_quality :: string

definition fixed_link_str :: "fixed_link \<Rightarrow> string" where
  \<open>fixed_link_str c =
     ''"FROM_ID": '' @ str_int (from_id c) @ '', "TO_ID": '' @ str_int (to_id c)
       @ '', "RSSI": '' @ str_int (rssi c) @ '', "LINK_QUALITY": '' @ link_quality c
       @ '', "LINK_MODEL": "Fixed"''\<close>

definition link :: "int \<Rightarrow> int \<Rightarrow> int \<Rightarrow> string \<Rightarrow> fixed_link" where
  "link a b r q = \<lparr>from_id = a, to_id = b, rssi = r, link_quality = q\<rparr>"

text \<open>
  The list \<^verbatim>\<open>connections\<close> as it stands at line 89: the three loop nests of lines
  61-66, 69-76 and 79-87, each iteration appending the link and then its reverse.
\<close>

definition connection_entries :: "int \<Rightarrow> int \<Rightarrow> fixed_link list" where
  "connection_entries num_clusters num_per_cluster =
     (let rssi = DEFAULT_RSSI;
          connections = [];
          connections =
            fold (\<lambda>i connections.
                    let ident = i + 2;
                        connections = connections @ [link 1 ident rssi TTP_TO_GATEWAY_LINK_QUALITY];
                        connections = connections @ [link ident 1 rssi TTP_TO_GATEWAY_LINK_QUALITY]
                    in connections)
                 (py_range num_clusters) connections;
          connections =
            fold (\<lambda>i connections.
                    let ttp = i + 2 in
                    fold (\<lambda>j connections.
                            let node = 2 + num_clusters + i * num_per_cluster + j;
                                connections = connections @ [link ttp node rssi CLUSTER_TO_TTP_LINK_QUALITY];
                                connections = connections @ [link node ttp rssi CLUSTER_TO_TTP_LINK_QUALITY]
                            in connections)
                         (py_range num_per_cluster) connections)
                 (py_range num_clusters) connections;
          connections =
            fold (\<lambda>i connections.
                    fold (\<lambda>j connections.
                            let node1 = 2 + num_clusters + i * num_per_cluster + j in
                            fold (\<lambda>k connections.
                                    let node2 = 2 + num_clusters + i * num_per_cluster + k;
                                        connections = connections @ [link node1 node2 rssi CLUSTER_INTERNAL_LINK_QUALITY];
                                        connections = connections @ [link node2 node1 rssi CLUSTER_INTERNAL_LINK_QUALITY]
                                    in connections)
                                 (py_range2 (j + 1) num_per_cluster) connections)
                         (py_range num_per_cluster) connections)
                 (py_range num_clusters) connections
      in connections)"

definition generate_connections :: "int \<Rightarrow> int \<Rightarrow> string" where
  "generate_connections num_clusters num_per_cluster =
     bracketed (map fixed_link_str (connection_entries num_clusters num_per_cluster))"

text \<open>
  Vocabulary for the shape of the link list: the endpoints of a link, the identifier of
  member \<open>j\<close> of cluster \<open>i\<close> (the expression of lines 72, 81 and 83), and the three
  families of directed edges: the star of the relays into the gateway, the star of each
  cluster's members into its relay, and the complete graph on each cluster's members.
\<close>

definition link_ends :: "fixed_link \<Rightarrow> int \<times> int" where
  "link_ends c = (from_id c, to_id c)"

definition member_id :: "int \<Rightarrow> int \<Rightarrow> int \<Rightarrow> int \<Rightarrow> int" where
  "member_id nc npc i j = 2 + nc + i * npc + j"

definition gateway_star :: "int \<Rightarrow> (int \<times> int) set" where
  "gateway_star nc = {e. \<exists>i. 0 \<le> i \<and> i < nc \<and> (e = (1, i + 2) \<or> e = (i + 2, 1))}"

definition relay_stars :: "int \<Rightarrow> int \<Rightarrow> (int \<times> int) set" where
  "relay_stars nc npc =
     {e. \<exists>i j. 0 \<le> i \<and> i < nc \<and> 0 \<le> j \<and> j < npc
            \<and> (e = (i + 2, member_id nc npc i j) \<or> e = (member_id nc npc i j, i + 2))}"

definition cluster_cliques :: "int \<Rightarrow> int \<Rightarrow> (int \<times> int) set" where
  "cluster_cliques nc npc =
     {e. \<exists>i j k. 0 \<le> i \<and> i < nc \<and> 0 \<le> j \<and> j < npc \<and> 0 \<le> k \<and> k < npc \<and> j \<noteq> k
            \<and> e = (member_id nc npc i j, member_id nc npc i k)}"


text \<open>
  The endpoint list falls into segments, one per loop: \<open>gw_seg\<close> for the first loop,
  \<open>relay_seg\<close> for one cluster of the second, \<open>pair_seg\<close> for one member of one cluster
  of the third (the innermost loop over \<open>k\<close>) and \<open>clique_seg\<close> for one cluster of it.
\<close>

definition gw_seg :: "int \<Rightarrow> (int \<times> int) list" where
  "gw_seg nc = concat (map (\<lambda>i. [(1, i + 2), (i + 2, 1)]) (py_range nc))"

definition relay_seg :: "int \<Rightarrow> int \<Rightarrow> int \<Rightarrow> (int \<times> int) list" where
  "relay_seg nc npc i = concat (map (\<lambda>j.
            [(i + 2, member_id nc npc i j), (member_id nc npc i j, i + 2)]) (py_range npc))"

definition pair_seg :: "int \<Rightarrow> int \<Rightarrow> int \<Rightarrow> int \<Rightarrow> (int \<times> int) list" where
  "pair_seg nc npc i j = concat (map (\<lambda>k.
            [(member_id nc npc i j, member_id nc npc i k),
             (member_id nc npc i k, member_id nc npc i j)]) (py_range2 (j + 1) npc))"

definition clique_seg :: "int \<Rightarrow> int \<Rightarrow> int \<Rightarrow> (int \<times> int) list" where
  "clique_seg nc npc i = concat (map (pair_seg nc npc i) (py_range npc))"



section \<open>Mobile topology: \<^verbatim>\<open>niharika-ttp-smart-home/generate-network-with-mobility.py\<close>\<close>

text \<open>
  \<^verbatim>\<open>get_num_mobile_per_cluster\<close> (lines 33-36); \<^verbatim>\<open>//\<close> is floor division, as \<open>div\<close> on
  \<^typ>\<open>int\<close> is. It returns the pair \<^verbatim>\<open>(num_mobile, num_static)\<close>.
\<close>

definition get_num_mobile_per_cluster :: "int \<Rightarrow> int \<times> int" where
  "get_num_mobile_per_cluster num_total =
     (let num_static = num_total * 2 div 3;
          num_mobile = num_total - num_static
      in (num_mobile, num_static))"

text \<open>
  The loop bodies of \<^verbatim>\<open>generate_positions\<close> (lines 106-111, 121-126 and 133-136), each
  taking the value of \<^verbatim>\<open>next_id\<close> it is run with. A relay lies on the radius-500 circle;
  a static member lies on a radius-40 circle around the point
  \<^verbatim>\<open>(cluster_x, cluster_y)\<close>, computed by the relay's own expression; a mobile member
  is placed at that point itself.
\<close>

definition relay_position_mobile :: "'f float_ops \<Rightarrow> int \<Rightarrow> int \<Rightarrow> int \<Rightarrow> position" where
  "relay_position_mobile ops num_clusters i next_id =
     (let x = circle_x ops 500 (i + 1) num_clusters;
          y = circle_y ops 500 (i + 1) num_clusters
      in \<lparr>pos_id = next_id, pos_x = f_round ops x, pos_y = f_round ops y\<rparr>)"

definition static_position_mobile ::
  "'f float_ops \<Rightarrow> int \<Rightarrow> int \<Rightarrow> int \<Rightarrow> int \<Rightarrow> int \<Rightarrow> position" where
  "static_position_mobile ops num_clusters ns i j next_id =
     (let cluster_x = circle_x ops 500 (i + 1) num_clusters;
          cluster_y = circle_y ops 500 (i + 1) num_clusters;
          x = circle_x ops 40 (j + 1) ns;
          y = circle_y ops 40 (j + 1) ns
      in \<lparr>pos_id = next_id,
          pos_x = f_round ops (f_add ops x cluster_x),
          pos_y = f_round ops (f_add ops y cluster_y)\<rparr>)"

definition mobile_position_mobile :: "'f float_ops \<Rightarrow> int \<Rightarrow> int \<Rightarrow> int \<Rightarrow> position" where
  "mobile_position_mobile ops num_clusters i next_id =
     (let cluster_x = circle_x ops 500 (i + 1) num_clusters;
          cluster_y = circle_y ops 500 (i + 1) num_clusters
      in \<lparr>pos_id = next_id, pos_x = f_round ops cluster_x, pos_y = f_round ops cluster_y\<rparr>)"

text \<open>
  The list \<^verbatim>\<open>positions\<close> as it stands at line 138. The state of every loop is the pair
  of the list and the counter \<^verbatim>\<open>next_id\<close>; an iteration builds its entry from the
  counter, increments the counter and appends the entry.
\<close>

definition position_entries_mobile :: "'f float_ops \<Rightarrow> int \<Rightarrow> int \<Rightarrow> position list" where
  "position_entries_mobile ops num_clusters num_per_cluster =
     (let positions = [];
          next_id = 1;
          position = \<lparr>pos_id = next_id, pos_x = 0, pos_y = 0\<rparr>;
          next_id = next_id + 1;
          positions = positions @ [position];
          (positions, next_id) =
            fold (\<lambda>i (positions, next_id).
                    (positions @ [relay_position_mobile ops num_clusters i next_id], next_id + 1))
                 (py_range num_clusters) (positions, next_id);
          (nm, ns) = get_num_mobile_per_cluster num_per_cluster;
          (positions, next_id) =
            fold (\<lambda>i. fold (\<lambda>j (positions, next_id).
                              (positions @ [static_position_mobile ops num_clusters ns i j next_id],
                               next_id + 1))
                           (py_range ns))
                 (py_range num_clusters) (positions, next_id);
          (positions, next_id) =
            fold (\<lambda>i. fold (\<lambda>j (positions, next_id).
                              (positions @ [mobile_position_mobile ops num_clusters i next_id],
                               next_id + 1))
                           (py_range nm))
                 (py_range num_clusters) (positions, next_id)
      in positions)"

definition generate_positions_mobile :: "'f float_ops \<Rightarrow> int \<Rightarrow> int \<Rightarrow> string" where
  "generate_positions_mobile ops num_clusters num_per_cluster =
     bracketed (map position_str (position_entries_mobile ops num_clusters num_per_cluster))"


section \<open>Reading the generated lists back\<close>

text \<open>
  The generators return text. To say what a generated list holds, the text is read back
  into its entries: \<open>read_bracketed\<close> takes off the opening \<^verbatim>\<open>[{\<close> and the closing
  \<^verbatim>\<open>}]\<close> with its newline and splits what is between them at every separator
  \<^verbatim>\<open>},\n    {\<close>, as \<^verbatim>\<open>str.split\<close> does; \<open>split_on\<close> scans the text, skipping
  the rest of a separator it has found. A text without the brackets is not a list.
\<close>

definition strip_prefix :: "string \<Rightarrow> string \<Rightarrow> string option" where
  "strip_prefix p s = (if take (length p) s = p then Some (drop (length p) s) else None)"

definition strip_suffix :: "string \<Rightarrow> string \<Rightarrow> string option" where
  "strip_suffix p s =
     (if length p \<le> length s \<and> drop (length s - length p) s = p
      then Some (take (length s - length p) s) else None)"

fun split_on :: "string \<Rightarrow> nat \<Rightarrow> string \<Rightarrow> string \<Rightarrow> string list" where
  "split_on sep skip cur [] = [cur]"
| "split_on sep (Suc skip) cur (c # s) = split_on sep skip cur s"
| "split_on sep 0 cur (c # s) =
     (if sep \<noteq> [] \<and> take (length sep) (c # s) = sep
      then cur # split_on sep (length sep - 1) [] s
      else split_on sep 0 (cur @ [c]) s)"

definition py_split :: "string \<Rightarrow> string \<Rightarrow> string list" where
  "py_split sep s = split_on sep 0 [] s"

definition read_bracketed :: "string \<Rightarrow> string list option" where
  "read_bracketed text =
     (case strip_prefix ''[{'' text of
        None \<Rightarrow> None
      | Some s \<Rightarrow>
          (case strip_suffix (''}]'' @ [CHR 0x0A]) s of
             None \<Rightarrow> None
           | Some body \<Rightarrow> Some (py_split (''},'' @ [CHR 0x0A] @ ''    {'') body)))"

text \<open>
  A decimal integer is read as \<^verbatim>\<open>int\<close> reads it: an optional minus sign and at least
  one digit. \<open>read_field\<close> reads a key and the integer after it, up to the first
  character that is neither a digit nor a minus sign, and returns the rest of the entry.
\<close>

definition digit_value :: "char \<Rightarrow> nat option" where
  "digit_value =
     map_of [(CHR ''0'', 0), (CHR ''1'', 1), (CHR ''2'', 2), (CHR ''3'', 3), (CHR ''4'', 4),
             (CHR ''5'', 5), (CHR ''6'', 6), (CHR ''7'', 7), (CHR ''8'', 8), (CHR ''9'', 9)]"

fun digits_value :: "nat \<Rightarrow> string \<Rightarrow> nat option" where
  "digits_value acc [] = Some acc"
| "digits_value acc (c # s) =
     (case digit_value c of None \<Rightarrow> None | Some d \<Rightarrow> digits_value (10 * acc + d) s)"

definition int_of_str :: "string \<Rightarrow> int option" where
  "int_of_str s =
     (case s of
        [] \<Rightarrow> None
      | c # r \<Rightarrow>
          if c = CHR ''-''
          then (if r = [] then None else map_option (\<lambda>n. - int n) (digits_value 0 r))
          else map_option int (digits_value 0 s))"

definition int_char :: "char \<Rightarrow> bool" where
  "int_char c = (c \<in> set ''-0123456789'')"

definition read_int :: "string \<Rightarrow> (int \<times> string) option" where
  "read_int s =
     (case int_of_str (takeWhile int_char s) of
        None \<Rightarrow> None
      | Some i \<Rightarrow> Some (i, dropWhile int_char s))"

definition read_field :: "string \<Rightarrow> string \<Rightarrow> (int \<times> string) option" where
  "read_field key s = (case strip_prefix key s of None \<Rightarrow> None | Some r \<Rightarrow> read_int r)"

text \<open>
  Reading an entry of the position list and an entry of the link list: the keys in the
  order the generators write them, nothing before, between or after. The link quality is
  the text between its key and the closing \<^verbatim>\<open>, "LINK_MODEL": "Fixed"\<close>. A list is read
  when every entry is.
\<close>

definition read_position :: "string \<Rightarrow> position option" where
  \<open>read_position entry =
     (case read_field ''"ID": '' entry of
        None \<Rightarrow> None
      | Some (i, s) \<Rightarrow>
          (case read_field '', "X": '' s of
             None \<Rightarrow> None
           | Some (x, s) \<Rightarrow>
               (case read_field '', "Y": '' s of
                  None \<Rightarrow> None
                | Some (y, s) \<Rightarrow>
                    if s = [] then Some \<lparr>pos_id = i, pos_x = x, pos_y = y\<rparr> else None)))\<close>

definition read_positions :: "string \<Rightarrow> position list option" where
  "read_positions text =
     (case read_bracketed text of
        None \<Rightarrow> None
      | Some entries \<Rightarrow> those (map read_position entries))"

definition read_link :: "string \<Rightarrow> fixed_link option" where
  \<open>read_link entry =
     (case read_field ''"FROM_ID": '' entry of
        None \<Rightarrow> None
      | Some (a, s) \<Rightarrow>
          (case read_field '', "TO_ID": '' s of
             None \<Rightarrow> None
           | Some (b, s) \<Rightarrow>
               (case read_field '', "RSSI": '' s of
                  None \<Rightarrow> None
                | Some (r, s) \<Rightarrow>
                    (case strip_prefix '', "LINK_QUALITY": '' s of
                       None \<Rightarrow> None
                     | Some s \<Rightarrow>
                         (case strip_suffix '', "LINK_MODEL": "Fixed"'' s of
                            None \<Rightarrow> None
                          | Some q \<Rightarrow>
                              Some \<lparr>from_id = a, to_id = b, rssi = r, link_quality = q\<rparr>)))))\<close>

definition read_links :: "string \<Rightarrow> fixed_link list option" where
  "read_links text =
     (case read_bracketed text of
        None \<Rightarrow> None
      | Some entries \<Rightarrow> those (map read_link entries))"


section \<open>Loaded results and metric extraction\<close>

text \<open>
  \<^verbatim>\<open>stats_merged.json\<close> as \<^verbatim>\<open>json.load\<close> returns it: a dictionary from run to a
  dictionary from node to a dictionary from metric name to a number or \<^verbatim>\<open>null\<close>
  (\<open>None\<close>). A number is the real it stands for. An experiment's \<^verbatim>\<open>results\<close> attribute is
  \<^verbatim>\<open>None\<close> until \<^verbatim>\<open>load_results\<close> has run; iterating over it then raises
  \<^verbatim>\<open>TypeError\<close>. The record fields carry the prefix \<open>attr_\<close>; the values of the options
  dictionary are the kinds the scripts store in it.
\<close>

datatype pyval = PyStr string | PyInt int | PyBool bool | PyEmptyList

type_synonym metrics = "(string \<times> real option) list"
type_synonym run_results = "(string \<times> metrics) list"
type_synonym results_tree = "(string \<times> run_results) list"

record Experiment =
  attr_name :: string
  attr_results_dir :: string
  attr_options :: "(string \<times> pyval) list"
  attr_results :: "results_tree option"

subsection \<open>\<^verbatim>\<open>mean\<close>, \<^verbatim>\<open>sum\<close>, \<^verbatim>\<open>min\<close> and \<^verbatim>\<open>max\<close>\<close>

text \<open>
  \<^verbatim>\<open>sum(series)\<close> on a list whose items are numbers or \<^verbatim>\<open>None\<close>: it raises
  \<^verbatim>\<open>TypeError\<close> when it meets a \<^verbatim>\<open>None\<close>, and otherwise returns the sum of the numbers
  as the interpreter computes it.
\<close>

fun numbers :: "real option list \<Rightarrow> py_error + real list" where
  "numbers [] = Inr []"
| "numbers (None # series) = Inl TypeError"
| "numbers (Some v # series) =
     (case numbers series of Inl e \<Rightarrow> Inl e | Inr vs \<Rightarrow> Inr (v # vs))"

definition py_sum :: "real float_ops \<Rightarrow> real option list \<Rightarrow> py_error + real" where
  "py_sum ops series =
     (case numbers series of Inl e \<Rightarrow> Inl e | Inr vs \<Rightarrow> Inr (f_sum ops vs))"

text \<open>\<^verbatim>\<open>mean\<close> (lines 139-141): \<^verbatim>\<open>0.0\<close> for the empty series.\<close>

definition mean :: "real float_ops \<Rightarrow> real option list \<Rightarrow> py_error + real" where
  "mean ops series =
     (if length series = 0 then Inr 0
      else case py_sum ops series of
             Inl e \<Rightarrow> Inl e
           | Inr s \<Rightarrow> Inr (f_div ops s (f_of_int ops (int (length series)))))"

text \<open>\<^verbatim>\<open>min\<close> and \<^verbatim>\<open>max\<close> of a list of numbers: \<^verbatim>\<open>ValueError\<close> on the empty list.\<close>

fun py_min :: "real list \<Rightarrow> py_error + real" where
  "py_min [] = Inl ValueError"
| "py_min (x # xs) = Inr (fold min xs x)"

fun py_max :: "real list \<Rightarrow> py_error + real" where
  "py_max [] = Inl ValueError"
| "py_max (x # xs) = Inr (fold max xs x)"

subsection \<open>\<^verbatim>\<open>extract_metric\<close> of \<^verbatim>\<open>niharika-ttp-smart-home/experiment.py\<close>\<close>

text \<open>
  Lines 145-169, one function per loop, the list being built as accumulator. The
  \<^verbatim>\<open>print\<close> of line 166 writes to the terminal and is left out.
\<close>

fun extract_metric_nodes ::
  "string \<Rightarrow> real option \<Rightarrow> run_results \<Rightarrow> real option list \<Rightarrow> py_error + real option list"
where
  "extract_metric_nodes metric_name default_value [] usable_run_results =
     Inr usable_run_results"
| "extract_metric_nodes metric_name default_value ((node, node_results) # rest)
       usable_run_results =
     (if node \<in> set [''global-stats'', ''1'']
      then extract_metric_nodes metric_name default_value rest usable_run_results
      else case map_of node_results metric_name of
             None \<Rightarrow> Inl KeyError
           | Some v \<Rightarrow>
               extract_metric_nodes metric_name default_value rest
                 (usable_run_results @ [if v = None then default_value else v]))"

fun extract_metric_runs ::
  "string \<Rightarrow> real option \<Rightarrow> (real option list \<Rightarrow> py_error + real) \<Rightarrow> results_tree
     \<Rightarrow> real list \<Rightarrow> py_error + real list"
where
  "extract_metric_runs metric_name default_value aggregate_function [] exp_results =
     Inr exp_results"
| "extract_metric_runs metric_name default_value aggregate_function ((run, run_results) # rest)
       exp_results =
     (if run = ''aggregate-stats''
      then extract_metric_runs metric_name default_value aggregate_function rest exp_results
      else case extract_metric_nodes metric_name default_value run_results [] of
             Inl e \<Rightarrow> Inl e
           | Inr usable_run_results \<Rightarrow>
               (case aggregate_function usable_run_results of
                  Inl e \<Rightarrow> Inl e
                | Inr a \<Rightarrow>
                    extract_metric_runs metric_name default_value aggregate_function rest
                      (exp_results @ [a])))"

fun extract_metric_exps ::
  "string \<Rightarrow> real option \<Rightarrow> (real option list \<Rightarrow> py_error + real) \<Rightarrow> Experiment list
     \<Rightarrow> real list list \<Rightarrow> py_error + real list list"
where
  "extract_metric_exps metric_name default_value aggregate_function [] results = Inr results"
| "extract_metric_exps metric_name default_value aggregate_function (experiment # rest) results =
     (case attr_results experiment of
        None \<Rightarrow> Inl TypeError
      | Some tree \<Rightarrow>
          (case extract_metric_runs metric_name default_value aggregate_function tree [] of
             Inl e \<Rightarrow> Inl e
           | Inr exp_results \<Rightarrow>
               extract_metric_exps metric_name default_value aggregate_function rest
                 (results @ [exp_results])))"

definition extract_metric ::
  "Experiment list \<Rightarrow> string \<times> real option \<Rightarrow> (real option list \<Rightarrow> py_error + real)
     \<Rightarrow> py_error + real list list"
where
  "extract_metric experiments arguments aggregate_function =
     (let (metric_name, default_value) = arguments
      in extract_metric_exps metric_name default_value aggregate_function experiments [])"

subsection \<open>Single-metric extraction as the specification words it\<close>

text \<open>
  The specification's description of \<^verbatim>\<open>extractMetric\<close>, written down as it reads: for
  each experiment, for each run other than the reserved aggregate run, for each node other
  than the gateway and the global-summary row, read the metric, substitute the default for
  a null, collect the values of the run and reduce them with the aggregation function.
  A missing metric key is a failure, and so is a failure of the aggregation function; of
  several failures, the first one in iteration order is reported.
\<close>

fun sequence_err :: "('e + 'a) list \<Rightarrow> 'e + 'a list" where
  "sequence_err [] = Inr []"
| "sequence_err (Inl e # rest) = Inl e"
| "sequence_err (Inr v # rest) =
     (case sequence_err rest of Inl e \<Rightarrow> Inl e | Inr vs \<Rightarrow> Inr (v # vs))"

definition spec_node_values :: "string \<Rightarrow> real option \<Rightarrow> run_results \<Rightarrow> py_error + real option list"
where
  "spec_node_values metric default_value nodes =
     sequence_err
       (map (\<lambda>(node, node_results).
               case map_of node_results metric of
                 None \<Rightarrow> Inl KeyError
               | Some None \<Rightarrow> Inr default_value
               | Some (Some x) \<Rightarrow> Inr (Some x))
            (filter (\<lambda>(node, node_results). node \<noteq> ''1'' \<and> node \<noteq> ''global-stats'') nodes))"

definition spec_run_value ::
  "string \<Rightarrow> real option \<Rightarrow> (real option list \<Rightarrow> py_error + real) \<Rightarrow> run_results
     \<Rightarrow> py_error + real"
where
  "spec_run_value metric default_value aggregate nodes =
     (case spec_node_values metric default_value nodes of
        Inl e \<Rightarrow> Inl e
      | Inr node_values \<Rightarrow> aggregate node_values)"

definition spec_experiment_series ::
  "string \<Rightarrow> real option \<Rightarrow> (real option list \<Rightarrow> py_error + real) \<Rightarrow> Experiment
     \<Rightarrow> py_error + real list"
where
  "spec_experiment_series metric default_value aggregate experiment =
     (case attr_results experiment of
        None \<Rightarrow> Inl TypeError
      | Some tree \<Rightarrow>
          sequence_err
            (map (\<lambda>(run, nodes). spec_run_value metric default_value aggregate nodes)
                 (filter (\<lambda>(run, nodes). run \<noteq> ''aggregate-stats'') tree)))"

definition extractMetric_spec ::
  "Experiment list \<Rightarrow> string \<Rightarrow> real option \<Rightarrow> (real option list \<Rightarrow> py_error + real)
     \<Rightarrow> py_error + real list list"
where
  "extractMetric_spec experiments metric default_value aggregate =
     sequence_err (map (spec_experiment_series metric default_value aggregate) experiments)"

subsection \<open>\<^verbatim>\<open>extract_metrics\<close> of \<^verbatim>\<open>niharika-ttp-smart-home/experiment.py\<close>\<close>

text \<open>
  Lines 173-197. The values are appended as they are, \<^verbatim>\<open>None\<close> included. The combining
  function is applied after all runs of the experiment have been aggregated.
\<close>

fun extract_metrics_nodes ::
  "string \<Rightarrow> string \<Rightarrow> run_results \<Rightarrow> real option list \<times> real option list
     \<Rightarrow> py_error + (real option list \<times> real option list)"
where
  "extract_metrics_nodes metric1_name metric2_name [] usable = Inr usable"
| "extract_metrics_nodes metric1_name metric2_name ((node, node_results) # rest)
       (usable_run_results1, usable_run_results2) =
     (if node \<in> set [''global-stats'', ''1'']
      then extract_metrics_nodes metric1_name metric2_name rest
             (usable_run_results1, usable_run_results2)
      else case map_of node_results metric1_name of
             None \<Rightarrow> Inl KeyError
           | Some v1 \<Rightarrow>
               (case map_of node_results metric2_name of
                  None \<Rightarrow> Inl KeyError
                | Some v2 \<Rightarrow>
                    extract_metrics_nodes metric1_name metric2_name rest
                      (usable_run_results1 @ [v1], usable_run_results2 @ [v2])))"

fun extract_metrics_runs ::
  "string \<Rightarrow> string \<Rightarrow> (real option list \<Rightarrow> py_error + real) \<Rightarrow> results_tree
     \<Rightarrow> real list \<times> real list \<Rightarrow> py_error + (real list \<times> real list)"
where
  "extract_metrics_runs metric1_name metric2_name aggregate_function [] exp_results =
     Inr exp_results"
| "extract_metrics_runs metric1_name metric2_name aggregate_function ((run, run_results) # rest)
       (exp_results1, exp_results2) =
     (if run = ''aggregate-stats''
      then extract_metrics_runs metric1_name metric2_name aggregate_function rest
             (exp_results1, exp_results2)
      else case extract_metrics_nodes metric1_name metric2_name run_results ([], []) of
             Inl e \<Rightarrow> Inl e
           | Inr (usable_run_results1, usable_run_results2) \<Rightarrow>
               (case aggregate_function usable_run_results1 of
                  Inl e \<Rightarrow> Inl e
                | Inr a1 \<Rightarrow>
                    (case aggregate_function usable_run_results2 of
                       Inl e \<Rightarrow> Inl e
                     | Inr a2 \<Rightarrow>
                         extract_metrics_runs metric1_name metric2_name aggregate_function
                           rest (exp_results1 @ [a1], exp_results2 @ [a2]))))"

text \<open>The list comprehension of line 196: the first call that raises ends it.\<close>

fun combine_all ::
  "(real \<Rightarrow> real \<Rightarrow> py_error + real) \<Rightarrow> (real \<times> real) list \<Rightarrow> py_error + real list"
where
  "combine_all function [] = Inr []"
| "combine_all function ((x, y) # rest) =
     (case function x y of
        Inl e \<Rightarrow> Inl e
      | Inr v \<Rightarrow> (case combine_all function rest of Inl e \<Rightarrow> Inl e | Inr vs \<Rightarrow> Inr (v # vs)))"

fun extract_metrics_exps ::
  "string \<Rightarrow> string \<Rightarrow> (real \<Rightarrow> real \<Rightarrow> py_error + real)
     \<Rightarrow> (real option list \<Rightarrow> py_error + real) \<Rightarrow> Experiment list
     \<Rightarrow> real list list \<Rightarrow> py_error + real list list"
where
  "extract_metrics_exps metric1_name metric2_name function aggregate_function [] results =
     Inr results"
| "extract_metrics_exps metric1_name metric2_name function aggregate_function (experiment # rest)
       results =
     (case attr_results experiment of
        None \<Rightarrow> Inl TypeError
      | Some tree \<Rightarrow>
          (case extract_metrics_runs metric1_name metric2_name aggregate_function tree ([], []) of
             Inl e \<Rightarrow> Inl e
           | Inr (exp_results1, exp_results2) \<Rightarrow>
               (case combine_all function (zip exp_results1 exp_results2) of
                  Inl e \<Rightarrow> Inl e
                | Inr combined \<Rightarrow>
                    extract_metrics_exps metric1_name metric2_name function aggregate_function
                      rest (results @ [combined]))))"

definition extract_metrics ::
  "Experiment list \<Rightarrow> string \<times> string \<times> (real \<Rightarrow> real \<Rightarrow> py_error + real)
     \<Rightarrow> (real option list \<Rightarrow> py_error + real) \<Rightarrow> py_error + real list list"
where
  "extract_metrics experiments arguments aggregate_function =
     (let (metric1_name, metric2_name, function) = arguments
      in extract_metrics_exps metric1_name metric2_name function aggregate_function
           experiments [])"

text \<open>
  The combining function that \<^verbatim>\<open>main\<close> passes for the application PDR (line 270):
  \<^verbatim>\<open>lambda x, y: 100.0 * (1.0 - x / (x + y)) if x + y else 0\<close>.
\<close>

definition pdr :: "real float_ops \<Rightarrow> real \<Rightarrow> real \<Rightarrow> py_error + real" where
  "pdr ops x y =
     (if f_add ops x y \<noteq> 0
      then Inr (f_mul ops 100 (f_sub ops 1 (f_div ops x (f_add ops x y))))
      else Inr 0)"

subsection \<open>Paired-metric extraction as the specification words it\<close>

text \<open>
  The specification's description of \<^verbatim>\<open>extractMetrics\<close>: with the node and run filtering
  of the single-metric extraction, collect two parallel node-level sequences per run (here
  a sequence of pairs, whose first and second components are the two sequences), reduce
  each with the aggregation function, and apply the combining function to the two
  aggregates of each run.
\<close>

definition spec_pair_values ::
  "string \<Rightarrow> string \<Rightarrow> run_results \<Rightarrow> py_error + (real option \<times> real option) list"
where
  "spec_pair_values metric1 metric2 nodes =
     sequence_err
       (map (\<lambda>(node, node_results).
               case map_of node_results metric1 of
                 None \<Rightarrow> Inl KeyError
               | Some v1 \<Rightarrow>
                   (case map_of node_results metric2 of
                      None \<Rightarrow> Inl KeyError
                    | Some v2 \<Rightarrow> Inr (v1, v2)))
            (filter (\<lambda>(node, node_results). node \<noteq> ''1'' \<and> node \<noteq> ''global-stats'') nodes))"

definition spec_run_pair ::
  "string \<Rightarrow> string \<Rightarrow> (real option list \<Rightarrow> py_error + real) \<Rightarrow> run_results
     \<Rightarrow> py_error + (real \<times> real)"
where
  "spec_run_pair metric1 metric2 aggregate nodes =
     (case spec_pair_values metric1 metric2 nodes of
        Inl e \<Rightarrow> Inl e
      | Inr pairs \<Rightarrow>
          (case aggregate (map fst pairs) of
             Inl e \<Rightarrow> Inl e
           | Inr aggregate1 \<Rightarrow>
               (case aggregate (map snd pairs) of
                  Inl e \<Rightarrow> Inl e
                | Inr aggregate2 \<Rightarrow> Inr (aggregate1, aggregate2))))"

definition spec_experiment_combined ::
  "string \<Rightarrow> string \<Rightarrow> (real \<Rightarrow> real \<Rightarrow> py_error + real)
     \<Rightarrow> (real option list \<Rightarrow> py_error + real) \<Rightarrow> Experiment \<Rightarrow> py_error + real list"
where
  "spec_experiment_combined metric1 metric2 combine aggregate experiment =
     (case attr_results experiment of
        None \<Rightarrow> Inl TypeError
      | Some tree \<Rightarrow>
          (case sequence_err
                  (map (\<lambda>(run, nodes). spec_run_pair metric1 metric2 aggregate nodes)
                       (filter (\<lambda>(run, nodes). run \<noteq> ''aggregate-stats'') tree)) of
             Inl e \<Rightarrow> Inl e
           | Inr aggregates \<Rightarrow>
               sequence_err (map (\<lambda>(aggregate1, aggregate2). combine aggregate1 aggregate2)
                                 aggregates)))"

definition extractMetrics_spec ::
  "Experiment list \<Rightarrow> string \<Rightarrow> string \<Rightarrow> (real \<Rightarrow> real \<Rightarrow> py_error + real)
     \<Rightarrow> (real option list \<Rightarrow> py_error + real) \<Rightarrow> py_error + real list list"
where
  "extractMetrics_spec experiments metric1 metric2 combine aggregate =
     sequence_err (map (spec_experiment_combined metric1 metric2 combine aggregate) experiments)"

subsection \<open>\<^verbatim>\<open>extract_metric\<close> of \<^verbatim>\<open>result-visualization/experiment.py\<close>\<close>

text \<open>
  Lines 64-86: no run is skipped, and the average is the running total (\<open>total'\<close> here,
  \<^verbatim>\<open>total\<close> in the source) divided by the running count, which raises
  \<^verbatim>\<open>ZeroDivisionError\<close> when no node was counted.
\<close>

fun extract_metric_rv_nodes ::
  "real float_ops \<Rightarrow> string \<Rightarrow> real option \<Rightarrow> run_results \<Rightarrow> real \<times> int
     \<Rightarrow> py_error + (real \<times> int)"
where
  "extract_metric_rv_nodes ops metric_name default_value [] state = Inr state"
| "extract_metric_rv_nodes ops metric_name default_value ((node, node_results) # rest)
       (total', num_nodes) =
     (if node \<in> set [''global-stats'', ''1'']
      then extract_metric_rv_nodes ops metric_name default_value rest (total', num_nodes)
      else case map_of node_results metric_name of
             None \<Rightarrow> Inl KeyError
           | Some v \<Rightarrow>
               (case (if v = None then default_value else v) of
                  None \<Rightarrow> Inl TypeError
                | Some x \<Rightarrow>
                    extract_metric_rv_nodes ops metric_name default_value rest
                      (f_add ops total' x, num_nodes + 1)))"

fun extract_metric_rv_runs ::
  "real float_ops \<Rightarrow> string \<Rightarrow> real option \<Rightarrow> results_tree \<Rightarrow> real list
     \<Rightarrow> py_error + real list"
where
  "extract_metric_rv_runs ops metric_name default_value [] exp_results = Inr exp_results"
| "extract_metric_rv_runs ops metric_name default_value ((run, run_results) # rest)
       exp_results =
     (case extract_metric_rv_nodes ops metric_name default_value run_results (0, 0) of
        Inl e \<Rightarrow> Inl e
      | Inr (total', num_nodes) \<Rightarrow>
          (if num_nodes = 0 then Inl ZeroDivisionError
           else let avg = f_div ops total' (f_of_int ops num_nodes)
                in extract_metric_rv_runs ops metric_name default_value rest
                     (exp_results @ [avg])))"

fun extract_metric_rv_exps ::
  "real float_ops \<Rightarrow> string \<Rightarrow> real option \<Rightarrow> Experiment list \<Rightarrow> real list list
     \<Rightarrow> py_error + real list list"
where
  "extract_metric_rv_exps ops metric_name default_value [] results = Inr results"
| "extract_metric_rv_exps ops metric_name default_value (experiment # rest) results =
     (case attr_results experiment of
        None \<Rightarrow> Inl TypeError
      | Some tree \<Rightarrow>
          (case extract_metric_rv_runs ops metric_name default_value tree [] of
             Inl e \<Rightarrow> Inl e
           | Inr exp_results \<Rightarrow>
               extract_metric_rv_exps ops metric_name default_value rest
                 (results @ [exp_results])))"

definition extract_metric_rv ::
  "real float_ops \<Rightarrow> Experiment list \<Rightarrow> string \<times> real option \<Rightarrow> py_error + real list list"
where
  "extract_metric_rv ops experiments arguments =
     (let (metric_name, default_value) = arguments
      in extract_metric_rv_exps ops metric_name default_value experiments [])"

subsection \<open>Results on which the two single-metric extractions can be compared\<close>

text \<open>
  \<open>usable_nodes\<close> are the entries of a run that are neither the gateway nor the
  global-summary row. A tree is \<open>plain\<close> when it has no run named \<^verbatim>\<open>aggregate-stats\<close> and
  every run has at least one usable node.
\<close>

definition usable_nodes :: "run_results \<Rightarrow> run_results" where
  "usable_nodes nodes =
     filter (\<lambda>(node, node_results). node \<noteq> ''1'' \<and> node \<noteq> ''global-stats'') nodes"

definition plain_tree :: "results_tree \<Rightarrow> bool" where
  "plain_tree tree =
     list_all (\<lambda>(run, nodes). run \<noteq> ''aggregate-stats'' \<and> usable_nodes nodes \<noteq> []) tree"

definition plain_experiments :: "Experiment list \<Rightarrow> bool" where
  "plain_experiments experiments =
     list_all (\<lambda>experiment. case attr_results experiment of
                               None \<Rightarrow> True
                             | Some tree \<Rightarrow> plain_tree tree) experiments"


section \<open>Charts: \<^verbatim>\<open>plot\<close>\<close>

text \<open>
  \<^verbatim>\<open>plot\<close> hands its numbers to the plotting library. What it hands over is collected in
  a record: the bar heights, the two lists of error-bar half-lengths, the tick labels, the
  axis label, the limits of the y axis and the name of the file written.
\<close>

record chart =
  bar_heights :: "real list"
  yerr_lower :: "real list"
  yerr_upper :: "real list"
  xtick_labels :: "string list"
  ylabel :: string
  ylim_low :: int
  ylim_high :: int
  file_name :: string

text \<open>\<^verbatim>\<open>sub in s\<close> on strings: \<open>sub\<close> occurs in \<open>s\<close> as a contiguous piece.\<close>

fun py_contains :: "string \<Rightarrow> string \<Rightarrow> bool" where
  "py_contains sub [] = (sub = [])"
| "py_contains sub (c # cs) = (take (length sub) (c # cs) = sub \<or> py_contains sub cs)"

text \<open>
  \<^verbatim>\<open>a / n\<close> for a float \<open>a\<close> and an integer \<open>n\<close> (a length):
  \<^verbatim>\<open>ZeroDivisionError\<close> when \<open>n\<close> is 0.
\<close>

definition py_truediv :: "real float_ops \<Rightarrow> real \<Rightarrow> int \<Rightarrow> py_error + real" where
  "py_truediv ops a n =
     (if n = 0 then Inl ZeroDivisionError else Inr (f_div ops a (f_of_int ops n)))"

text \<open>The loop of lines 210-213 over the per-experiment sequences.\<close>

fun plot_stats ::
  "real float_ops \<Rightarrow> real list list \<Rightarrow> real list \<times> real list \<times> real list
     \<Rightarrow> py_error + (real list \<times> real list \<times> real list)"
where
  "plot_stats ops [] values = Inr values"
| "plot_stats ops (result # rest) (mean_values, min_values, max_values) =
     (case py_truediv ops (f_sum ops result) (int (length result)) of
        Inl e \<Rightarrow> Inl e
      | Inr mean_value \<Rightarrow>
          (case py_min result of
             Inl e \<Rightarrow> Inl e
           | Inr min_value \<Rightarrow>
               (case py_max result of
                  Inl e \<Rightarrow> Inl e
                | Inr max_value \<Rightarrow>
                    plot_stats ops rest
                      (mean_values @ [mean_value], min_values @ [min_value],
                       max_values @ [max_value]))))"

text \<open>
  Lines 207-235, which the two scripts share word for word up to the rotation of the tick
  labels and the bounding box of the saved figure: from the per-experiment sequences to
  what is drawn.
\<close>

definition plot_chart ::
  "real float_ops \<Rightarrow> string \<Rightarrow> string list \<Rightarrow> real list list \<Rightarrow> py_error + chart"
where
  "plot_chart ops title names results =
     (case plot_stats ops results ([], [], []) of
        Inl e \<Rightarrow> Inl e
      | Inr (mean_values, min_values, max_values) \<Rightarrow>
          (case py_min min_values of
             Inl e \<Rightarrow> Inl e
           | Inr lowest \<Rightarrow>
               (case py_max max_values of
                  Inl e \<Rightarrow> Inl e
                | Inr highest \<Rightarrow>
                    (let total_min_value = \<lfloor>lowest\<rfloor> - 1;
                         total_max_value = \<lceil>highest\<rceil> + 1;
                         min_values_yerr =
                           map (\<lambda>(mean_value, mn). f_sub ops mean_value mn)
                               (zip mean_values min_values);
                         max_values_yerr =
                           map (\<lambda>(mean_value, mx). f_sub ops mx mean_value)
                               (zip mean_values max_values)
                     in Inr \<lparr>bar_heights = mean_values,
                             yerr_lower = min_values_yerr,
                             yerr_upper = max_values_yerr,
                             xtick_labels = names,
                             ylabel = title,
                             ylim_low = (if py_contains ''PDR'' title
                                         then total_min_value else 0),
                             ylim_high = total_max_value,
                             file_name = ''plot '' @ title @ ''.pdf''\<rparr>))))"

text \<open>
  \<^verbatim>\<open>plot\<close> of \<^verbatim>\<open>niharika-ttp-smart-home/experiment.py\<close> (lines 200-235) and of
  \<^verbatim>\<open>result-visualization/experiment.py\<close> (lines 117-152): the extraction function is
  called first, and what it raises is raised by \<^verbatim>\<open>plot\<close>.
\<close>

definition plot ::
  "real float_ops \<Rightarrow> string \<Rightarrow> Experiment list
     \<Rightarrow> (Experiment list \<Rightarrow> 'a \<Rightarrow> (real option list \<Rightarrow> py_error + real)
          \<Rightarrow> py_error + real list list)
     \<Rightarrow> 'a \<Rightarrow> (real option list \<Rightarrow> py_error + real) \<Rightarrow> py_error + chart"
where
  "plot ops title experiments function arguments aggregate_function =
     (case function experiments arguments aggregate_function of
        Inl e \<Rightarrow> Inl e
      | Inr results \<Rightarrow> plot_chart ops title (map attr_name experiments) results)"

definition plot_rv ::
  "real float_ops \<Rightarrow> Experiment list
     \<Rightarrow> (Experiment list \<Rightarrow> 'a \<Rightarrow> py_error + real list list)
     \<Rightarrow> 'a \<Rightarrow> string \<Rightarrow> py_error + chart"
where
  "plot_rv ops experiments function arguments title =
     (case function experiments arguments of
        Inl e \<Rightarrow> Inl e
      | Inr results \<Rightarrow> plot_chart ops title (map attr_name experiments) results)"


section \<open>Rendering the configuration file: \<^verbatim>\<open>generate_config_file\<close>\<close>


text \<open>\<^verbatim>\<open>str(value)\<close> for the values an options dictionary holds.\<close>

fun py_str :: "pyval \<Rightarrow> string" where
  "py_str (PyStr s) = s"
| "py_str (PyInt i) = str_int i"
| "py_str (PyBool b) = (if b then ''True'' else ''False'')"
| "py_str PyEmptyList = ''[]''"

text \<open>\<^verbatim>\<open>s.lower()\<close>, on ASCII letters.\<close>

definition py_lower :: "string \<Rightarrow> string" where
  "py_lower s =
     map (\<lambda>c. case map_of (zip ''ABCDEFGHIJKLMNOPQRSTUVWXYZ'' ''abcdefghijklmnopqrstuvwxyz'') c of
                None \<Rightarrow> c
              | Some l \<Rightarrow> l) s"

text \<open>
  \<^verbatim>\<open>s.replace(old, new)\<close>: every occurrence of \<open>old\<close>, found from the left and not
  overlapping, becomes \<open>new\<close>; the text put in is not searched again. For the empty
  \<open>old\<close> Python puts \<open>new\<close> in front of every character and at the end.
\<close>

function py_replace :: "string \<Rightarrow> string \<Rightarrow> string \<Rightarrow> string" where
  "py_replace old new s =
     (if old = [] then new @ concat (map (\<lambda>c. c # new) s)
      else if s = [] then []
      else if take (length old) s = old
           then new @ py_replace old new (drop (length old) s)
           else hd s # py_replace old new (tl s))"
  by pat_completeness auto
termination
  by (relation "measure (\<lambda>(old, new, s). length s)") auto

declare py_replace.simps [simp del]

text \<open>
  The text put in for a value: lines 125-131 of
  \<^verbatim>\<open>niharika-ttp-smart-home/experiment.py\<close> (the same in
  \<^verbatim>\<open>generate-network-with-mobility.py\<close>), and lines 52-56 of
  \<^verbatim>\<open>result-visualization/experiment.py\<close>, which do not lower \<^verbatim>\<open>True\<close> and \<^verbatim>\<open>False\<close>.
\<close>

definition is_plain_str :: "pyval \<Rightarrow> bool" where
  "is_plain_str v = (case v of PyStr s \<Rightarrow> CHR 0x0A \<notin> set s | _ \<Rightarrow> False)"

definition option_text :: "pyval \<Rightarrow> string" where
  "option_text v =
     (if is_plain_str v then [CHR 0x22] @ py_str v @ [CHR 0x22]
      else let text = py_str v
           in if text \<in> set [''True'', ''False''] then py_lower text else text)"

definition option_text_rv :: "pyval \<Rightarrow> string" where
  "option_text_rv v =
     (if is_plain_str v then [CHR 0x22] @ py_str v @ [CHR 0x22] else py_str v)"





section \<open>Constructing an experiment: \<^verbatim>\<open>Experiment.__init__\<close>\<close>

text \<open>
  \<^verbatim>\<open>Experiment.__init__\<close> of \<^verbatim>\<open>niharika-ttp-smart-home/experiment.py\<close> (lines 33-45).
  The dictionary \<^verbatim>\<open>self.options\<close> is an association list in insertion order and
  \<^verbatim>\<open>self.options[key] = value\<close> is \<^const>\<open>AList.update\<close>, which replaces the value of a
  key that is there and appends a new key. The caller's \<^verbatim>\<open>options\<close> is a dictionary too
  (empty by default); the loop over its keys reads the value of each, as the loop of
  \<^verbatim>\<open>generate_config_file\<close> does. The numbers written into the name and into
  \<^verbatim>\<open>NUM_NODES\<close> are integers.
\<close>

definition SIM_DURATION_SEC :: int where
  "SIM_DURATION_SEC = 3600"

definition Experiment_init ::
  "'f float_ops \<Rightarrow> int \<Rightarrow> int \<Rightarrow> (string \<times> pyval) list \<Rightarrow> Experiment"
where
  "Experiment_init ops num_clusters num_per_cluster options =
     (let name = str_int num_clusters @ ''_clusters_'' @ str_int num_per_cluster @ ''_nodes'';
          results_dir = ''./results-'' @ name;
          self_options = [];
          self_options = AList.update ''SIMULATION_DURATION_SEC'' (PyInt SIM_DURATION_SEC)
                           self_options;
          self_options = AList.update ''RESULTS_DIR'' (PyStr results_dir) self_options;
          self_options = fold (\<lambda>(key, v) self_options. AList.update key v self_options)
                           options self_options;
          num_nodes = 1 + num_clusters + num_clusters * num_per_cluster;
          self_options = AList.update ''NUM_NODES'' (PyStr (str_int num_nodes)) self_options;
          self_options = AList.update ''CONNECTIONS''
                           (PyStr (generate_connections num_clusters num_per_cluster))
                           self_options;
          self_options = AList.update ''POSITIONS''
                           (PyStr (generate_positions ops num_clusters num_per_cluster))
                           self_options
      in \<lparr>attr_name = name, attr_results_dir = results_dir, attr_options = self_options,
          attr_results = None\<rparr>)"

text \<open>
  The same for \<^verbatim>\<open>generate-network-with-mobility.py\<close>: \<^verbatim>\<open>DEFAULT_OPTIONS\<close> (lines 23-31),
  \<^verbatim>\<open>generate_connections\<close> (lines 67-92), whose list holds the fixed links between the
  gateway and the relays and then eight rules for the links that depend on the distance,
  and \<^verbatim>\<open>Experiment.__init__\<close> (lines 40-55), which copies \<^verbatim>\<open>DEFAULT_OPTIONS\<close> before the
  caller's options.
\<close>

definition DEFAULT_OPTIONS_mobile :: "(string \<times> pyval) list" where
  "DEFAULT_OPTIONS_mobile =
     [(''NUM_ROUTER_NODES'', PyInt 1),
      (''NUM_STATIC_LEAF_NODES'', PyInt 1),
      (''NUM_MOBILE_LEAF_NODES'', PyInt 1),
      (''RANGE_X'', PyInt 100),
      (''RANGE_Y'', PyInt 100),
      (''CONNECTIONS'', PyEmptyList),
      (''SIMULATION_DURATION_SEC'', PyInt SIM_DURATION_SEC)]"

definition generate_connections_mobile :: "int \<Rightarrow> int \<Rightarrow> string" where
  \<open>generate_connections_mobile num_clusters num_per_cluster =
     (let rssi = DEFAULT_RSSI;
          connections = [];
          connections =
            fold (\<lambda>i connections.
                    let ident = i + 2;
                        connection = fixed_link_str (link 1 ident rssi TTP_TO_GATEWAY_LINK_QUALITY);
                        connections = connections @ [connection];
                        connection = fixed_link_str (link ident 1 rssi TTP_TO_GATEWAY_LINK_QUALITY);
                        connections = connections @ [connection]
                    in connections)
                 (py_range num_clusters) connections;
          connections = connections @ [''"NODE_TYPE": "mobile_leaf_nodes", "LINK_MODEL": "UDGM"''];
          connections = connections @ [''"NODE_TYPE": "static_leaf_nodes", "LINK_MODEL": "UDGM"''];
          connections = connections @
            [''"FROM_NODE_TYPE": "static_leaf_nodes", "TO_NODE_TYPE": "router_nodes", "LINK_MODEL": "UDGM"''];
          connections = connections @
            [''"FROM_NODE_TYPE": "router_nodes", "TO_NODE_TYPE": "static_leaf_nodes", "LINK_MODEL": "UDGM"''];
          connections = connections @
            [''"FROM_NODE_TYPE": "mobile_leaf_nodes", "TO_NODE_TYPE": "router_nodes", "LINK_MODEL": "UDGM"''];
          connections = connections @
            [''"FROM_NODE_TYPE": "router_nodes", "TO_NODE_TYPE": "mobile_leaf_nodes", "LINK_MODEL": "UDGM"''];
          connections = connections @
            [''"FROM_NODE_TYPE": "mobile_leaf_nodes", "TO_NODE_TYPE": "static_leaf_nodes", "LINK_MODEL": "UDGM"''];
          connections = connections @
            [''"FROM_NODE_TYPE": "static_leaf_nodes", "TO_NODE_TYPE": "mobile_leaf_nodes", "LINK_MODEL": "UDGM"'']
      in bracketed connections)\<close>

definition Experiment_init_mobile ::
  "'f float_ops \<Rightarrow> int \<Rightarrow> int \<Rightarrow> (string \<times> pyval) list \<Rightarrow> Experiment"
where
  "Experiment_init_mobile ops num_clusters num_per_cluster options =
     (let name = str_int num_clusters @ ''_clusters_'' @ str_int num_per_cluster
                   @ ''_nodes_mobile'';
          results_dir = ''./results-'' @ name;
          self_options = [];
          self_options = AList.update ''RESULTS_DIR'' (PyStr results_dir) self_options;
          self_options = fold (\<lambda>(key, v) self_options. AList.update key v self_options)
                           DEFAULT_OPTIONS_mobile self_options;
          self_options = fold (\<lambda>(key, v) self_options. AList.update key v self_options)
                           options self_options;
          self_options = AList.update ''NUM_ROUTER_NODES'' (PyStr (str_int (1 + num_clusters)))
                           self_options;
          (nm, ns) = get_num_mobile_per_cluster num_per_cluster;
          self_options = AList.update ''NUM_STATIC_LEAF_NODES''
                           (PyStr (str_int (num_clusters * ns))) self_options;
          self_options = AList.update ''NUM_MOBILE_LEAF_NODES''
                           (PyStr (str_int (num_clusters * nm))) self_options;
          self_options = AList.update ''CONNECTIONS''
                           (PyStr (generate_connections_mobile num_clusters num_per_cluster))
                           self_options;
          self_options = AList.update ''POSITIONS''
                           (PyStr (generate_positions_mobile ops num_clusters num_per_cluster))
                           self_options
      in \<lparr>attr_name = name, attr_results_dir = results_dir, attr_options = self_options,
          attr_results = None\<rparr>)"


section \<open>Lemmas on loops that append\<close>

lemma fold_append_one:
  "fold (\<lambda>x acc. acc @ [f x]) xs acc = acc @ map f xs"
  by (induction xs arbitrary: acc) simp_all

lemma fold_append_list:
  "fold (\<lambda>x acc. acc @ f x) xs acc = acc @ concat (map f xs)"
  by (induction xs arbitrary: acc) simp_all

lemma fold_fold_append_one:
  "fold (\<lambda>x acc. fold (\<lambda>y acc. acc @ [f x y]) (ys x) acc) xs acc
     = acc @ concat (map (\<lambda>x. map (f x) (ys x)) xs)"
  by (induction xs arbitrary: acc) (simp_all add: fold_append_one)

lemma map_add_upto_shift: "map (\<lambda>i. c + i) [0..n - 1] = [c..c + n - 1]"
  by (rule nth_equalityI) auto

lemma upto_append_adjacent:
  assumes "i - 1 \<le> j" and "j \<le> k"
  shows "[i..j] @ [j + 1..k] = [i..k]"
proof (cases "i \<le> j")
  case True
  with assms show ?thesis by (simp add: upto_split2 [of i j k])
next
  case False
  with assms have "j = i - 1" by simp
  then show ?thesis by simp
qed

lemma concat_blocks_upto:
  assumes "0 \<le> n" and "0 \<le> m"
  shows "concat (map (\<lambda>i. [b + i * m..b + i * m + m - 1]) [0..n - 1]) = [b..b + n * m - 1]"
  using assms(1)
proof (induction n rule: int_ge_induct)
  case base
  show ?case by simp
next
  case (step n)
  have split: "[0..n + 1 - 1] = [0..n - 1] @ [n]"
    using step.hyps by (simp add: upto_rec2)
  have "concat (map (\<lambda>i. [b + i * m..b + i * m + m - 1]) [0..n + 1 - 1])
          = [b..b + n * m - 1] @ [b + n * m..b + n * m + m - 1]"
    unfolding split using step.IH by simp
  also have "\<dots> = [b..b + n * m + m - 1]"
  proof -
    have "0 \<le> n * m" using step.hyps assms(2) by simp
    then show ?thesis
      using upto_append_adjacent [of b "b + n * m - 1" "b + n * m + m - 1"] assms(2)
      by simp
  qed
  finally show ?case by (simp add: algebra_simps)
qed


section \<open>Reading back what was rendered\<close>

lemma strip_prefix_append: "strip_prefix p (p @ s) = Some s"
  by (simp add: strip_prefix_def)

lemma strip_suffix_append: "strip_suffix p (s @ p) = Some s"
  by (simp add: strip_suffix_def)

lemma split_on_skip: "split_on sep (length p) cur (p @ rest) = split_on sep 0 cur rest"
  by (induction p) simp_all

lemma split_on_entry:
  assumes "sep = c # sep'" and "c \<notin> set e"
  shows "split_on sep 0 cur (e @ rest) = split_on sep 0 (cur @ e) rest"
  using assms(2)
proof (induction e arbitrary: cur)
  case Nil
  show ?case by simp
next
  case (Cons a e)
  then have "a \<noteq> c" and "c \<notin> set e" by auto
  with Cons.IH [of "cur @ [a]"] show ?case by (simp add: assms(1))
qed

lemma split_on_sep:
  assumes "sep = c # sep'"
  shows "split_on sep 0 cur (sep @ rest) = cur # split_on sep 0 [] rest"
proof -
  have "split_on sep 0 cur (sep @ rest) = cur # split_on sep (length sep') [] (sep' @ rest)"
    by (simp add: assms)
  then show ?thesis by (simp add: split_on_skip)
qed

lemma split_on_join:
  assumes "sep = c # sep'" and "xs \<noteq> []" and "\<forall>x \<in> set xs. c \<notin> set x"
  shows "split_on sep 0 cur (join sep xs) = (cur @ hd xs) # tl xs"
  using assms(2,3)
proof (induction xs arbitrary: cur)
  case Nil
  then show ?case by simp
next
  case (Cons x xs)
  then have x: "c \<notin> set x" by simp
  show ?case
  proof (cases xs)
    case Nil
    from split_on_entry [OF assms(1) x, of cur "[]"] show ?thesis by (simp add: Nil)
  next
    case (Cons y ys)
    have rest: "split_on sep 0 [] (join sep xs) = hd xs # tl xs"
      using Cons.IH [of "[]"] Cons.prems Cons by simp
    have "split_on sep 0 cur (join sep (x # xs))
            = split_on sep 0 (cur @ x) (sep @ join sep xs)"
      using split_on_entry [OF assms(1) x, of cur "sep @ join sep xs"] by (simp add: Cons)
    also have "\<dots> = (cur @ x) # split_on sep 0 [] (join sep xs)"
      by (rule split_on_sep [OF assms(1)])
    finally show ?thesis using rest Cons by simp
  qed
qed

lemma py_split_join:
  assumes "sep = c # sep'" and "xs \<noteq> []" and "\<forall>x \<in> set xs. c \<notin> set x"
  shows "py_split sep (join sep xs) = xs"
  using split_on_join [OF assms, of "[]"] assms(2) by (simp add: py_split_def)

lemma read_bracketed_bracketed:
  assumes "xs \<noteq> []" and "\<forall>x \<in> set xs. CHR ''}'' \<notin> set x"
  shows "read_bracketed (bracketed xs) = Some xs"
proof -
  have sep: "''},'' @ [CHR 0x0A] @ ''    {'' = CHR ''}'' # ('','' @ [CHR 0x0A] @ ''    {'')"
    by simp
  have "py_split (''},'' @ [CHR 0x0A] @ ''    {'') (join (''},'' @ [CHR 0x0A] @ ''    {'') xs) = xs"
    by (rule py_split_join [OF sep assms])
  then show ?thesis
    unfolding read_bracketed_def bracketed_def
    by (simp only: strip_prefix_append strip_suffix_append option.case)
qed

lemma digit_value_digit: "d < 10 \<Longrightarrow> digit_value (''0123456789'' ! d) = Some d"
proof -
  assume "d < 10"
  then have "d \<in> {0, 1, 2, 3, 4, 5, 6, 7, 8, 9}" by auto
  then show ?thesis by (auto simp: digit_value_def)
qed

lemma digits_value_append:
  "digits_value acc (a @ b) = (case digits_value acc a of None \<Rightarrow> None | Some v \<Rightarrow> digits_value v b)"
  by (induction a arbitrary: acc) (simp_all split: option.splits)

lemma digits_value_str_nat: "digits_value 0 (str_nat n) = Some n"
proof (induction n rule: str_nat.induct)
  case (1 n)
  show ?case
  proof (cases "n < 10")
    case True
    then show ?thesis by (subst str_nat.simps) (simp add: digit_value_digit)
  next
    case False
    have d: "n mod 10 < 10" by simp
    from False 1 have IH: "digits_value 0 (str_nat (n div 10)) = Some (n div 10)" by simp
    show ?thesis
      by (subst str_nat.simps) (simp add: False digits_value_append IH digit_value_digit [OF d])
  qed
qed

lemma digit_int_char: "d < 10 \<Longrightarrow> int_char (''0123456789'' ! d) \<and> ''0123456789'' ! d \<noteq> CHR ''-''"
proof -
  assume "d < 10"
  then have "d \<in> {0, 1, 2, 3, 4, 5, 6, 7, 8, 9}" by auto
  then show ?thesis by (auto simp: int_char_def)
qed

lemma str_nat_chars: "c \<in> set (str_nat n) \<Longrightarrow> int_char c \<and> c \<noteq> CHR ''-''"
proof (induction n rule: str_nat.induct)
  case (1 n)
  have d: "n mod 10 < 10" by simp
  show ?case
  proof (cases "n < 10")
    case True
    with 1(2) show ?thesis by (subst (asm) str_nat.simps) (simp add: digit_int_char)
  next
    case False
    from 1(2) have "c \<in> set (str_nat (n div 10)) \<or> c = ''0123456789'' ! (n mod 10)"
      by (subst (asm) str_nat.simps) (auto simp: False)
    then show ?thesis
    proof
      assume "c \<in> set (str_nat (n div 10))"
      then show ?thesis by (rule 1(1) [OF False])
    next
      assume "c = ''0123456789'' ! (n mod 10)"
      then show ?thesis using digit_int_char [OF d] by simp
    qed
  qed
qed

lemma str_nat_nonempty: "str_nat n \<noteq> []"
  by (subst str_nat.simps) simp

lemma str_int_chars:
  assumes "c \<in> set (str_int i)"
  shows "int_char c"
proof (cases "i < 0")
  case True
  with assms have "c = CHR ''-'' \<or> c \<in> set (str_nat (nat (- i)))"
    by (simp add: str_int_def)
  then show ?thesis
  proof
    assume "c = CHR ''-''"
    then show ?thesis by (simp add: int_char_def)
  next
    assume "c \<in> set (str_nat (nat (- i)))"
    then show ?thesis using str_nat_chars by blast
  qed
next
  case False
  with assms have "c \<in> set (str_nat (nat i))" by (simp add: str_int_def)
  then show ?thesis using str_nat_chars by blast
qed

lemma int_of_str_str_int: "int_of_str (str_int i) = Some i"
proof (cases "i < 0")
  case True
  then show ?thesis
    by (simp add: int_of_str_def str_int_def str_nat_nonempty digits_value_str_nat)
next
  case False
  obtain c r where cr: "str_nat (nat i) = c # r"
    using str_nat_nonempty [of "nat i"] by (cases "str_nat (nat i)") auto
  then have "c \<in> set (str_nat (nat i))" by simp
  then have "c \<noteq> CHR ''-''" using str_nat_chars by blast
  with False cr digits_value_str_nat [of "nat i"] show ?thesis
    by (simp add: int_of_str_def str_int_def)
qed

lemma read_int_str_int:
  assumes "rest = [] \<or> \<not> int_char (hd rest)"
  shows "read_int (str_int i @ rest) = Some (i, rest)"
proof -
  have all: "\<forall>c \<in> set (str_int i). int_char c" using str_int_chars by blast
  have "takeWhile int_char (str_int i @ rest) = str_int i @ takeWhile int_char rest"
    using all by (simp add: takeWhile_append2)
  moreover have "takeWhile int_char rest = []" using assms by (cases rest) auto
  moreover have "dropWhile int_char (str_int i @ rest) = dropWhile int_char rest"
    using all by (simp add: dropWhile_append2)
  moreover have "dropWhile int_char rest = rest" using assms by (cases rest) auto
  ultimately show ?thesis by (simp add: read_int_def int_of_str_str_int)
qed

lemma read_field_str_int:
  assumes "rest = [] \<or> \<not> int_char (hd rest)"
  shows "read_field key (key @ str_int i @ rest) = Some (i, rest)"
  by (simp add: read_field_def strip_prefix_append read_int_str_int [OF assms])

lemma read_field_str_int_end: "read_field key (key @ str_int i) = Some (i, [])"
  using read_field_str_int [of "[]" key i] by simp

lemma read_position_position_str: "read_position (position_str p) = Some p"
proof -
  have a: "read_field ''\"ID\": '' (position_str p)
             = Some (pos_id p, '', \"X\": '' @ str_int (pos_x p) @ '', \"Y\": '' @ str_int (pos_y p))"
    unfolding position_str_def by (rule read_field_str_int) (simp add: int_char_def)
  have b: "read_field '', \"X\": '' ('', \"X\": '' @ str_int (pos_x p) @ '', \"Y\": '' @ str_int (pos_y p))
             = Some (pos_x p, '', \"Y\": '' @ str_int (pos_y p))"
    by (rule read_field_str_int) (simp add: int_char_def)
  have c: "read_field '', \"Y\": '' ('', \"Y\": '' @ str_int (pos_y p)) = Some (pos_y p, [])"
    by (rule read_field_str_int_end)
  show ?thesis
    unfolding read_position_def
    by (simp only: a b c option.case prod.case if_True refl) simp
qed

lemma str_int_no_brace: "CHR ''}'' \<notin> set (str_int i)"
proof
  assume "CHR ''}'' \<in> set (str_int i)"
  then have "int_char CHR ''}''" by (rule str_int_chars)
  then show False by (simp add: int_char_def)
qed

lemma position_str_no_brace: "CHR ''}'' \<notin> set (position_str p)"
  by (simp add: position_str_def str_int_no_brace)

lemma those_map_Some: "(\<And>x. f (g x) = Some x) \<Longrightarrow> those (map f (map g xs)) = Some xs"
  by (induction xs) simp_all

lemma read_positions_bracketed:
  assumes "ps \<noteq> []"
  shows "read_positions (bracketed (map position_str ps)) = Some ps"
proof -
  have "read_bracketed (bracketed (map position_str ps)) = Some (map position_str ps)"
    by (rule read_bracketed_bracketed) (simp_all add: assms position_str_no_brace)
  moreover have "those (map read_position (map position_str ps)) = Some ps"
    by (rule those_map_Some) (rule read_position_position_str)
  ultimately show ?thesis by (simp only: read_positions_def option.case)
qed

lemma read_link_fixed_link_str: "read_link (fixed_link_str c) = Some c"
proof -
  let ?q = "'', \"LINK_QUALITY\": '' @ link_quality c @ '', \"LINK_MODEL\": \"Fixed\"''"
  let ?r = "'', \"RSSI\": '' @ str_int (rssi c) @ ?q"
  let ?t = "'', \"TO_ID\": '' @ str_int (to_id c) @ ?r"
  have a: "read_field ''\"FROM_ID\": '' (fixed_link_str c) = Some (from_id c, ?t)"
    unfolding fixed_link_str_def append_assoc
    by (rule read_field_str_int) (simp add: int_char_def)
  have b: "read_field '', \"TO_ID\": '' ?t = Some (to_id c, ?r)"
    by (rule read_field_str_int) (simp add: int_char_def)
  have r: "read_field '', \"RSSI\": '' ?r = Some (rssi c, ?q)"
    by (rule read_field_str_int) (simp add: int_char_def)
  have q: "strip_prefix '', \"LINK_QUALITY\": '' ?q
             = Some (link_quality c @ '', \"LINK_MODEL\": \"Fixed\"'')"
    by (rule strip_prefix_append)
  have m: "strip_suffix '', \"LINK_MODEL\": \"Fixed\"'' (link_quality c @ '', \"LINK_MODEL\": \"Fixed\"'')
             = Some (link_quality c)"
    by (rule strip_suffix_append)
  show ?thesis
    unfolding read_link_def
    by (simp only: a b r q m option.case prod.case) simp
qed

lemma fixed_link_str_no_brace:
  "CHR ''}'' \<notin> set (link_quality c) \<Longrightarrow> CHR ''}'' \<notin> set (fixed_link_str c)"
  by (simp add: fixed_link_str_def str_int_no_brace)

lemma read_links_bracketed:
  assumes "cs \<noteq> []" and "\<forall>c \<in> set cs. CHR ''}'' \<notin> set (link_quality c)"
  shows "read_links (bracketed (map fixed_link_str cs)) = Some cs"
proof -
  have "read_bracketed (bracketed (map fixed_link_str cs)) = Some (map fixed_link_str cs)"
    by (rule read_bracketed_bracketed) (simp_all add: assms fixed_link_str_no_brace)
  moreover have "those (map read_link (map fixed_link_str cs)) = Some cs"
    by (rule those_map_Some) (rule read_link_fixed_link_str)
  ultimately show ?thesis by (simp only: read_links_def option.case)
qed


subsection \<open>Points of the circles in exact arithmetic\<close>

lemma circle_examples:
  "circle_x real_ops r 1 2 = - of_int r" "circle_y real_ops r 1 2 = 0"
  "circle_x real_ops r 2 2 = of_int r" "circle_y real_ops r 2 2 = 0"
  "circle_x real_ops r 1 1 = of_int r" "circle_y real_ops r 1 1 = 0"
  by (simp_all add: circle_x_def circle_y_def angle_def real_ops_def)

lemma py_round_of_int: "py_round (of_int i) = i"
  by (simp add: py_round_def)


section \<open>Node identifiers of the static position list\<close>

lemma position_entries_unfold:
  "position_entries ops nc npc =
     gateway_position # map (ttp_position ops nc) (py_range nc)
       @ concat (map (\<lambda>i. map (member_position ops nc npc i) (py_range npc)) (py_range nc))"
  by (simp add: position_entries_def Let_def fold_append_one fold_append_list)

lemma pos_id_ttp_position: "pos_id (ttp_position ops nc i) = i + 2"
  by (simp add: ttp_position_def Let_def)

lemma pos_id_member_position:
  "pos_id (member_position ops nc npc i j) = 2 + nc + i * npc + j"
  by (simp add: member_position_def Let_def)

lemma member_ids_block:
  "map (\<lambda>j. pos_id (member_position ops nc npc i j)) (py_range npc)
     = [2 + nc + i * npc..2 + nc + i * npc + npc - 1]"
  using map_add_upto_shift [of "2 + nc + i * npc" npc]
  by (simp add: pos_id_member_position py_range_def)

lemma position_entries_ids:
  assumes "0 \<le> nc" and "0 \<le> npc"
  shows "map pos_id (position_entries ops nc npc) = [1..1 + nc + nc * npc]"
proof -
  have ttp: "map pos_id (map (ttp_position ops nc) (py_range nc)) = [2..2 + nc - 1]"
    using map_add_upto_shift [of 2 nc]
    by (simp add: pos_id_ttp_position py_range_def comp_def add.commute)
  have mem: "map pos_id (concat (map (\<lambda>i. map (member_position ops nc npc i) (py_range npc))
                                     (py_range nc)))
               = [2 + nc..2 + nc + nc * npc - 1]"
    using concat_blocks_upto [OF assms, of "2 + nc"]
    by (simp add: map_concat comp_def member_ids_block) (simp add: py_range_def)
  have "map pos_id (position_entries ops nc npc)
          = 1 # [2..2 + nc - 1] @ [2 + nc..2 + nc + nc * npc - 1]"
    unfolding position_entries_unfold using ttp mem
    by (simp add: gateway_position_def)
  also have "[2..2 + nc - 1] @ [2 + nc..2 + nc + nc * npc - 1] = [2..2 + nc + nc * npc - 1]"
  proof -
    have "0 \<le> nc * npc" using assms by simp
    then show ?thesis
      using upto_append_adjacent [of 2 "2 + nc - 1" "2 + nc + nc * npc - 1"] assms by simp
  qed
  also have "1 # [2..2 + nc + nc * npc - 1] = [1..1 + nc + nc * npc]"
  proof -
    have "0 \<le> nc * npc" using assms by simp
    then have "(1::int) \<le> 1 + nc + nc * npc" using assms by linarith
    then show ?thesis by (simp add: upto_rec1 [of 1] algebra_simps)
  qed
  finally show ?thesis .
qed

lemma position_entries_nonempty: "position_entries ops nc npc \<noteq> []"
  by (simp add: position_entries_unfold)

lemma read_generate_positions:
  "read_positions (generate_positions ops nc npc) = Some (position_entries ops nc npc)"
  unfolding generate_positions_def
  by (rule read_positions_bracketed) (rule position_entries_nonempty)

text \<open>
  C1. For every \<open>clusterCount \<ge> 1\<close> and \<open>perClusterCount \<ge> 0\<close> the text that
  \<^verbatim>\<open>generate_positions\<close> returns reads back as a list of exactly
  \<open>1 + clusterCount + clusterCount * perClusterCount\<close> entries, and the node identifiers
  written in them are \<open>1, 2, 3, \<dots>\<close> in this order: contiguous and strictly increasing
  from 1. The entries are the gateway, then the relays in order, then the members cluster
  by cluster; the gateway carries 1, relay \<open>i\<close> carries \<open>i + 2\<close> and member \<open>j\<close> of
  cluster \<open>i\<close> carries \<open>2 + clusterCount + i * perClusterCount + j\<close>.
\<close>

theorem generate_positions_node_ids:
  assumes "1 \<le> nc" and "0 \<le> npc"
  shows "map_option length (read_positions (generate_positions ops nc npc))
           = Some (nat (1 + nc + nc * npc))
       \<and> map_option (map pos_id) (read_positions (generate_positions ops nc npc))
           = Some [1..1 + nc + nc * npc]
       \<and> read_positions (generate_positions ops nc npc)
           = Some (gateway_position # map (ttp_position ops nc) (py_range nc)
               @ concat (map (\<lambda>i. map (member_position ops nc npc i) (py_range npc))
                             (py_range nc)))
       \<and> read_positions (generate_positions ops nc npc) = Some (position_entries ops nc npc)
       \<and> length (position_entries ops nc npc) = nat (1 + nc + nc * npc)
       \<and> map pos_id (position_entries ops nc npc) = [1..1 + nc + nc * npc]
       \<and> sorted_wrt (<) (map pos_id (position_entries ops nc npc))
       \<and> pos_id gateway_position = 1
       \<and> (\<forall>i. pos_id (ttp_position ops nc i) = i + 2)
       \<and> (\<forall>i j. pos_id (member_position ops nc npc i j) = 2 + nc + i * npc + j)"
proof -
  have nonneg: "0 \<le> nc" using assms(1) by simp
  have ids: "map pos_id (position_entries ops nc npc) = [1..1 + nc + nc * npc]"
    by (rule position_entries_ids [OF nonneg assms(2)])
  have "length (map pos_id (position_entries ops nc npc)) = nat (1 + nc + nc * npc)"
    unfolding ids by simp
  then have len: "length (position_entries ops nc npc) = nat (1 + nc + nc * npc)"
    by simp
  have incr: "sorted_wrt (<) (map pos_id (position_entries ops nc npc))"
    unfolding ids by simp
  have rd: "read_positions (generate_positions ops nc npc) = Some (position_entries ops nc npc)"
    by (rule read_generate_positions)
  have shape: "read_positions (generate_positions ops nc npc)
           = Some (gateway_position # map (ttp_position ops nc) (py_range nc)
               @ concat (map (\<lambda>i. map (member_position ops nc npc i) (py_range npc))
                             (py_range nc)))"
    unfolding rd by (simp only: position_entries_unfold)
  have l: "map_option length (read_positions (generate_positions ops nc npc))
           = Some (nat (1 + nc + nc * npc))"
    unfolding rd using len by simp
  have i: "map_option (map pos_id) (read_positions (generate_positions ops nc npc))
           = Some [1..1 + nc + nc * npc]"
    unfolding rd using ids by simp
  have g: "pos_id gateway_position = 1" by (simp add: gateway_position_def)
  show ?thesis
    using l i shape rd len ids incr g pos_id_ttp_position pos_id_member_position
    by blast
qed

lemma generate_positions_2_1:
  \<open>generate_positions real_ops 2 1 =
     ''[{"ID": 1, "X": 0, "Y": 0},'' @ [CHR 0x0A] @
     ''    {"ID": 2, "X": -150, "Y": 0},'' @ [CHR 0x0A] @
     ''    {"ID": 3, "X": 150, "Y": 0},'' @ [CHR 0x0A] @
     ''    {"ID": 4, "X": -210, "Y": 0},'' @ [CHR 0x0A] @
     ''    {"ID": 5, "X": 290, "Y": 0}]'' @ [CHR 0x0A]\<close>
proof -
  have r: "f_round real_ops = py_round" "f_add real_ops = (+)" by (simp_all add: real_ops_def)
  have e: "position_entries real_ops 2 1 =
     [\<lparr>pos_id = 1, pos_x = 0, pos_y = 0\<rparr>, \<lparr>pos_id = 2, pos_x = - 150, pos_y = 0\<rparr>,
      \<lparr>pos_id = 3, pos_x = 150, pos_y = 0\<rparr>, \<lparr>pos_id = 4, pos_x = - 210, pos_y = 0\<rparr>,
      \<lparr>pos_id = 5, pos_x = 290, pos_y = 0\<rparr>]"
    using py_round_of_int [of "- 150"] py_round_of_int [of 150] py_round_of_int [of "- 210"]
      py_round_of_int [of 290] py_round_of_int [of 0]
    by (simp add: position_entries_unfold py_range_def upto_rec1 gateway_position_def
        ttp_position_def member_position_def circle_examples r)
  show ?thesis
    unfolding generate_positions_def e
    by (simp add: bracketed_def position_str_def str_int_def str_nat.simps)
qed

theorem generate_positions_node_ids_witness:
  \<open>(1::int) \<le> 2 \<and> (0::int) \<le> 1
     \<and> generate_positions real_ops 2 1 =
         ''[{"ID": 1, "X": 0, "Y": 0},'' @ [CHR 0x0A] @
         ''    {"ID": 2, "X": -150, "Y": 0},'' @ [CHR 0x0A] @
         ''    {"ID": 3, "X": 150, "Y": 0},'' @ [CHR 0x0A] @
         ''    {"ID": 4, "X": -210, "Y": 0},'' @ [CHR 0x0A] @
         ''    {"ID": 5, "X": 290, "Y": 0}]'' @ [CHR 0x0A]
     \<and> map_option length (read_positions (generate_positions real_ops 2 1)) = Some 5
     \<and> map_option (map pos_id) (read_positions (generate_positions real_ops 2 1))
         = Some [1, 2, 3, 4, 5]\<close>
proof -
  have a: "(1::int) \<le> 2" and b: "(0::int) \<le> 1" by simp_all
  have "map_option length (read_positions (generate_positions real_ops 2 1))
          = Some (nat (1 + 2 + 2 * 1))
      \<and> map_option (map pos_id) (read_positions (generate_positions real_ops 2 1))
          = Some [1..1 + 2 + 2 * 1]"
    using generate_positions_node_ids [OF a b, of real_ops] by blast
  then have "map_option length (read_positions (generate_positions real_ops 2 1)) = Some 5
      \<and> map_option (map pos_id) (read_positions (generate_positions real_ops 2 1))
          = Some [1, 2, 3, 4, 5]"
    by (simp add: upto_rec1)
  with a b generate_positions_2_1 show ?thesis by blast
qed


section \<open>Shape of the static connection list\<close>

lemma connection_entries_unfold:
  "connection_entries nc npc =
     concat (map (\<lambda>i. [link 1 (i + 2) DEFAULT_RSSI TTP_TO_GATEWAY_LINK_QUALITY,
                        link (i + 2) 1 DEFAULT_RSSI TTP_TO_GATEWAY_LINK_QUALITY]) (py_range nc))
     @ concat (map (\<lambda>i. concat (map (\<lambda>j.
            [link (i + 2) (member_id nc npc i j) DEFAULT_RSSI CLUSTER_TO_TTP_LINK_QUALITY,
             link (member_id nc npc i j) (i + 2) DEFAULT_RSSI CLUSTER_TO_TTP_LINK_QUALITY])
          (py_range npc))) (py_range nc))
     @ concat (map (\<lambda>i. concat (map (\<lambda>j. concat (map (\<lambda>k.
            [link (member_id nc npc i j) (member_id nc npc i k) DEFAULT_RSSI CLUSTER_INTERNAL_LINK_QUALITY,
             link (member_id nc npc i k) (member_id nc npc i j) DEFAULT_RSSI CLUSTER_INTERNAL_LINK_QUALITY])
          (py_range2 (j + 1) npc))) (py_range npc))) (py_range nc))"
  by (simp add: connection_entries_def Let_def fold_append_list member_id_def)

lemma link_ends_link [simp]: "link_ends (link a b r q) = (a, b)"
  by (simp add: link_ends_def link_def)

lemma connection_ends_unfold:
  "map link_ends (connection_entries nc npc) =
     concat (map (\<lambda>i. [(1, i + 2), (i + 2, 1)]) (py_range nc))
     @ concat (map (\<lambda>i. concat (map (\<lambda>j.
            [(i + 2, member_id nc npc i j), (member_id nc npc i j, i + 2)])
          (py_range npc))) (py_range nc))
     @ concat (map (\<lambda>i. concat (map (\<lambda>j. concat (map (\<lambda>k.
            [(member_id nc npc i j, member_id nc npc i k),
             (member_id nc npc i k, member_id nc npc i j)])
          (py_range2 (j + 1) npc))) (py_range npc))) (py_range nc))"
  by (simp add: connection_entries_unfold map_concat comp_def)

lemma member_id_ge: "0 \<le> i \<Longrightarrow> 0 \<le> j \<Longrightarrow> 0 \<le> npc \<Longrightarrow> nc + 2 \<le> member_id nc npc i j"
  by (simp add: member_id_def)

lemma member_id_inj:
  assumes "0 \<le> j" "j < npc" "0 \<le> j'" "j' < npc"
    and "member_id nc npc i j = member_id nc npc i' j'"
  shows "i = i' \<and> j = j'"
proof -
  from assms(5) have eq: "i * npc + j = i' * npc + j'" by (simp add: member_id_def)
  have "(i * npc + j) div npc = i" using assms(1,2) by simp
  moreover have "(i' * npc + j') div npc = i'" using assms(3,4) by simp
  ultimately have "i = i'" using eq by simp
  with eq show ?thesis by simp
qed

lemma distinct_concat_map:
  assumes "distinct xs"
    and "\<And>x. x \<in> set xs \<Longrightarrow> distinct (f x)"
    and "\<And>x y. x \<in> set xs \<Longrightarrow> y \<in> set xs \<Longrightarrow> x \<noteq> y \<Longrightarrow> set (f x) \<inter> set (f y) = {}"
  shows "distinct (concat (map f xs))"
  using assms by (induction xs) auto

lemma member_id_gt_relay:
  assumes "0 \<le> i" "0 \<le> j" "j < npc" "i' < nc"
  shows "i' + 2 < member_id nc npc i j"
proof -
  have "0 \<le> i * npc" using assms by simp
  then show ?thesis using assms unfolding member_id_def by linarith
qed

lemma member_id_eqD:
  "member_id nc npc i j = member_id nc npc i' j' \<Longrightarrow> 0 \<le> j \<Longrightarrow> j < npc \<Longrightarrow> 0 \<le> j' \<Longrightarrow> j' < npc
     \<Longrightarrow> i = i' \<and> j = j'"
  using member_id_inj by blast

lemma set_gw_seg: "set (gw_seg nc) = gateway_star nc"
  by (auto simp: gw_seg_def gateway_star_def py_range_def)

lemma set_relay_seg:
  "set (relay_seg nc npc i) =
     {e. \<exists>j. 0 \<le> j \<and> j < npc \<and> (e = (i + 2, member_id nc npc i j) \<or> e = (member_id nc npc i j, i + 2))}"
  by (auto simp: relay_seg_def py_range_def)

lemma set_pair_seg:
  "set (pair_seg nc npc i j) =
     (\<lambda>k. (member_id nc npc i j, member_id nc npc i k)) ` {j + 1..npc - 1}
     \<union> (\<lambda>k. (member_id nc npc i k, member_id nc npc i j)) ` {j + 1..npc - 1}"
  by (auto simp: pair_seg_def py_range2_def)

lemma set_clique_seg:
  "set (clique_seg nc npc i) =
     {e. \<exists>j k. 0 \<le> j \<and> j < npc \<and> 0 \<le> k \<and> k < npc \<and> j \<noteq> k
            \<and> e = (member_id nc npc i j, member_id nc npc i k)}"
  (is "?L = ?R")
proof
  show "?L \<subseteq> ?R"
  proof
    fix e assume "e \<in> ?L"
    then obtain j where j: "0 \<le> j" "j < npc" and "e \<in> set (pair_seg nc npc i j)"
      by (auto simp: clique_seg_def py_range_def)
    then have "e \<in> (\<lambda>k. (member_id nc npc i j, member_id nc npc i k)) ` {j + 1..npc - 1}
                \<union> (\<lambda>k. (member_id nc npc i k, member_id nc npc i j)) ` {j + 1..npc - 1}"
      by (simp only: set_pair_seg)
    then obtain k where kin: "k \<in> {j + 1..npc - 1}"
      and e: "e = (member_id nc npc i j, member_id nc npc i k)
            \<or> e = (member_id nc npc i k, member_id nc npc i j)"
      by blast
    from kin have k: "j < k" "k < npc" by simp_all
    from e show "e \<in> ?R"
    proof
      assume "e = (member_id nc npc i j, member_id nc npc i k)"
      then have "0 \<le> j \<and> j < npc \<and> 0 \<le> k \<and> k < npc \<and> j \<noteq> k
            \<and> e = (member_id nc npc i j, member_id nc npc i k)" using j k by simp
      then show ?thesis by blast
    next
      assume "e = (member_id nc npc i k, member_id nc npc i j)"
      then have "0 \<le> k \<and> k < npc \<and> 0 \<le> j \<and> j < npc \<and> k \<noteq> j
            \<and> e = (member_id nc npc i k, member_id nc npc i j)" using j k by simp
      then show ?thesis by blast
    qed
  qed
next
  show "?R \<subseteq> ?L"
  proof
    fix e assume "e \<in> ?R"
    then obtain j k where jk: "0 \<le> j" "j < npc" "0 \<le> k" "k < npc" "j \<noteq> k"
      and e: "e = (member_id nc npc i j, member_id nc npc i k)" by blast
    show "e \<in> ?L"
    proof (cases "j < k")
      case True
      then have "e \<in> set (pair_seg nc npc i j)" using jk e by (simp add: set_pair_seg)
      then show ?thesis using jk by (auto simp: clique_seg_def py_range_def)
    next
      case False
      then have "k < j" using jk by simp
      then have "e \<in> set (pair_seg nc npc i k)" using jk e by (simp add: set_pair_seg)
      then show ?thesis using jk by (auto simp: clique_seg_def py_range_def)
    qed
  qed
qed

lemma distinct_gw_seg: "distinct (gw_seg nc)"
  unfolding gw_seg_def by (rule distinct_concat_map) (auto simp: py_range_def)

lemma distinct_relay_seg:
  assumes "0 \<le> i" "i < nc"
  shows "distinct (relay_seg nc npc i)"
  unfolding relay_seg_def
proof (rule distinct_concat_map)
  show "distinct (py_range npc)" by (simp add: py_range_def)
next
  fix j assume "j \<in> set (py_range npc)"
  then have "0 \<le> j" "j < npc" by (auto simp: py_range_def)
  then have "i + 2 < member_id nc npc i j" using assms by (simp add: member_id_gt_relay)
  then show "distinct [(i + 2, member_id nc npc i j), (member_id nc npc i j, i + 2)]" by simp
next
  fix j j' assume "j \<in> set (py_range npc)" "j' \<in> set (py_range npc)" "j \<noteq> j'"
  then have b: "0 \<le> j" "j < npc" "0 \<le> j'" "j' < npc" by (auto simp: py_range_def)
  have "i + 2 < member_id nc npc i j" "i + 2 < member_id nc npc i j'"
    using assms b by (simp_all add: member_id_gt_relay)
  moreover have "member_id nc npc i j \<noteq> member_id nc npc i j'"
    using member_id_inj [OF b] \<open>j \<noteq> j'\<close> by blast
  ultimately show "set [(i + 2, member_id nc npc i j), (member_id nc npc i j, i + 2)]
        \<inter> set [(i + 2, member_id nc npc i j'), (member_id nc npc i j', i + 2)] = {}"
    by auto
qed

lemma member_id_neq:
  assumes "0 \<le> j" "j < npc" "0 \<le> j'" "j' < npc" "i \<noteq> i' \<or> j \<noteq> j'"
  shows "member_id nc npc i j \<noteq> member_id nc npc i' j'"
  using member_id_inj [OF assms(1-4)] assms(5) by blast

lemma set_relay_part:
  "set (concat (map (relay_seg nc npc) (py_range nc))) = relay_stars nc npc"
proof -
  have "set (concat (map (relay_seg nc npc) (py_range nc)))
          = (\<Union>i\<in>{0..nc - 1}. set (relay_seg nc npc i))"
    by (simp add: py_range_def)
  also have "{0..nc - 1} = {i. 0 \<le> i \<and> i < nc}" by auto
  also have "(\<Union>i\<in>{i. 0 \<le> i \<and> i < nc}. set (relay_seg nc npc i)) = relay_stars nc npc"
    unfolding set_relay_seg relay_stars_def by blast
  finally show ?thesis .
qed

lemma set_clique_part:
  "set (concat (map (clique_seg nc npc) (py_range nc))) = cluster_cliques nc npc"
proof -
  have "set (concat (map (clique_seg nc npc) (py_range nc)))
          = (\<Union>i\<in>{0..nc - 1}. set (clique_seg nc npc i))"
    by (simp add: py_range_def)
  also have "{0..nc - 1} = {i. 0 \<le> i \<and> i < nc}" by auto
  also have "(\<Union>i\<in>{i. 0 \<le> i \<and> i < nc}. set (clique_seg nc npc i)) = cluster_cliques nc npc"
    unfolding set_clique_seg cluster_cliques_def by blast
  finally show ?thesis .
qed

lemma gateway_star_ends: "e \<in> gateway_star nc \<Longrightarrow> fst e = 1 \<or> snd e = 1"
  by (auto simp: gateway_star_def)

lemma relay_stars_ends:
  assumes "e \<in> relay_stars nc npc"
  shows "(2 \<le> fst e \<and> fst e \<le> nc + 1 \<and> nc + 2 \<le> snd e)
       \<or> (2 \<le> snd e \<and> snd e \<le> nc + 1 \<and> nc + 2 \<le> fst e)"
proof -
  from assms obtain i j where b: "0 \<le> i" "i < nc" "0 \<le> j" "j < npc"
    and e: "e = (i + 2, member_id nc npc i j) \<or> e = (member_id nc npc i j, i + 2)"
    unfolding relay_stars_def by blast
  have "nc + 2 \<le> member_id nc npc i j" using b by (simp add: member_id_ge)
  with b e show ?thesis by auto
qed

lemma cluster_cliques_ends:
  assumes "e \<in> cluster_cliques nc npc"
  shows "nc + 2 \<le> fst e \<and> nc + 2 \<le> snd e"
proof -
  from assms obtain i j k where b: "0 \<le> i" "i < nc" "0 \<le> j" "j < npc" "0 \<le> k" "k < npc"
    and e: "e = (member_id nc npc i j, member_id nc npc i k)"
    unfolding cluster_cliques_def by blast
  have "nc + 2 \<le> member_id nc npc i j" "nc + 2 \<le> member_id nc npc i k"
    using b by (simp_all add: member_id_ge)
  with e show ?thesis by simp
qed

lemma families_disjoint:
  "gateway_star nc \<inter> relay_stars nc npc = {}"
  "gateway_star nc \<inter> cluster_cliques nc npc = {}"
  "relay_stars nc npc \<inter> cluster_cliques nc npc = {}"
proof -
  have nc: "0 < nc" if "e \<in> gateway_star nc" for e
    using that by (auto simp: gateway_star_def)
  show "gateway_star nc \<inter> relay_stars nc npc = {}"
    using gateway_star_ends [of _ nc] relay_stars_ends [of _ nc npc] nc by fastforce
  show "gateway_star nc \<inter> cluster_cliques nc npc = {}"
    using gateway_star_ends [of _ nc] cluster_cliques_ends [of _ nc npc] nc by fastforce
  show "relay_stars nc npc \<inter> cluster_cliques nc npc = {}"
    using relay_stars_ends [of _ nc npc] cluster_cliques_ends [of _ nc npc] by fastforce
qed

lemma distinct_relay_part: "distinct (concat (map (relay_seg nc npc) (py_range nc)))"
proof (rule distinct_concat_map)
  show "distinct (py_range nc)" by (simp add: py_range_def)
next
  fix i assume "i \<in> set (py_range nc)"
  then show "distinct (relay_seg nc npc i)" by (simp add: distinct_relay_seg py_range_def)
next
  fix i i' assume "i \<in> set (py_range nc)" "i' \<in> set (py_range nc)" and ne: "i \<noteq> i'"
  then have b: "0 \<le> i" "i < nc" "0 \<le> i'" "i' < nc" by (auto simp: py_range_def)
  show "set (relay_seg nc npc i) \<inter> set (relay_seg nc npc i') = {}"
  proof (rule ccontr)
    assume "set (relay_seg nc npc i) \<inter> set (relay_seg nc npc i') \<noteq> {}"
    then obtain e where "e \<in> set (relay_seg nc npc i)" "e \<in> set (relay_seg nc npc i')" by blast
    then obtain j j' where j: "0 \<le> j" "j < npc" "0 \<le> j'" "j' < npc"
      and e: "e = (i + 2, member_id nc npc i j) \<or> e = (member_id nc npc i j, i + 2)"
      and e': "e = (i' + 2, member_id nc npc i' j') \<or> e = (member_id nc npc i' j', i' + 2)"
      unfolding set_relay_seg by blast
    have "i' + 2 < member_id nc npc i j" "i + 2 < member_id nc npc i' j'"
      using b j by (simp_all add: member_id_gt_relay)
    with e e' ne show False by auto
  qed
qed

lemma distinct_pair_seg:
  assumes "0 \<le> j"
  shows "distinct (pair_seg nc npc i j)"
  unfolding pair_seg_def
proof (rule distinct_concat_map)
  show "distinct (py_range2 (j + 1) npc)" by (simp add: py_range2_def)
next
  fix k assume "k \<in> set (py_range2 (j + 1) npc)"
  then have "j < k" "k < npc" by (auto simp: py_range2_def)
  then have "member_id nc npc i j \<noteq> member_id nc npc i k"
    using assms by (intro member_id_neq) auto
  then show "distinct [(member_id nc npc i j, member_id nc npc i k),
                       (member_id nc npc i k, member_id nc npc i j)]" by simp
next
  fix k k' assume "k \<in> set (py_range2 (j + 1) npc)" "k' \<in> set (py_range2 (j + 1) npc)" "k \<noteq> k'"
  then have b: "j < k" "k < npc" "j < k'" "k' < npc" "k \<noteq> k'" by (auto simp: py_range2_def)
  have "member_id nc npc i k \<noteq> member_id nc npc i k'"
    using assms b by (intro member_id_neq) auto
  moreover have "member_id nc npc i j \<noteq> member_id nc npc i k"
    using assms b by (intro member_id_neq) auto
  moreover have "member_id nc npc i j \<noteq> member_id nc npc i k'"
    using assms b by (intro member_id_neq) auto
  ultimately show "set [(member_id nc npc i j, member_id nc npc i k),
                        (member_id nc npc i k, member_id nc npc i j)]
      \<inter> set [(member_id nc npc i j, member_id nc npc i k'),
               (member_id nc npc i k', member_id nc npc i j)] = {}"
    by auto
qed

lemma distinct_clique_seg: "distinct (clique_seg nc npc i)"
  unfolding clique_seg_def
proof (rule distinct_concat_map)
  show "distinct (py_range npc)" by (simp add: py_range_def)
next
  fix j assume "j \<in> set (py_range npc)"
  then show "distinct (pair_seg nc npc i j)" by (simp add: distinct_pair_seg py_range_def)
next
  fix j j' assume "j \<in> set (py_range npc)" "j' \<in> set (py_range npc)" and ne: "j \<noteq> j'"
  then have b: "0 \<le> j" "j < npc" "0 \<le> j'" "j' < npc" by (auto simp: py_range_def)
  show "set (pair_seg nc npc i j) \<inter> set (pair_seg nc npc i j') = {}"
  proof (rule ccontr)
    assume "set (pair_seg nc npc i j) \<inter> set (pair_seg nc npc i j') \<noteq> {}"
    then obtain e where "e \<in> set (pair_seg nc npc i j)" "e \<in> set (pair_seg nc npc i j')" by blast
    then have "e \<in> (\<lambda>k. (member_id nc npc i j, member_id nc npc i k)) ` {j + 1..npc - 1}
                \<union> (\<lambda>k. (member_id nc npc i k, member_id nc npc i j)) ` {j + 1..npc - 1}"
      and "e \<in> (\<lambda>k. (member_id nc npc i j', member_id nc npc i k)) ` {j' + 1..npc - 1}
                \<union> (\<lambda>k. (member_id nc npc i k, member_id nc npc i j')) ` {j' + 1..npc - 1}"
      by (simp_all only: set_pair_seg)
    then obtain k k' where kin: "k \<in> {j + 1..npc - 1}" "k' \<in> {j' + 1..npc - 1}"
      and e: "e = (member_id nc npc i j, member_id nc npc i k)
            \<or> e = (member_id nc npc i k, member_id nc npc i j)"
      and e': "e = (member_id nc npc i j', member_id nc npc i k')
            \<or> e = (member_id nc npc i k', member_id nc npc i j')"
      by blast
    from kin have k: "j < k" "k < npc" "j' < k'" "k' < npc" by simp_all
    have same: "a = c" if "member_id nc npc i a = member_id nc npc i c"
      "a \<in> {j, k, j', k'}" "c \<in> {j, k, j', k'}" for a c
    proof -
      have "0 \<le> a" "a < npc" "0 \<le> c" "c < npc" using that(2,3) b k by auto
      from member_id_inj [OF this that(1)] show ?thesis by simp
    qed
    from e e' show False
    proof (elim disjE)
      assume "e = (member_id nc npc i j, member_id nc npc i k)"
        "e = (member_id nc npc i j', member_id nc npc i k')"
      then have "j = j'" using same [of j j'] by simp
      with ne show False by simp
    next
      assume "e = (member_id nc npc i j, member_id nc npc i k)"
        "e = (member_id nc npc i k', member_id nc npc i j')"
      then have "j = k'" "k = j'" using same [of j k'] same [of k j'] by simp_all
      with k show False by simp
    next
      assume "e = (member_id nc npc i k, member_id nc npc i j)"
        "e = (member_id nc npc i j', member_id nc npc i k')"
      then have "k = j'" "j = k'" using same [of k j'] same [of j k'] by simp_all
      with k show False by simp
    next
      assume "e = (member_id nc npc i k, member_id nc npc i j)"
        "e = (member_id nc npc i k', member_id nc npc i j')"
      then have "j = j'" using same [of j j'] by simp
      with ne show False by simp
    qed
  qed
qed

lemma distinct_clique_part: "distinct (concat (map (clique_seg nc npc) (py_range nc)))"
proof (rule distinct_concat_map)
  show "distinct (py_range nc)" by (simp add: py_range_def)
next
  fix i assume "i \<in> set (py_range nc)"
  show "distinct (clique_seg nc npc i)" by (rule distinct_clique_seg)
next
  fix i i' assume "i \<in> set (py_range nc)" "i' \<in> set (py_range nc)" and ne: "i \<noteq> i'"
  show "set (clique_seg nc npc i) \<inter> set (clique_seg nc npc i') = {}"
  proof (rule ccontr)
    assume "set (clique_seg nc npc i) \<inter> set (clique_seg nc npc i') \<noteq> {}"
    then obtain e where "e \<in> set (clique_seg nc npc i)" "e \<in> set (clique_seg nc npc i')" by blast
    then obtain j k j' k' where "0 \<le> j" "j < npc" "0 \<le> j'" "j' < npc"
      and "e = (member_id nc npc i j, member_id nc npc i k)"
      and "e = (member_id nc npc i' j', member_id nc npc i' k')"
      unfolding set_clique_seg by blast
    then have "member_id nc npc i j = member_id nc npc i' j'" by simp
    from member_id_inj [OF \<open>0 \<le> j\<close> \<open>j < npc\<close> \<open>0 \<le> j'\<close> \<open>j' < npc\<close> this] ne
    show False by simp
  qed
qed

lemma connection_ends_segments:
  "map link_ends (connection_entries nc npc) =
     gw_seg nc @ concat (map (relay_seg nc npc) (py_range nc))
       @ concat (map (clique_seg nc npc) (py_range nc))"
proof -
  have "relay_seg nc npc = (\<lambda>i. concat (map (\<lambda>j.
            [(i + 2, member_id nc npc i j), (member_id nc npc i j, i + 2)]) (py_range npc)))"
    by (rule ext) (simp add: relay_seg_def)
  moreover have "pair_seg nc npc i = (\<lambda>j. concat (map (\<lambda>k.
            [(member_id nc npc i j, member_id nc npc i k),
             (member_id nc npc i k, member_id nc npc i j)])
          (py_range2 (j + 1) npc)))" for i
    by (rule ext) (simp add: pair_seg_def)
  then have "clique_seg nc npc = (\<lambda>i. concat (map (\<lambda>j. concat (map (\<lambda>k.
            [(member_id nc npc i j, member_id nc npc i k),
             (member_id nc npc i k, member_id nc npc i j)])
          (py_range2 (j + 1) npc))) (py_range npc)))"
    by (intro ext) (simp add: clique_seg_def)
  ultimately show ?thesis
    by (simp add: connection_ends_unfold gw_seg_def)
qed

lemma connection_ends_set:
  "set (map link_ends (connection_entries nc npc))
     = gateway_star nc \<union> relay_stars nc npc \<union> cluster_cliques nc npc"
  unfolding connection_ends_segments
  by (simp only: set_append set_gw_seg set_relay_part set_clique_part Un_assoc)

lemma connection_ends_distinct: "distinct (map link_ends (connection_entries nc npc))"
  unfolding connection_ends_segments
  by (simp only: distinct_append set_append set_gw_seg set_relay_part set_clique_part
      distinct_gw_seg distinct_relay_part distinct_clique_part Int_Un_distrib
      families_disjoint Un_empty simp_thms)

text \<open>The list for two clusters of two members, evaluated.\<close>

lemma connection_entries_2_2:
  "map link_ends (connection_entries 2 2) =
     [(1, 2), (2, 1), (1, 3), (3, 1),
      (2, 4), (4, 2), (2, 5), (5, 2), (3, 6), (6, 3), (3, 7), (7, 3),
      (4, 5), (5, 4), (6, 7), (7, 6)]"
  by (simp add: connection_ends_unfold py_range_def py_range2_def member_id_def upto_rec1)

lemma count_list_distinct:
  "distinct xs \<Longrightarrow> count_list xs a = (if a \<in> set xs then 1 else 0)"
  by (induction xs) auto

lemma connection_entries_quality:
  "c \<in> set (connection_entries nc npc) \<Longrightarrow> link_quality c = ''0.9'' \<and> rssi c = - 80"
  by (auto simp: connection_entries_unfold link_def TTP_TO_GATEWAY_LINK_QUALITY_def
      CLUSTER_TO_TTP_LINK_QUALITY_def CLUSTER_INTERNAL_LINK_QUALITY_def DEFAULT_RSSI_def)

lemma connection_entries_nonempty:
  assumes "1 \<le> nc"
  shows "connection_entries nc npc \<noteq> []"
proof -
  have "(1, 2) \<in> gateway_star nc"
    unfolding gateway_star_def using assms by (auto intro: exI [of _ 0])
  then have "(1, 2) \<in> set (map link_ends (connection_entries nc npc))"
    unfolding connection_ends_set by blast
  then show ?thesis by auto
qed

lemma read_generate_connections:
  assumes "1 \<le> nc"
  shows "read_links (generate_connections nc npc) = Some (connection_entries nc npc)"
  unfolding generate_connections_def
proof (rule read_links_bracketed)
  show "connection_entries nc npc \<noteq> []" by (rule connection_entries_nonempty [OF assms])
  show "\<forall>c \<in> set (connection_entries nc npc). CHR ''}'' \<notin> set (link_quality c)"
    using connection_entries_quality by fastforce
qed

text \<open>
  C2. For every \<open>clusterCount \<ge> 1\<close> the text that \<^verbatim>\<open>generate_connections\<close> returns
  reads back as the list of links built by its loops, each with the RSSI \<open>-80\<close> and the
  link quality \<^verbatim>\<open>0.9\<close>. Among the links written there, every ordered pair of distinct
  members of one cluster occurs exactly once, so every unordered pair exactly twice, once
  in each direction, and no link joins members of different clusters. No directed link
  occurs twice, and the links are exactly the star of the relays into the gateway, the
  star of each cluster's members into its relay and the complete graph on each cluster's
  members.
\<close>

theorem generate_connections_cluster_graph:
  "(1 \<le> nc \<longrightarrow>
      read_links (generate_connections nc npc) = Some (connection_entries nc npc)
      \<and> map_option (map link_ends) (read_links (generate_connections nc npc))
          = Some (gw_seg nc @ concat (map (relay_seg nc npc) (py_range nc))
                    @ concat (map (clique_seg nc npc) (py_range nc)))
      \<and> map_option (map (\<lambda>c. (rssi c, link_quality c))) (read_links (generate_connections nc npc))
          = Some (replicate (length (connection_entries nc npc)) (- 80, ''0.9'')))
   \<and> distinct (map link_ends (connection_entries nc npc))
   \<and> set (map link_ends (connection_entries nc npc))
       = gateway_star nc \<union> relay_stars nc npc \<union> cluster_cliques nc npc
   \<and> (\<forall>i j k. 0 \<le> i \<and> i < nc \<and> 0 \<le> j \<and> j < npc \<and> 0 \<le> k \<and> k < npc \<and> j \<noteq> k \<longrightarrow>
         count_list (map link_ends (connection_entries nc npc))
           (member_id nc npc i j, member_id nc npc i k) = 1)
   \<and> (\<forall>i j i' j'. 0 \<le> i \<and> i < nc \<and> 0 \<le> i' \<and> i' < nc \<and> 0 \<le> j \<and> j < npc
           \<and> 0 \<le> j' \<and> j' < npc \<and> i \<noteq> i' \<longrightarrow>
         count_list (map link_ends (connection_entries nc npc))
           (member_id nc npc i j, member_id nc npc i' j') = 0)"
proof -
  let ?ends = "map link_ends (connection_entries nc npc)"
  have d: "distinct ?ends" by (rule connection_ends_distinct)
  have s: "set ?ends = gateway_star nc \<union> relay_stars nc npc \<union> cluster_cliques nc npc"
    by (rule connection_ends_set)
  have cnt: "count_list ?ends e = (if e \<in> set ?ends then 1 else 0)" for e
    using d by (rule count_list_distinct)
  have same: "count_list ?ends (member_id nc npc i j, member_id nc npc i k) = 1"
    if "0 \<le> i \<and> i < nc \<and> 0 \<le> j \<and> j < npc \<and> 0 \<le> k \<and> k < npc \<and> j \<noteq> k" for i j k
  proof -
    have "(member_id nc npc i j, member_id nc npc i k) \<in> cluster_cliques nc npc"
      unfolding cluster_cliques_def using that by blast
    then have "(member_id nc npc i j, member_id nc npc i k) \<in> set ?ends"
      unfolding s by blast
    then show ?thesis unfolding cnt by (simp only: if_True)
  qed
  have other: "count_list ?ends (member_id nc npc i j, member_id nc npc i' j') = 0"
    if h: "0 \<le> i \<and> i < nc \<and> 0 \<le> i' \<and> i' < nc \<and> 0 \<le> j \<and> j < npc
           \<and> 0 \<le> j' \<and> j' < npc \<and> i \<noteq> i'" for i j i' j'
  proof -
    let ?e = "(member_id nc npc i j, member_id nc npc i' j')"
    have ge: "nc + 2 \<le> member_id nc npc i j" "nc + 2 \<le> member_id nc npc i' j'"
      using h by (simp_all add: member_id_ge)
    have nc: "0 < nc" using h by simp
    have "?e \<notin> gateway_star nc"
      using gateway_star_ends [of ?e nc] ge nc by auto
    moreover have "?e \<notin> relay_stars nc npc"
      using relay_stars_ends [of ?e nc npc] ge by auto
    moreover have "?e \<notin> cluster_cliques nc npc"
    proof
      assume "?e \<in> cluster_cliques nc npc"
      then obtain c a b where b: "0 \<le> a" "a < npc" "0 \<le> b" "b < npc"
        and e: "?e = (member_id nc npc c a, member_id nc npc c b)"
        unfolding cluster_cliques_def by blast
      from e have e1: "member_id nc npc i j = member_id nc npc c a"
        and e2: "member_id nc npc i' j' = member_id nc npc c b" by simp_all
      have "i = c" using member_id_inj [OF _ _ b(1,2) e1] h by simp
      moreover have "i' = c" using member_id_inj [OF _ _ b(3,4) e2] h by simp
      ultimately show False using h by simp
    qed
    ultimately have "?e \<notin> set ?ends" unfolding s by blast
    then show ?thesis unfolding cnt by (simp only: if_False)
  qed
  have reading: "read_links (generate_connections nc npc) = Some (connection_entries nc npc)
      \<and> map_option (map link_ends) (read_links (generate_connections nc npc))
          = Some (gw_seg nc @ concat (map (relay_seg nc npc) (py_range nc))
                    @ concat (map (clique_seg nc npc) (py_range nc)))
      \<and> map_option (map (\<lambda>c. (rssi c, link_quality c))) (read_links (generate_connections nc npc))
          = Some (replicate (length (connection_entries nc npc)) (- 80, ''0.9''))"
    if nc: "1 \<le> nc"
  proof -
    have rd: "read_links (generate_connections nc npc) = Some (connection_entries nc npc)"
      by (rule read_generate_connections [OF nc])
    have q: "map (\<lambda>c. (rssi c, link_quality c)) (connection_entries nc npc)
               = replicate (length (connection_entries nc npc)) (- 80, ''0.9'')"
      by (rule replicate_eqI) (auto dest: connection_entries_quality)
    show ?thesis
      unfolding rd using q by (simp add: connection_ends_segments)
  qed
  show ?thesis
    using d s same other reading by blast
qed


lemma generate_connections_1_1:
  \<open>generate_connections 1 1 =
     ''[{"FROM_ID": 1, "TO_ID": 2, "RSSI": -80, "LINK_QUALITY": 0.9, "LINK_MODEL": "Fixed"},''
       @ [CHR 0x0A] @
     ''    {"FROM_ID": 2, "TO_ID": 1, "RSSI": -80, "LINK_QUALITY": 0.9, "LINK_MODEL": "Fixed"},''
       @ [CHR 0x0A] @
     ''    {"FROM_ID": 2, "TO_ID": 3, "RSSI": -80, "LINK_QUALITY": 0.9, "LINK_MODEL": "Fixed"},''
       @ [CHR 0x0A] @
     ''    {"FROM_ID": 3, "TO_ID": 2, "RSSI": -80, "LINK_QUALITY": 0.9, "LINK_MODEL": "Fixed"}]''
       @ [CHR 0x0A]\<close>
proof -
  have e: "connection_entries 1 1 =
     [link 1 2 (- 80) ''0.9'', link 2 1 (- 80) ''0.9'', link 2 3 (- 80) ''0.9'',
      link 3 2 (- 80) ''0.9'']"
    by (simp add: connection_entries_unfold py_range_def py_range2_def member_id_def upto_rec1
        TTP_TO_GATEWAY_LINK_QUALITY_def CLUSTER_TO_TTP_LINK_QUALITY_def DEFAULT_RSSI_def)
  show ?thesis
    unfolding generate_connections_def e
    by (simp add: bracketed_def fixed_link_str_def link_def str_int_def str_nat.simps)
qed

theorem generate_connections_cluster_graph_witness:
  \<open>(1::int) \<le> 2
   \<and> generate_connections 1 1 =
     ''[{"FROM_ID": 1, "TO_ID": 2, "RSSI": -80, "LINK_QUALITY": 0.9, "LINK_MODEL": "Fixed"},''
       @ [CHR 0x0A] @
     ''    {"FROM_ID": 2, "TO_ID": 1, "RSSI": -80, "LINK_QUALITY": 0.9, "LINK_MODEL": "Fixed"},''
       @ [CHR 0x0A] @
     ''    {"FROM_ID": 2, "TO_ID": 3, "RSSI": -80, "LINK_QUALITY": 0.9, "LINK_MODEL": "Fixed"},''
       @ [CHR 0x0A] @
     ''    {"FROM_ID": 3, "TO_ID": 2, "RSSI": -80, "LINK_QUALITY": 0.9, "LINK_MODEL": "Fixed"}]''
       @ [CHR 0x0A]
   \<and> map_option (map link_ends) (read_links (generate_connections 2 2))
       = Some [(1, 2), (2, 1), (1, 3), (3, 1),
               (2, 4), (4, 2), (2, 5), (5, 2), (3, 6), (6, 3), (3, 7), (7, 3),
               (4, 5), (5, 4), (6, 7), (7, 6)]
   \<and> count_list (map link_ends (connection_entries 2 2)) (member_id 2 2 0 0, member_id 2 2 0 1) = 1
   \<and> count_list (map link_ends (connection_entries 2 2)) (member_id 2 2 0 1, member_id 2 2 0 0) = 1
   \<and> count_list (map link_ends (connection_entries 2 2)) (member_id 2 2 0 0, member_id 2 2 1 0) = 0
   \<and> (member_id 2 2 0 0, member_id 2 2 0 1) = (4, 5)
   \<and> (member_id 2 2 1 0) = 6\<close>
proof -
  note t = generate_connections_cluster_graph [of 2 2]
  have n: "(1::int) \<le> 2" by simp
  from t n have rd: "read_links (generate_connections 2 2) = Some (connection_entries 2 2)"
    by blast
  have ends: "map_option (map link_ends) (read_links (generate_connections 2 2))
       = Some [(1, 2), (2, 1), (1, 3), (3, 1),
               (2, 4), (4, 2), (2, 5), (5, 2), (3, 6), (6, 3), (3, 7), (7, 3),
               (4, 5), (5, 4), (6, 7), (7, 6)]"
    unfolding rd by (simp add: connection_entries_2_2)
  from t have a: "\<forall>i j k. 0 \<le> i \<and> i < 2 \<and> 0 \<le> j \<and> j < 2 \<and> 0 \<le> k \<and> k < 2 \<and> j \<noteq> k \<longrightarrow>
         count_list (map link_ends (connection_entries 2 2))
           (member_id 2 2 i j, member_id 2 2 i k) = 1" by blast
  from t have b: "\<forall>i j i' j'. 0 \<le> i \<and> i < 2 \<and> 0 \<le> i' \<and> i' < 2 \<and> 0 \<le> j \<and> j < 2
           \<and> 0 \<le> j' \<and> j' < 2 \<and> i \<noteq> i' \<longrightarrow>
         count_list (map link_ends (connection_entries 2 2))
           (member_id 2 2 i j, member_id 2 2 i' j') = 0" by blast
  have c1: "count_list (map link_ends (connection_entries 2 2)) (member_id 2 2 0 0, member_id 2 2 0 1) = 1"
    using a [rule_format, of 0 0 1] by simp
  have c2: "count_list (map link_ends (connection_entries 2 2)) (member_id 2 2 0 1, member_id 2 2 0 0) = 1"
    using a [rule_format, of 0 1 0] by simp
  have c3: "count_list (map link_ends (connection_entries 2 2)) (member_id 2 2 0 0, member_id 2 2 1 0) = 0"
    using b [rule_format, of 0 1 0 0] by simp
  have m: "(member_id 2 2 0 0, member_id 2 2 0 1) = (4, 5)" "member_id 2 2 1 0 = 6"
    by (simp_all add: member_id_def)
  from n generate_connections_1_1 ends c1 c2 c3 m show ?thesis by blast
qed


section \<open>Node identifiers and positions of the mobile position list\<close>

lemma fold_counter_range:
  assumes "0 \<le> n"
  shows "fold (\<lambda>i (ps, c). (ps @ [f i c], c + 1)) [0..n - 1] (ps, c)
           = (ps @ map (\<lambda>i. f i (c + i)) [0..n - 1], c + n)"
  using assms
proof (induction n rule: int_ge_induct)
  case base
  show ?case by simp
next
  case (step n)
  have split: "[0..n + 1 - 1] = [0..n - 1] @ [n]"
    using step.hyps by (simp add: upto_rec2)
  show ?case unfolding split using step.IH by (simp add: add.assoc)
qed

lemma fold_fold_counter_range:
  assumes "0 \<le> n" and "0 \<le> m"
  shows "fold (\<lambda>i. fold (\<lambda>j (ps, c). (ps @ [g i j c], c + 1)) [0..m - 1]) [0..n - 1] (ps, c)
           = (ps @ concat (map (\<lambda>i. map (\<lambda>j. g i j (c + i * m + j)) [0..m - 1]) [0..n - 1]),
              c + n * m)"
  using assms(1)
proof (induction n rule: int_ge_induct)
  case base
  show ?case by simp
next
  case (step n)
  have split: "[0..n + 1 - 1] = [0..n - 1] @ [n]"
    using step.hyps by (simp add: upto_rec2)
  show ?case unfolding split using step.IH
    by (simp add: fold_counter_range [OF assms(2)] algebra_simps)
qed

lemma get_num_mobile_per_cluster_nonneg:
  assumes "0 \<le> npc" and "get_num_mobile_per_cluster npc = (nm, ns)"
  shows "0 \<le> nm" and "0 \<le> ns"
  using assms by (auto simp: get_num_mobile_per_cluster_def Let_def)

lemma position_entries_mobile_unfold:
  assumes "0 \<le> nc" and "0 \<le> npc" and "get_num_mobile_per_cluster npc = (nm, ns)"
  shows "position_entries_mobile ops nc npc =
     \<lparr>pos_id = 1, pos_x = 0, pos_y = 0\<rparr>
     # map (\<lambda>i. relay_position_mobile ops nc i (2 + i)) (py_range nc)
     @ concat (map (\<lambda>i. map (\<lambda>j. static_position_mobile ops nc ns i j (2 + nc + i * ns + j))
                               (py_range ns)) (py_range nc))
     @ concat (map (\<lambda>i. map (\<lambda>j. mobile_position_mobile ops nc i (2 + nc + nc * ns + i * nm + j))
                               (py_range nm)) (py_range nc))"
proof -
  have nm: "0 \<le> nm" and ns: "0 \<le> ns"
    using get_num_mobile_per_cluster_nonneg [OF assms(2,3)] by simp_all
  show ?thesis
    unfolding position_entries_mobile_def py_range_def
    by (simp add: Let_def assms(3) fold_counter_range [OF assms(1)]
        fold_fold_counter_range [OF assms(1) ns] fold_fold_counter_range [OF assms(1) nm]
        algebra_simps)
qed


lemma mobile_position_is_relay_position:
  "mobile_position_mobile ops nc i c = (relay_position_mobile ops nc i c') \<lparr>pos_id := c\<rparr>"
  by (simp add: mobile_position_mobile_def relay_position_mobile_def Let_def)

lemma pos_id_mobile_bodies [simp]:
  "pos_id (relay_position_mobile ops nc i c) = c"
  "pos_id (static_position_mobile ops nc ns i j c) = c"
  "pos_id (mobile_position_mobile ops nc i c) = c"
  by (simp_all add: relay_position_mobile_def static_position_mobile_def
      mobile_position_mobile_def Let_def)

lemma position_entries_mobile_ids:
  assumes "0 \<le> nc" and "0 \<le> npc" and "get_num_mobile_per_cluster npc = (nm, ns)"
  shows "map pos_id (position_entries_mobile ops nc npc) = [1..1 + nc + nc * ns + nc * nm]"
proof -
  have nm: "0 \<le> nm" and ns: "0 \<le> ns"
    using get_num_mobile_per_cluster_nonneg [OF assms(2,3)] by simp_all
  have p1: "0 \<le> nc * ns" and p2: "0 \<le> nc * nm" using assms(1) nm ns by simp_all
  have relays: "map (\<lambda>i. 2 + i) [0..nc - 1] = [2..2 + nc - 1]"
    by (rule map_add_upto_shift)
  have statics: "concat (map (\<lambda>i. map (\<lambda>j. 2 + nc + i * ns + j) [0..ns - 1]) [0..nc - 1])
                   = [2 + nc..2 + nc + nc * ns - 1]"
    using concat_blocks_upto [OF assms(1) ns, of "2 + nc"]
    by (simp add: map_add_upto_shift)
  have mobiles: "concat (map (\<lambda>i. map (\<lambda>j. 2 + nc + nc * ns + i * nm + j) [0..nm - 1]) [0..nc - 1])
                   = [2 + nc + nc * ns..2 + nc + nc * ns + nc * nm - 1]"
    using concat_blocks_upto [OF assms(1) nm, of "2 + nc + nc * ns"]
    by (simp add: map_add_upto_shift)
  have "map pos_id (position_entries_mobile ops nc npc)
          = 1 # [2..2 + nc - 1] @ [2 + nc..2 + nc + nc * ns - 1]
              @ [2 + nc + nc * ns..2 + nc + nc * ns + nc * nm - 1]"
    unfolding position_entries_mobile_unfold [OF assms]
    by (simp add: map_concat comp_def py_range_def relays statics mobiles)
  also have "[2 + nc..2 + nc + nc * ns - 1] @ [2 + nc + nc * ns..2 + nc + nc * ns + nc * nm - 1]
               = [2 + nc..2 + nc + nc * ns + nc * nm - 1]"
    using upto_append_adjacent [of "2 + nc" "2 + nc + nc * ns - 1" "2 + nc + nc * ns + nc * nm - 1"]
      p1 p2 by (simp add: add.assoc)
  also have "[2..2 + nc - 1] @ [2 + nc..2 + nc + nc * ns + nc * nm - 1]
               = [2..2 + nc + nc * ns + nc * nm - 1]"
    using upto_append_adjacent [of 2 "2 + nc - 1" "2 + nc + nc * ns + nc * nm - 1"]
      assms(1) p1 p2 by (simp add: add.assoc)
  also have "1 # [2..2 + nc + nc * ns + nc * nm - 1] = [1..1 + nc + nc * ns + nc * nm]"
  proof -
    have "(1::int) \<le> 1 + nc + nc * ns + nc * nm" using assms(1) p1 p2 by linarith
    then show ?thesis by (simp add: upto_rec1 [of 1] algebra_simps)
  qed
  finally show ?thesis .
qed

lemma read_generate_positions_mobile:
  assumes "0 \<le> nc" and "0 \<le> npc"
  shows "read_positions (generate_positions_mobile ops nc npc)
           = Some (position_entries_mobile ops nc npc)"
  unfolding generate_positions_mobile_def
proof (rule read_positions_bracketed)
  obtain nm ns where split: "get_num_mobile_per_cluster npc = (nm, ns)"
    by (cases "get_num_mobile_per_cluster npc")
  show "position_entries_mobile ops nc npc \<noteq> []"
    unfolding position_entries_mobile_unfold [OF assms split] by simp
qed

text \<open>
  C9. In the mobile variant, for every \<open>clusterCount \<ge> 1\<close> and \<open>perClusterCount \<ge> 0\<close>,
  each cluster has \<open>staticCount = \<lfloor>perClusterCount * 2 / 3\<rfloor>\<close> static members and
  \<open>mobileCount = perClusterCount - staticCount\<close> mobile ones. The text that
  \<^verbatim>\<open>generate_positions\<close> returns reads back as a list of entries whose node identifiers
  are \<open>1, 2, 3, \<dots>\<close> without a gap, in the order gateway, relays, static members cluster
  by cluster, mobile members cluster by cluster. The entry of every mobile member is the
  entry of its cluster's relay with only the identifier changed: it carries the relay's
  rounded coordinates.
\<close>

theorem generate_positions_mobile_allocation:
  assumes "1 \<le> nc" and "0 \<le> npc"
    and "ns = npc * 2 div 3" and "nm = npc - ns"
  shows "get_num_mobile_per_cluster npc = (nm, ns)
       \<and> map_option (map pos_id) (read_positions (generate_positions_mobile ops nc npc))
            = Some [1..1 + nc + nc * ns + nc * nm]
       \<and> 1 + nc + nc * ns + nc * nm = 1 + nc + nc * npc
       \<and> read_positions (generate_positions_mobile ops nc npc) =
            Some (\<lparr>pos_id = 1, pos_x = 0, pos_y = 0\<rparr>
            # map (\<lambda>i. relay_position_mobile ops nc i (2 + i)) (py_range nc)
            @ concat (map (\<lambda>i. map (\<lambda>j. static_position_mobile ops nc ns i j
                                            (2 + nc + i * ns + j))
                                      (py_range ns)) (py_range nc))
            @ concat (map (\<lambda>i. map (\<lambda>j. (relay_position_mobile ops nc i (2 + i))
                                            \<lparr>pos_id := 2 + nc + nc * ns + i * nm + j\<rparr>)
                                      (py_range nm)) (py_range nc)))
       \<and> read_positions (generate_positions_mobile ops nc npc)
            = Some (position_entries_mobile ops nc npc)
       \<and> map pos_id (position_entries_mobile ops nc npc) = [1..1 + nc + nc * ns + nc * nm]"
proof -
  have nc: "0 \<le> nc" using assms(1) by simp
  have split: "get_num_mobile_per_cluster npc = (nm, ns)"
    using assms(3,4) by (simp add: get_num_mobile_per_cluster_def Let_def)
  have "nc * ns + nc * nm = nc * (ns + nm)" by (simp add: distrib_left)
  also have "ns + nm = npc" using assms(4) by simp
  finally have total: "1 + nc + nc * ns + nc * nm = 1 + nc + nc * npc" by simp
  have ids: "map pos_id (position_entries_mobile ops nc npc) = [1..1 + nc + nc * ns + nc * nm]"
    by (rule position_entries_mobile_ids [OF nc assms(2) split])
  have shape: "position_entries_mobile ops nc npc =
            \<lparr>pos_id = 1, pos_x = 0, pos_y = 0\<rparr>
            # map (\<lambda>i. relay_position_mobile ops nc i (2 + i)) (py_range nc)
            @ concat (map (\<lambda>i. map (\<lambda>j. static_position_mobile ops nc ns i j
                                            (2 + nc + i * ns + j))
                                      (py_range ns)) (py_range nc))
            @ concat (map (\<lambda>i. map (\<lambda>j. (relay_position_mobile ops nc i (2 + i))
                                            \<lparr>pos_id := 2 + nc + nc * ns + i * nm + j\<rparr>)
                                      (py_range nm)) (py_range nc))"
    unfolding position_entries_mobile_unfold [OF nc assms(2) split]
    by (simp add: mobile_position_is_relay_position [where c' = "2 + i" for i, symmetric])
  have rd: "read_positions (generate_positions_mobile ops nc npc)
              = Some (position_entries_mobile ops nc npc)"
    by (rule read_generate_positions_mobile [OF nc assms(2)])
  have rd_ids: "map_option (map pos_id) (read_positions (generate_positions_mobile ops nc npc))
            = Some [1..1 + nc + nc * ns + nc * nm]"
    unfolding rd using ids by simp
  have rd_shape: "read_positions (generate_positions_mobile ops nc npc) =
            Some (\<lparr>pos_id = 1, pos_x = 0, pos_y = 0\<rparr>
            # map (\<lambda>i. relay_position_mobile ops nc i (2 + i)) (py_range nc)
            @ concat (map (\<lambda>i. map (\<lambda>j. static_position_mobile ops nc ns i j
                                            (2 + nc + i * ns + j))
                                      (py_range ns)) (py_range nc))
            @ concat (map (\<lambda>i. map (\<lambda>j. (relay_position_mobile ops nc i (2 + i))
                                            \<lparr>pos_id := 2 + nc + nc * ns + i * nm + j\<rparr>)
                                      (py_range nm)) (py_range nc)))"
    unfolding rd using shape by (simp only:)
  show ?thesis
    using split total ids rd rd_ids rd_shape by blast
qed

lemma generate_positions_mobile_2_3:
  \<open>generate_positions_mobile real_ops 2 3 =
     ''[{"ID": 1, "X": 0, "Y": 0},'' @ [CHR 0x0A] @
     ''    {"ID": 2, "X": -500, "Y": 0},'' @ [CHR 0x0A] @
     ''    {"ID": 3, "X": 500, "Y": 0},'' @ [CHR 0x0A] @
     ''    {"ID": 4, "X": -540, "Y": 0},'' @ [CHR 0x0A] @
     ''    {"ID": 5, "X": -460, "Y": 0},'' @ [CHR 0x0A] @
     ''    {"ID": 6, "X": 460, "Y": 0},'' @ [CHR 0x0A] @
     ''    {"ID": 7, "X": 540, "Y": 0},'' @ [CHR 0x0A] @
     ''    {"ID": 8, "X": -500, "Y": 0},'' @ [CHR 0x0A] @
     ''    {"ID": 9, "X": 500, "Y": 0}]'' @ [CHR 0x0A]\<close>
proof -
  have r: "f_round real_ops = py_round" "f_add real_ops = (+)" by (simp_all add: real_ops_def)
  have split: "get_num_mobile_per_cluster 3 = (1, 2)"
    by (simp add: get_num_mobile_per_cluster_def)
  have a: "(0::int) \<le> 2" and b: "(0::int) \<le> 3" by simp_all
  have e: "position_entries_mobile real_ops 2 3 =
     [\<lparr>pos_id = 1, pos_x = 0, pos_y = 0\<rparr>, \<lparr>pos_id = 2, pos_x = - 500, pos_y = 0\<rparr>,
      \<lparr>pos_id = 3, pos_x = 500, pos_y = 0\<rparr>, \<lparr>pos_id = 4, pos_x = - 540, pos_y = 0\<rparr>,
      \<lparr>pos_id = 5, pos_x = - 460, pos_y = 0\<rparr>, \<lparr>pos_id = 6, pos_x = 460, pos_y = 0\<rparr>,
      \<lparr>pos_id = 7, pos_x = 540, pos_y = 0\<rparr>, \<lparr>pos_id = 8, pos_x = - 500, pos_y = 0\<rparr>,
      \<lparr>pos_id = 9, pos_x = 500, pos_y = 0\<rparr>]"
    unfolding position_entries_mobile_unfold [OF a b split]
    using py_round_of_int [of "- 500"] py_round_of_int [of 500] py_round_of_int [of "- 540"]
      py_round_of_int [of "- 460"] py_round_of_int [of 460] py_round_of_int [of 540]
      py_round_of_int [of 0]
    by (simp add: py_range_def upto_rec1 relay_position_mobile_def static_position_mobile_def
        mobile_position_mobile_def circle_examples r)
  show ?thesis
    unfolding generate_positions_mobile_def e
    by (simp add: bracketed_def position_str_def str_int_def str_nat.simps)
qed

theorem generate_positions_mobile_allocation_witness:
  \<open>(1::int) \<le> 2 \<and> (0::int) \<le> 3 \<and> (2::int) = 3 * 2 div 3 \<and> (1::int) = 3 - 2
   \<and> get_num_mobile_per_cluster 3 = (1, 2)
   \<and> generate_positions_mobile real_ops 2 3 =
     ''[{"ID": 1, "X": 0, "Y": 0},'' @ [CHR 0x0A] @
     ''    {"ID": 2, "X": -500, "Y": 0},'' @ [CHR 0x0A] @
     ''    {"ID": 3, "X": 500, "Y": 0},'' @ [CHR 0x0A] @
     ''    {"ID": 4, "X": -540, "Y": 0},'' @ [CHR 0x0A] @
     ''    {"ID": 5, "X": -460, "Y": 0},'' @ [CHR 0x0A] @
     ''    {"ID": 6, "X": 460, "Y": 0},'' @ [CHR 0x0A] @
     ''    {"ID": 7, "X": 540, "Y": 0},'' @ [CHR 0x0A] @
     ''    {"ID": 8, "X": -500, "Y": 0},'' @ [CHR 0x0A] @
     ''    {"ID": 9, "X": 500, "Y": 0}]'' @ [CHR 0x0A]
   \<and> map_option (map pos_id) (read_positions (generate_positions_mobile real_ops 2 3))
       = Some [1, 2, 3, 4, 5, 6, 7, 8, 9]\<close>
proof -
  have a: "(1::int) \<le> 2" and b: "(0::int) \<le> 3" and c: "(2::int) = 3 * 2 div 3"
    and d: "(1::int) = 3 - 2" by simp_all
  have "get_num_mobile_per_cluster 3 = (1, 2)
      \<and> map_option (map pos_id) (read_positions (generate_positions_mobile real_ops 2 3))
           = Some [1..1 + 2 + 2 * 2 + 2 * 1]"
    using generate_positions_mobile_allocation [OF a b c d, of real_ops] by blast
  then have "get_num_mobile_per_cluster 3 = (1, 2)
      \<and> map_option (map pos_id) (read_positions (generate_positions_mobile real_ops 2 3))
           = Some [1, 2, 3, 4, 5, 6, 7, 8, 9]"
    by (simp add: upto_rec1)
  with a b c d generate_positions_mobile_2_3 show ?thesis by blast
qed


section \<open>Single-metric extraction\<close>

lemma extract_metric_nodes_spec:
  "extract_metric_nodes m d nodes usable =
     (case spec_node_values m d nodes of
        Inl e \<Rightarrow> Inl e
      | Inr vs \<Rightarrow> Inr (usable @ vs))"
proof (induction nodes arbitrary: usable)
  case Nil
  show ?case by (simp add: spec_node_values_def)
next
  case (Cons p nodes)
  obtain node node_results where p: "p = (node, node_results)" by (cases p)
  show ?case
  proof (cases "node = ''1'' \<or> node = ''global-stats''")
    case True
    then show ?thesis using Cons.IH [of usable]
      by (auto simp: p spec_node_values_def)
  next
    case False
    have IH: "extract_metric_nodes m d nodes (usable @ [v]) =
         (case spec_node_values m d nodes of Inl e \<Rightarrow> Inl e | Inr vs \<Rightarrow> Inr (usable @ v # vs))"
      for v using Cons.IH [of "usable @ [v]"] by (simp split: sum.splits)
    from False show ?thesis
      by (cases "map_of node_results m")
         (auto simp: p IH spec_node_values_def split: sum.splits option.splits)
  qed
qed

lemma extract_metric_runs_spec:
  "extract_metric_runs m d agg tree acc =
     (case sequence_err (map (\<lambda>(run, nodes). spec_run_value m d agg nodes)
                             (filter (\<lambda>(run, nodes). run \<noteq> ''aggregate-stats'') tree)) of
        Inl e \<Rightarrow> Inl e
      | Inr vs \<Rightarrow> Inr (acc @ vs))"
proof (induction tree arbitrary: acc)
  case Nil
  show ?case by simp
next
  case (Cons p tree)
  obtain run nodes where p: "p = (run, nodes)" by (cases p)
  have IH: "extract_metric_runs m d agg tree (acc @ [v]) =
       (case sequence_err (map (\<lambda>(run, nodes). spec_run_value m d agg nodes)
                             (filter (\<lambda>(run, nodes). run \<noteq> ''aggregate-stats'') tree)) of
          Inl e \<Rightarrow> Inl e | Inr vs \<Rightarrow> Inr (acc @ v # vs))"
    for v using Cons.IH [of "acc @ [v]"] by (simp split: sum.splits)
  show ?case
  proof (cases "run = ''aggregate-stats''")
    case True
    then show ?thesis using Cons.IH [of acc] by (simp add: p)
  next
    case False
    then show ?thesis
      by (auto simp: p IH spec_run_value_def extract_metric_nodes_spec [of m d nodes "[]"]
          split: sum.splits)
  qed
qed

lemma extract_metric_exps_spec:
  "extract_metric_exps m d agg exps acc =
     (case extractMetric_spec exps m d agg of
        Inl e \<Rightarrow> Inl e
      | Inr vs \<Rightarrow> Inr (acc @ vs))"
proof (induction exps arbitrary: acc)
  case Nil
  show ?case by (simp add: extractMetric_spec_def)
next
  case (Cons ex exps)
  have IH: "extract_metric_exps m d agg exps (acc @ [v]) =
       (case extractMetric_spec exps m d agg of Inl e \<Rightarrow> Inl e | Inr vs \<Rightarrow> Inr (acc @ v # vs))"
    for v using Cons.IH [of "acc @ [v]"] by (simp split: sum.splits)
  show ?case
    using extract_metric_runs_spec [of m d agg _ "[]"]
    by (auto simp: IH extractMetric_spec_def spec_experiment_series_def
        split: sum.splits option.splits)
qed

lemma extract_metric_refines_spec:
  "extract_metric exps (m, d) agg = extractMetric_spec exps m d agg"
  by (simp add: extract_metric_def extract_metric_exps_spec [of m d agg exps "[]"]
      split: sum.splits)


text \<open>Evaluating \<open>binary64\<close> at a number: one step of \<open>normalise\<close> at a numeral of fuel.\<close>

lemma normalise_numeral:
  "normalise (numeral k) x s =
     (if 9007199254740992 \<le> x then normalise (pred_numeral k) (x / 2) (s * 2)
      else if x < 4503599627370496 then normalise (pred_numeral k) (x * 2) (s / 2)
      else (x, s))"
  by (simp add: numeral_eq_Suc)

lemmas binary64_eval = binary64_def binary64_ops_def py_round_def Let_def normalise_numeral

lemma mean_example_real: "mean real_ops [Some 5, Some 10] = Inr (15 / 2)"
  by (simp add: mean_def py_sum_def real_ops_def)

lemma mean_example_binary64: "mean binary64_ops [Some 5, Some 10] = Inr (15 / 2)"
  by (simp add: mean_def py_sum_def binary64_eval)

lemma spec_node_values_reserved:
  "spec_node_values m d ((''1'', a) # (''global-stats'', b) # nodes) = spec_node_values m d nodes"
  by (simp add: spec_node_values_def)

text \<open>
  C3. \<^verbatim>\<open>extract_metric\<close> computes what the specification describes: for each experiment
  and each run other than the reserved run \<^verbatim>\<open>aggregate-stats\<close> it skips the nodes \<^verbatim>\<open>1\<close>
  and \<^verbatim>\<open>global-stats\<close>, substitutes the caller's default for a null metric value and
  reduces the remaining values with the aggregation function. Two node dictionaries that
  agree on the nodes that are not reserved give the same values, whatever they hold at the
  reserved nodes. On one run with nodes \<open>{2: 5, 3: null}\<close>, default 10 and \<open>mean\<close> the run's
  result is 7.5, in exact and in binary64 arithmetic, whatever is stored at \<^verbatim>\<open>1\<close> and
  \<^verbatim>\<open>global-stats\<close>.
\<close>

theorem extract_metric_correct:
  "extract_metric experiments (metric, default_value) aggregate_function
     = extractMetric_spec experiments metric default_value aggregate_function
   \<and> (\<forall>nodes nodes' usable.
         filter (\<lambda>(node, node_results). node \<noteq> ''1'' \<and> node \<noteq> ''global-stats'') nodes
           = filter (\<lambda>(node, node_results). node \<noteq> ''1'' \<and> node \<noteq> ''global-stats'') nodes'
         \<longrightarrow> extract_metric_nodes metric default_value nodes usable
             = extract_metric_nodes metric default_value nodes' usable)
   \<and> (\<forall>e a b. extract_metric
          [e\<lparr>attr_results := Some [(''0'', [(''1'', a), (''global-stats'', b),
                                             (''2'', [(metric, Some 5)]),
                                             (''3'', [(metric, None)])])]\<rparr>]
          (metric, Some 10) (mean real_ops) = Inr [[15 / 2]])
   \<and> (\<forall>e a b. extract_metric
          [e\<lparr>attr_results := Some [(''0'', [(''1'', a), (''global-stats'', b),
                                             (''2'', [(metric, Some 5)]),
                                             (''3'', [(metric, None)])])]\<rparr>]
          (metric, Some 10) (mean binary64_ops) = Inr [[15 / 2]])"
proof (intro conjI allI impI)
  show "extract_metric experiments (metric, default_value) aggregate_function
     = extractMetric_spec experiments metric default_value aggregate_function"
    by (rule extract_metric_refines_spec)
next
  fix nodes nodes' :: run_results and usable
  assume "filter (\<lambda>(node, node_results). node \<noteq> ''1'' \<and> node \<noteq> ''global-stats'') nodes
           = filter (\<lambda>(node, node_results). node \<noteq> ''1'' \<and> node \<noteq> ''global-stats'') nodes'"
  then have "spec_node_values metric default_value nodes
               = spec_node_values metric default_value nodes'"
    by (simp add: spec_node_values_def)
  then show "extract_metric_nodes metric default_value nodes usable
             = extract_metric_nodes metric default_value nodes' usable"
    by (simp add: extract_metric_nodes_spec)
next
  fix e :: Experiment and a b
  show "extract_metric
          [e\<lparr>attr_results := Some [(''0'', [(''1'', a), (''global-stats'', b),
                                             (''2'', [(metric, Some 5)]),
                                             (''3'', [(metric, None)])])]\<rparr>]
          (metric, Some 10) (mean real_ops) = Inr [[15 / 2]]"
    by (simp add: extract_metric_def mean_example_real)
next
  fix e :: Experiment and a b
  show "extract_metric
          [e\<lparr>attr_results := Some [(''0'', [(''1'', a), (''global-stats'', b),
                                             (''2'', [(metric, Some 5)]),
                                             (''3'', [(metric, None)])])]\<rparr>]
          (metric, Some 10) (mean binary64_ops) = Inr [[15 / 2]]"
    by (simp add: extract_metric_def mean_example_binary64)
qed

theorem extract_metric_correct_witness:
  "extract_metric_nodes ''m'' None
     [(''1'', [(''m'', Some 99)]), (''2'', [(''m'', Some 5)]), (''global-stats'', [])] []
   = extract_metric_nodes ''m'' None [(''2'', [(''m'', Some 5)])] []"
proof -
  have "\<forall>nodes nodes' usable.
         filter (\<lambda>(node, node_results). node \<noteq> ''1'' \<and> node \<noteq> ''global-stats'') nodes
           = filter (\<lambda>(node, node_results). node \<noteq> ''1'' \<and> node \<noteq> ''global-stats'') nodes'
         \<longrightarrow> extract_metric_nodes ''m'' None nodes usable
             = extract_metric_nodes ''m'' None nodes' usable"
    using extract_metric_correct [of "[]" "''m''" None "mean real_ops"] by blast
  then show ?thesis by simp
qed


section \<open>Paired-metric extraction\<close>

lemma extract_metrics_nodes_spec:
  "extract_metrics_nodes m1 m2 nodes (u1, u2) =
     (case spec_pair_values m1 m2 nodes of
        Inl e \<Rightarrow> Inl e
      | Inr ps \<Rightarrow> Inr (u1 @ map fst ps, u2 @ map snd ps))"
proof (induction nodes arbitrary: u1 u2)
  case Nil
  show ?case by (simp add: spec_pair_values_def)
next
  case (Cons p nodes)
  obtain node node_results where p: "p = (node, node_results)" by (cases p)
  show ?case
  proof (cases "node = ''1'' \<or> node = ''global-stats''")
    case True
    then show ?thesis using Cons.IH [of u1 u2]
      by (auto simp: p spec_pair_values_def)
  next
    case False
    have IH: "extract_metrics_nodes m1 m2 nodes (u1 @ [v1], u2 @ [v2]) =
         (case spec_pair_values m1 m2 nodes of
            Inl e \<Rightarrow> Inl e
          | Inr ps \<Rightarrow> Inr (u1 @ v1 # map fst ps, u2 @ v2 # map snd ps))"
      for v1 v2 using Cons.IH [of "u1 @ [v1]" "u2 @ [v2]"] by (simp split: sum.splits)
    from False show ?thesis
      by (cases "map_of node_results m1"; cases "map_of node_results m2")
         (auto simp: p IH spec_pair_values_def split: sum.splits)
  qed
qed

lemma extract_metrics_runs_spec:
  "extract_metrics_runs m1 m2 agg tree (r1, r2) =
     (case sequence_err (map (\<lambda>(run, nodes). spec_run_pair m1 m2 agg nodes)
                             (filter (\<lambda>(run, nodes). run \<noteq> ''aggregate-stats'') tree)) of
        Inl e \<Rightarrow> Inl e
      | Inr ps \<Rightarrow> Inr (r1 @ map fst ps, r2 @ map snd ps))"
proof (induction tree arbitrary: r1 r2)
  case Nil
  show ?case by simp
next
  case (Cons p tree)
  obtain run nodes where p: "p = (run, nodes)" by (cases p)
  have IH: "extract_metrics_runs m1 m2 agg tree (r1 @ [a1], r2 @ [a2]) =
       (case sequence_err (map (\<lambda>(run, nodes). spec_run_pair m1 m2 agg nodes)
                             (filter (\<lambda>(run, nodes). run \<noteq> ''aggregate-stats'') tree)) of
          Inl e \<Rightarrow> Inl e
        | Inr ps \<Rightarrow> Inr (r1 @ a1 # map fst ps, r2 @ a2 # map snd ps))"
    for a1 a2 using Cons.IH [of "r1 @ [a1]" "r2 @ [a2]"] by (simp split: sum.splits)
  show ?case
  proof (cases "run = ''aggregate-stats''")
    case True
    then show ?thesis using Cons.IH [of r1 r2] by (simp add: p)
  next
    case False
    then show ?thesis
      by (auto simp: p IH spec_run_pair_def extract_metrics_nodes_spec [of m1 m2 nodes "[]" "[]"]
          split: sum.splits)
  qed
qed

lemma combine_all_sequence:
  "combine_all f ps = sequence_err (map (\<lambda>(x, y). f x y) ps)"
  by (induction ps) (auto split: sum.splits)

lemma extract_metrics_exps_spec:
  "extract_metrics_exps m1 m2 f agg exps acc =
     (case extractMetrics_spec exps m1 m2 f agg of
        Inl e \<Rightarrow> Inl e
      | Inr vs \<Rightarrow> Inr (acc @ vs))"
proof (induction exps arbitrary: acc)
  case Nil
  show ?case by (simp add: extractMetrics_spec_def)
next
  case (Cons ex exps)
  have IH: "extract_metrics_exps m1 m2 f agg exps (acc @ [v]) =
       (case extractMetrics_spec exps m1 m2 f agg of Inl e \<Rightarrow> Inl e | Inr vs \<Rightarrow> Inr (acc @ v # vs))"
    for v using Cons.IH [of "acc @ [v]"] by (simp split: sum.splits)
  show ?case
    using extract_metrics_runs_spec [of m1 m2 agg _ "[]" "[]"]
    by (auto simp: IH extractMetrics_spec_def spec_experiment_combined_def combine_all_sequence
        zip_map_fst_snd split: sum.splits option.splits)
qed

lemma extract_metrics_refines_spec:
  "extract_metrics exps (m1, m2, f) agg = extractMetrics_spec exps m1 m2 f agg"
  by (simp add: extract_metrics_def extract_metrics_exps_spec [of m1 m2 f agg exps "[]"]
      split: sum.splits)

lemma mean_pairs_real:
  "mean real_ops [Some 0, Some 2] = Inr 1" "mean real_ops [Some 10, Some 8] = Inr 9"
  by (simp_all add: mean_def py_sum_def real_ops_def)

lemma mean_pairs_binary64:
  "mean binary64_ops [Some 0, Some 2] = Inr 1" "mean binary64_ops [Some 10, Some 8] = Inr 9"
  by (simp_all add: mean_def py_sum_def binary64_eval)

lemma pdr_example_real: "pdr real_ops 1 9 = Inr 90"
  by (simp add: pdr_def real_ops_def)

lemma pdr_example_binary64: "pdr binary64_ops 1 9 = Inr 90"
  by (simp add: pdr_def binary64_eval)


text \<open>
  C4. \<^verbatim>\<open>extract_metrics\<close> computes what the specification describes: per run, with the
  run and node filtering of the single-metric extraction, it collects two parallel
  node-level sequences, reduces each with the aggregation function and applies the
  caller's combining function to the two aggregates of the run. With the metrics
  \<^verbatim>\<open>app_num_lost\<close> and \<^verbatim>\<open>app_num_endpoint_rx\<close>, the PDR combining function, \<open>mean\<close> and
  the per-node pairs \<open>(0, 10)\<close> and \<open>(2, 8)\<close>, the aggregates are \<open>(1, 9)\<close> and the run's
  result is 90, in exact and in binary64 arithmetic.
\<close>

theorem extract_metrics_correct:
  "extract_metrics experiments (metric1, metric2, function) aggregate_function
     = extractMetrics_spec experiments metric1 metric2 function aggregate_function
   \<and> mean real_ops [Some 0, Some 2] = Inr 1 \<and> mean real_ops [Some 10, Some 8] = Inr 9
   \<and> pdr real_ops 1 9 = Inr 90
   \<and> (\<forall>e a b. extract_metrics
          [e\<lparr>attr_results := Some [(''0'', [(''1'', a), (''global-stats'', b),
              (''2'', [(''app_num_lost'', Some 0), (''app_num_endpoint_rx'', Some 10)]),
              (''3'', [(''app_num_lost'', Some 2), (''app_num_endpoint_rx'', Some 8)])])]\<rparr>]
          (''app_num_lost'', ''app_num_endpoint_rx'', pdr real_ops) (mean real_ops)
        = Inr [[90]])
   \<and> (\<forall>e a b. extract_metrics
          [e\<lparr>attr_results := Some [(''0'', [(''1'', a), (''global-stats'', b),
              (''2'', [(''app_num_lost'', Some 0), (''app_num_endpoint_rx'', Some 10)]),
              (''3'', [(''app_num_lost'', Some 2), (''app_num_endpoint_rx'', Some 8)])])]\<rparr>]
          (''app_num_lost'', ''app_num_endpoint_rx'', pdr binary64_ops) (mean binary64_ops)
        = Inr [[90]])"
proof (intro conjI allI)
  show "extract_metrics experiments (metric1, metric2, function) aggregate_function
     = extractMetrics_spec experiments metric1 metric2 function aggregate_function"
    by (rule extract_metrics_refines_spec)
next
  show "mean real_ops [Some 0, Some 2] = Inr 1" "mean real_ops [Some 10, Some 8] = Inr 9"
    by (rule mean_pairs_real)+
next
  show "pdr real_ops 1 9 = Inr 90" by (rule pdr_example_real)
next
  fix e :: Experiment and a b
  show "extract_metrics
          [e\<lparr>attr_results := Some [(''0'', [(''1'', a), (''global-stats'', b),
              (''2'', [(''app_num_lost'', Some 0), (''app_num_endpoint_rx'', Some 10)]),
              (''3'', [(''app_num_lost'', Some 2), (''app_num_endpoint_rx'', Some 8)])])]\<rparr>]
          (''app_num_lost'', ''app_num_endpoint_rx'', pdr real_ops) (mean real_ops)
        = Inr [[90]]"
    by (simp add: extract_metrics_def mean_pairs_real pdr_example_real)
next
  fix e :: Experiment and a b
  show "extract_metrics
          [e\<lparr>attr_results := Some [(''0'', [(''1'', a), (''global-stats'', b),
              (''2'', [(''app_num_lost'', Some 0), (''app_num_endpoint_rx'', Some 10)]),
              (''3'', [(''app_num_lost'', Some 2), (''app_num_endpoint_rx'', Some 8)])])]\<rparr>]
          (''app_num_lost'', ''app_num_endpoint_rx'', pdr binary64_ops) (mean binary64_ops)
        = Inr [[90]]"
    by (simp add: extract_metrics_def mean_pairs_binary64 pdr_example_binary64)
qed

theorem extract_metrics_correct_witness:
  "extractMetrics_spec
     [\<lparr>attr_name = ''x'', attr_results_dir = ''./results-x'', attr_options = [],
       attr_results = Some [(''aggregate-stats'', []),
                            (''0'', [(''2'', [(''a'', Some 4), (''b'', Some 6)])])]\<rparr>]
     ''a'' ''b'' (pdr real_ops) (mean real_ops) = Inr [[60]]"
proof -
  have "extract_metrics
     [\<lparr>attr_name = ''x'', attr_results_dir = ''./results-x'', attr_options = [],
       attr_results = Some [(''aggregate-stats'', []),
                            (''0'', [(''2'', [(''a'', Some 4), (''b'', Some 6)])])]\<rparr>]
     (''a'', ''b'', pdr real_ops) (mean real_ops) = Inr [[60]]"
    by (simp add: extract_metrics_def mean_def py_sum_def pdr_def real_ops_def)
  then show ?thesis
    using extract_metrics_correct [of _ "''a''" "''b''" "pdr real_ops" "mean real_ops"]
    by simp
qed


section \<open>The two single-metric extractions compared\<close>

lemma spec_node_values_length:
  "spec_node_values m d nodes = Inr vs \<Longrightarrow> length vs = length (usable_nodes nodes)"
proof (induction nodes arbitrary: vs)
  case Nil
  then show ?case by (auto simp: spec_node_values_def usable_nodes_def)
next
  case (Cons p nodes)
  obtain node node_results where p: "p = (node, node_results)" by (cases p)
  show ?case
  proof (cases "node = ''1'' \<or> node = ''global-stats''")
    case True
    have "spec_node_values m d nodes = Inr vs"
      using Cons.prems True by (auto simp: p spec_node_values_def)
    from Cons.IH [OF this] True show ?thesis by (auto simp: p usable_nodes_def)
  next
    case False
    from Cons.prems False obtain v vs' where vs: "vs = v # vs'"
      and rest: "spec_node_values m d nodes = Inr vs'"
      by (auto simp: p spec_node_values_def split: option.splits sum.splits)
    from Cons.IH [OF rest] False vs show ?thesis by (auto simp: p usable_nodes_def)
  qed
qed

lemma numbers_spec_node_values:
  "spec_node_values m (Some d) nodes = Inr vs \<Longrightarrow> \<exists>xs. numbers vs = Inr xs \<and> length xs = length vs"
proof (induction nodes arbitrary: vs)
  case Nil
  then show ?case by (auto simp: spec_node_values_def)
next
  case (Cons p nodes)
  obtain node node_results where p: "p = (node, node_results)" by (cases p)
  show ?case
  proof (cases "node = ''1'' \<or> node = ''global-stats''")
    case True
    have "spec_node_values m (Some d) nodes = Inr vs"
      using Cons.prems True by (auto simp: p spec_node_values_def)
    from Cons.IH [OF this] show ?thesis .
  next
    case False
    from Cons.prems False obtain v vs' where vs: "vs = Some v # vs'"
      and rest: "spec_node_values m (Some d) nodes = Inr vs'"
      by (auto simp: p spec_node_values_def split: option.splits sum.splits)
    from Cons.IH [OF rest] vs show ?thesis by auto
  qed
qed

lemma extract_metric_rv_nodes_spec:
  "extract_metric_rv_nodes ops m (Some d) nodes (t, n) =
     (case spec_node_values m (Some d) nodes of
        Inl e \<Rightarrow> Inl e
      | Inr vs \<Rightarrow>
          (case numbers vs of
             Inl e \<Rightarrow> Inl e
           | Inr xs \<Rightarrow> Inr (fold (\<lambda>v acc. f_add ops acc v) xs t, n + int (length vs))))"
proof (induction nodes arbitrary: t n)
  case Nil
  show ?case by (simp add: spec_node_values_def)
next
  case (Cons p nodes)
  obtain node node_results where p: "p = (node, node_results)" by (cases p)
  show ?case
  proof (cases "node = ''1'' \<or> node = ''global-stats''")
    case True
    then show ?thesis using Cons.IH [of t n]
      by (auto simp: p spec_node_values_def)
  next
    case False
    show ?thesis
    proof (cases "map_of node_results m")
      case None
      with False show ?thesis by (auto simp: p spec_node_values_def)
    next
      case (Some v)
      obtain x where x: "(if v = None then Some d else v) = Some x"
        by (cases v) auto
      have head: "(case v of None \<Rightarrow> Inr (Some d) | Some y \<Rightarrow> Inr (Some y)) = (Inr (Some x) :: py_error + real option)"
        using x by (cases v) auto
      from False Some x show ?thesis
        using Cons.IH [of "f_add ops t x" "n + 1"]
        by (auto simp: p spec_node_values_def head split: sum.splits)
    qed
  qed
qed

lemma extract_metric_rv_runs_plain:
  assumes sum_left: "\<And>xs. f_sum ops xs = fold (\<lambda>v acc. f_add ops acc v) xs 0"
    and "plain_tree tree"
  shows "extract_metric_rv_runs ops m (Some d) tree acc
           = extract_metric_runs m (Some d) (mean ops) tree acc"
  using assms(2)
proof (induction tree arbitrary: acc)
  case Nil
  show ?case by simp
next
  case (Cons p tree)
  obtain run nodes where p: "p = (run, nodes)" by (cases p)
  from Cons.prems have run: "run \<noteq> ''aggregate-stats''" and nodes: "usable_nodes nodes \<noteq> []"
    and tree: "plain_tree tree" by (simp_all add: plain_tree_def p)
  note IH = Cons.IH [OF tree]
  show ?case
  proof (cases "spec_node_values m (Some d) nodes")
    case (Inl e)
    then show ?thesis
      using run by (simp add: p extract_metric_rv_nodes_spec extract_metric_nodes_spec)
  next
    case (Inr vs)
    from spec_node_values_length [OF Inr] nodes have len: "length vs \<noteq> 0" by simp
    from numbers_spec_node_values [OF Inr] obtain xs where xs: "numbers vs = Inr xs" by blast
    show ?thesis
      using run Inr len IH xs
      by (simp add: p extract_metric_rv_nodes_spec extract_metric_nodes_spec
          mean_def py_sum_def sum_left)
  qed
qed

lemma extract_metric_rv_exps_plain:
  assumes sum_left: "\<And>xs. f_sum ops xs = fold (\<lambda>v acc. f_add ops acc v) xs 0"
    and "plain_experiments exps"
  shows "extract_metric_rv_exps ops m (Some d) exps acc
           = extract_metric_exps m (Some d) (mean ops) exps acc"
  using assms(2)
proof (induction exps arbitrary: acc)
  case Nil
  show ?case by simp
next
  case (Cons ex exps)
  from Cons.prems have rest: "plain_experiments exps"
    and head: "\<And>tree. attr_results ex = Some tree \<Longrightarrow> plain_tree tree"
    by (simp_all add: plain_experiments_def)
  show ?case
    using Cons.IH [OF rest] head
    by (auto simp: extract_metric_rv_runs_plain [OF sum_left] split: option.splits sum.splits)
qed

lemma fold_add_sum_list: "fold (\<lambda>v acc. acc + v) xs (a :: real) = a + sum_list xs"
  by (induction xs arbitrary: a) simp_all

lemma sum_left_real_ops: "f_sum real_ops xs = fold (\<lambda>v acc. f_add real_ops acc v) xs 0"
  by (simp add: real_ops_def fold_add_sum_list)

lemma sum_left_binary64_ops:
  "f_sum binary64_ops xs = fold (\<lambda>v acc. f_add binary64_ops acc v) xs 0"
  by (simp add: binary64_ops_def)

text \<open>
  C10, as amended. Let the builtin \<^verbatim>\<open>sum\<close> add its values from the left, each to the
  running total, as the loop of \<^verbatim>\<open>result-visualization\<close> does: this is so in exact
  arithmetic and for floats under CPython up to 3.11, and not under CPython from 3.12 on,
  whose \<^verbatim>\<open>sum\<close> of floats is compensated. Then on experiments whose result trees have no
  run named \<^verbatim>\<open>aggregate-stats\<close> and in which every run has a node other than \<^verbatim>\<open>1\<close> and
  \<^verbatim>\<open>global-stats\<close>, and with a number as default value, the \<^verbatim>\<open>extract_metric\<close> of
  \<^verbatim>\<open>result-visualization/experiment.py\<close> and the \<^verbatim>\<open>extract_metric\<close> of
  \<^verbatim>\<open>niharika-ttp-smart-home/experiment.py\<close> with \<open>mean\<close> return the same: the same
  sequences, or the same exception.
\<close>

theorem extract_metric_rv_agrees:
  assumes "\<And>xs. f_sum ops xs = fold (\<lambda>v acc. f_add ops acc v) xs 0"
    and "plain_experiments experiments"
  shows "extract_metric_rv ops experiments (metric_name, Some d)
           = extract_metric experiments (metric_name, Some d) (mean ops)"
  using extract_metric_rv_exps_plain [OF assms]
  by (simp add: extract_metric_rv_def extract_metric_def)

theorem extract_metric_rv_agrees_witness:
  "(\<forall>xs. f_sum binary64_ops xs = fold (\<lambda>v acc. f_add binary64_ops acc v) xs 0)
   \<and> plain_experiments
     [\<lparr>attr_name = ''x'', attr_results_dir = ''./results-x'', attr_options = [],
       attr_results = Some [(''0'', [(''1'', [(''m'', Some 7)]),
                                     (''2'', [(''m'', Some (3602879701896397 / 36028797018963968))]),
                                     (''3'', [(''m'', Some (3602879701896397 / 18014398509481984))]),
                                     (''4'', [(''m'', None)])])]\<rparr>]
   \<and> extract_metric_rv binary64_ops
         [\<lparr>attr_name = ''x'', attr_results_dir = ''./results-x'', attr_options = [],
           attr_results = Some [(''0'', [(''1'', [(''m'', Some 7)]),
                                     (''2'', [(''m'', Some (3602879701896397 / 36028797018963968))]),
                                     (''3'', [(''m'', Some (3602879701896397 / 18014398509481984))]),
                                     (''4'', [(''m'', None)])])]\<rparr>]
         (''m'', Some (5404319552844595 / 18014398509481984))
       = Inr [[7205759403792795 / 36028797018963968]]
   \<and> extract_metric
         [\<lparr>attr_name = ''x'', attr_results_dir = ''./results-x'', attr_options = [],
           attr_results = Some [(''0'', [(''1'', [(''m'', Some 7)]),
                                     (''2'', [(''m'', Some (3602879701896397 / 36028797018963968))]),
                                     (''3'', [(''m'', Some (3602879701896397 / 18014398509481984))]),
                                     (''4'', [(''m'', None)])])]\<rparr>]
         (''m'', Some (5404319552844595 / 18014398509481984)) (mean binary64_ops)
       = Inr [[7205759403792795 / 36028797018963968]]"
proof -
  let ?exps = "[\<lparr>attr_name = ''x'', attr_results_dir = ''./results-x'', attr_options = [],
       attr_results = Some [(''0'', [(''1'', [(''m'', Some 7)]),
                                     (''2'', [(''m'', Some (3602879701896397 / 36028797018963968))]),
                                     (''3'', [(''m'', Some (3602879701896397 / 18014398509481984))]),
                                     (''4'', [(''m'', None)])])]\<rparr>]"
  let ?d = "5404319552844595 / 18014398509481984 :: real"
  have left: "\<forall>xs. f_sum binary64_ops xs = fold (\<lambda>v acc. f_add binary64_ops acc v) xs 0"
    by (simp add: binary64_ops_def)
  have plain: "plain_experiments ?exps"
    by (simp add: plain_experiments_def plain_tree_def usable_nodes_def)
  have rv: "extract_metric_rv binary64_ops ?exps (''m'', Some ?d)
              = Inr [[7205759403792795 / 36028797018963968]]"
    by (simp add: extract_metric_rv_def binary64_eval)
  from extract_metric_rv_agrees [of binary64_ops ?exps "''m''" ?d] left plain rv
  have "extract_metric ?exps (''m'', Some ?d) (mean binary64_ops)
          = Inr [[7205759403792795 / 36028797018963968]]" by simp
  with left plain rv show ?thesis by blast
qed

text \<open>
  C10 as stated fails. On a run whose only nodes are \<^verbatim>\<open>1\<close> and \<^verbatim>\<open>global-stats\<close> the
  version of \<^verbatim>\<open>result-visualization\<close> divides by zero where the other returns the mean of
  the empty series, 0.0; and it does not skip the run \<^verbatim>\<open>aggregate-stats\<close>, whose entries it
  reads as nodes. With the compensated \<^verbatim>\<open>sum\<close> of CPython from 3.12 on the two differ
  on a plain tree too: for one run with the node values \<^verbatim>\<open>0.1\<close>, \<^verbatim>\<open>0.2\<close> and \<^verbatim>\<open>0.3\<close> the
  loop of \<^verbatim>\<open>result-visualization\<close> totals \<^verbatim>\<open>0.6000000000000001\<close> and returns
  \<^verbatim>\<open>0.20000000000000004\<close>, while \<^verbatim>\<open>sum\<close> gives \<^verbatim>\<open>0.6\<close> and \<open>mean\<close> returns
  \<^verbatim>\<open>0.19999999999999998\<close>.
\<close>

theorem extract_metric_rv_differs:
  "extract_metric_rv real_ops
     [\<lparr>attr_name = ''x'', attr_results_dir = ''./results-x'', attr_options = [],
       attr_results = Some [(''0'', [(''1'', [(''m'', Some 7)]), (''global-stats'', [])])]\<rparr>]
     (''m'', Some 10) = Inl ZeroDivisionError
   \<and> extract_metric
     [\<lparr>attr_name = ''x'', attr_results_dir = ''./results-x'', attr_options = [],
       attr_results = Some [(''0'', [(''1'', [(''m'', Some 7)]), (''global-stats'', [])])]\<rparr>]
     (''m'', Some 10) (mean real_ops) = Inr [[0]]
   \<and> extract_metric_rv real_ops
     [\<lparr>attr_name = ''x'', attr_results_dir = ''./results-x'', attr_options = [],
       attr_results = Some [(''0'', [(''2'', [(''m'', Some 3)])]),
                            (''aggregate-stats'', [(''2'', [(''m'', Some 1)])])]\<rparr>]
     (''m'', Some 10) = Inr [[3, 1]]
   \<and> extract_metric
     [\<lparr>attr_name = ''x'', attr_results_dir = ''./results-x'', attr_options = [],
       attr_results = Some [(''0'', [(''2'', [(''m'', Some 3)])]),
                            (''aggregate-stats'', [(''2'', [(''m'', Some 1)])])]\<rparr>]
     (''m'', Some 10) (mean real_ops) = Inr [[3]]
   \<and> extract_metric_rv binary64_compensated_ops
     [\<lparr>attr_name = ''x'', attr_results_dir = ''./results-x'', attr_options = [],
       attr_results = Some [(''0'', [(''2'', [(''m'', Some (3602879701896397 / 36028797018963968))]),
                                     (''3'', [(''m'', Some (3602879701896397 / 18014398509481984))]),
                                     (''4'', [(''m'', Some (5404319552844595 / 18014398509481984))])])]\<rparr>]
     (''m'', Some 0) = Inr [[7205759403792795 / 36028797018963968]]
   \<and> extract_metric
     [\<lparr>attr_name = ''x'', attr_results_dir = ''./results-x'', attr_options = [],
       attr_results = Some [(''0'', [(''2'', [(''m'', Some (3602879701896397 / 36028797018963968))]),
                                     (''3'', [(''m'', Some (3602879701896397 / 18014398509481984))]),
                                     (''4'', [(''m'', Some (5404319552844595 / 18014398509481984))])])]\<rparr>]
     (''m'', Some 0) (mean binary64_compensated_ops)
       = Inr [[7205759403792793 / 36028797018963968]]"
  by (simp add: extract_metric_rv_def extract_metric_def mean_def py_sum_def real_ops_def
      binary64_compensated_ops_def compensated_sum_def binary64_eval)


section \<open>Limits of the y axis\<close>

lemma py_min_Min: "xs \<noteq> [] \<Longrightarrow> py_min xs = Inr (Min (set xs))"
proof (cases xs)
  case (Cons a list)
  then show ?thesis using Min.set_eq_fold [of a list] by simp
qed simp

lemma py_max_Max: "xs \<noteq> [] \<Longrightarrow> py_max xs = Inr (Max (set xs))"
proof (cases xs)
  case (Cons a list)
  then show ?thesis using Max.set_eq_fold [of a list] by simp
qed simp

lemma plot_stats_nonempty:
  assumes "[] \<notin> set results"
  shows "plot_stats ops results (means, mins, maxs) =
           Inr (means @ map (\<lambda>r. f_div ops (f_sum ops r) (f_of_int ops (int (length r)))) results,
                mins @ map (\<lambda>r. Min (set r)) results,
                maxs @ map (\<lambda>r. Max (set r)) results)"
  using assms
proof (induction results arbitrary: means mins maxs)
  case Nil
  show ?case by simp
next
  case (Cons r results)
  then have r: "r \<noteq> []" and rest: "[] \<notin> set results" by auto
  show ?case
    using Cons.IH [OF rest] r
    by (simp add: py_truediv_def py_min_Min py_max_Max)
qed

lemma py_contains_iff: "py_contains sub s \<longleftrightarrow> (\<exists>pre post. s = pre @ sub @ post)"
proof (induction s)
  case Nil
  show ?case by auto
next
  case (Cons c cs)
  show ?case
  proof
    assume "py_contains sub (c # cs)"
    then consider "take (length sub) (c # cs) = sub" | "py_contains sub cs" by auto
    then show "\<exists>pre post. c # cs = pre @ sub @ post"
    proof cases
      case 1
      then have "c # cs = [] @ sub @ drop (length sub) (c # cs)"
        by (metis append_Nil append_take_drop_id)
      then show ?thesis by blast
    next
      case 2
      with Cons.IH obtain pre post where "cs = pre @ sub @ post" by blast
      then have "c # cs = (c # pre) @ sub @ post" by simp
      then show ?thesis by blast
    qed
  next
    assume "\<exists>pre post. c # cs = pre @ sub @ post"
    then obtain pre post where eq: "c # cs = pre @ sub @ post" by blast
    show "py_contains sub (c # cs)"
    proof (cases pre)
      case Nil
      with eq have "take (length sub) (c # cs) = sub" by simp
      then show ?thesis by simp
    next
      case (Cons a pre')
      with eq have "cs = pre' @ sub @ post" by simp
      with Cons.IH show ?thesis by auto
    qed
  qed
qed

lemma plot_chart_limits:
  assumes "results \<noteq> []" and "[] \<notin> set results"
  shows "\<exists>c. plot_chart ops title names results = Inr c
           \<and> ylim_low c = (if py_contains ''PDR'' title
                            then \<lfloor>Min ((\<lambda>r. Min (set r)) ` set results)\<rfloor> - 1 else 0)
           \<and> ylim_high c = \<lceil>Max ((\<lambda>r. Max (set r)) ` set results)\<rceil> + 1"
proof -
  have mins: "py_min (map (\<lambda>r. Min (set r)) results)
                = Inr (Min ((\<lambda>r. Min (set r)) ` set results))"
    using assms(1) by (simp add: py_min_Min)
  have maxs: "py_max (map (\<lambda>r. Max (set r)) results)
                = Inr (Max ((\<lambda>r. Max (set r)) ` set results))"
    using assms(1) by (simp add: py_max_Max)
  show ?thesis
    by (simp add: plot_chart_def plot_stats_nonempty [OF assms(2)] mins maxs Let_def)
qed


text \<open>
  C5. Whenever the extraction function returns per-experiment sequences, at least one and
  none of them empty, \<^verbatim>\<open>plot\<close> (of either script) returns, and the lower limit of its y
  axis is \<open>\<lfloor>m\<rfloor> - 1\<close>, with \<open>m\<close> the least of the per-experiment minimums, when the title
  contains \<^verbatim>\<open>PDR\<close>, and exactly 0 for every other title, wherever the values lie; the
  upper limit is \<open>\<lceil>M\<rceil> + 1\<close>, with \<open>M\<close> the greatest of the per-experiment maximums, in
  both cases. A title contains \<^verbatim>\<open>PDR\<close> when it is \<open>pre @ ''PDR'' @ post\<close> for some \<open>pre\<close> and
  \<open>post\<close>.
\<close>

theorem plot_axis_bounds:
  assumes "results \<noteq> []" and "[] \<notin> set results"
  shows "(function experiments arguments aggregate_function = Inr results \<longrightarrow>
            (\<exists>c. plot ops title experiments function arguments aggregate_function = Inr c
               \<and> ylim_low c = (if py_contains ''PDR'' title
                               then \<lfloor>Min ((\<lambda>r. Min (set r)) ` set results)\<rfloor> - 1 else 0)
               \<and> ylim_high c = \<lceil>Max ((\<lambda>r. Max (set r)) ` set results)\<rceil> + 1))
       \<and> (function_rv experiments arguments_rv = Inr results \<longrightarrow>
            (\<exists>c. plot_rv ops experiments function_rv arguments_rv title = Inr c
               \<and> ylim_low c = (if py_contains ''PDR'' title
                               then \<lfloor>Min ((\<lambda>r. Min (set r)) ` set results)\<rfloor> - 1 else 0)
               \<and> ylim_high c = \<lceil>Max ((\<lambda>r. Max (set r)) ` set results)\<rceil> + 1))
       \<and> (py_contains ''PDR'' title \<longleftrightarrow> (\<exists>pre post. title = pre @ ''PDR'' @ post))"
proof (intro conjI impI)
  assume "function experiments arguments aggregate_function = Inr results"
  then show "\<exists>c. plot ops title experiments function arguments aggregate_function = Inr c
               \<and> ylim_low c = (if py_contains ''PDR'' title
                               then \<lfloor>Min ((\<lambda>r. Min (set r)) ` set results)\<rfloor> - 1 else 0)
               \<and> ylim_high c = \<lceil>Max ((\<lambda>r. Max (set r)) ` set results)\<rceil> + 1"
    using plot_chart_limits [OF assms, of ops title "map attr_name experiments"]
    by (simp add: plot_def)
next
  assume "function_rv experiments arguments_rv = Inr results"
  then show "\<exists>c. plot_rv ops experiments function_rv arguments_rv title = Inr c
               \<and> ylim_low c = (if py_contains ''PDR'' title
                               then \<lfloor>Min ((\<lambda>r. Min (set r)) ` set results)\<rfloor> - 1 else 0)
               \<and> ylim_high c = \<lceil>Max ((\<lambda>r. Max (set r)) ` set results)\<rceil> + 1"
    using plot_chart_limits [OF assms, of ops title "map attr_name experiments"]
    by (simp add: plot_rv_def)
next
  show "py_contains ''PDR'' title \<longleftrightarrow> (\<exists>pre post. title = pre @ ''PDR'' @ post)"
    by (rule py_contains_iff)
qed

theorem plot_axis_bounds_witness:
  "(\<exists>c. plot real_ops ''Application PDR, %'' [] (\<lambda>e a g. Inr [[95, 97], [99, 193 / 2]]) ()
           (mean real_ops) = Inr c
       \<and> ylim_low c = 94 \<and> ylim_high c = 100)
   \<and> (\<exists>c. plot_rv real_ops [] (\<lambda>e a. Inr [[95, 97], [99, 193 / 2]]) ()
           ''TSCH joining time, seconds'' = Inr c
       \<and> ylim_low c = 0 \<and> ylim_high c = 100)"
proof -
  let ?results = "[[95, 97], [99, 193 / 2 :: real]]"
  have ne: "?results \<noteq> []" and nonempty: "[] \<notin> set ?results" by simp_all
  have pdr: "py_contains ''PDR'' ''Application PDR, %''" by simp
  have other: "\<not> py_contains ''PDR'' ''TSCH joining time, seconds''" by simp
  have lo: "\<lfloor>Min ((\<lambda>r. Min (set r)) ` set ?results)\<rfloor> - 1 = 94" by simp
  have hi: "\<lceil>Max ((\<lambda>r. Max (set r)) ` set ?results)\<rceil> + 1 = 100" by simp
  note t1 = plot_axis_bounds [OF ne nonempty, of "\<lambda>e a g. Inr ?results" "[]" "()" "mean real_ops"
      real_ops "''Application PDR, %''" "\<lambda>e a. Inr ?results" "()"]
  note t2 = plot_axis_bounds [OF ne nonempty, of "\<lambda>e a g. Inr ?results" "[]" "()" "mean real_ops"
      real_ops "''TSCH joining time, seconds''" "\<lambda>e a. Inr ?results" "()"]
  from t1 have "\<exists>c. plot real_ops ''Application PDR, %'' [] (\<lambda>e a g. Inr ?results) ()
           (mean real_ops) = Inr c \<and> ylim_low c = 94 \<and> ylim_high c = 100"
    unfolding lo hi using pdr by simp
  moreover from t2 have "\<exists>c. plot_rv real_ops [] (\<lambda>e a. Inr ?results) ()
           ''TSCH joining time, seconds'' = Inr c \<and> ylim_low c = 0 \<and> ylim_high c = 100"
    unfolding lo hi using other by simp
  ultimately show ?thesis by blast
qed


section \<open>Error-bar half-lengths\<close>

lemma f_sum_real_ops: "f_sum real_ops xs = sum_list xs"
  by (simp add: real_ops_def)

lemma sum_list_lower:
  fixes xs :: "real list"
  assumes "\<And>x. x \<in> set xs \<Longrightarrow> m \<le> x"
  shows "m * real (length xs) \<le> sum_list xs"
  using assms by (induction xs) (auto simp: algebra_simps intro: add_mono)

lemma sum_list_upper:
  fixes xs :: "real list"
  assumes "\<And>x. x \<in> set xs \<Longrightarrow> x \<le> m"
  shows "sum_list xs \<le> m * real (length xs)"
  using assms by (induction xs) (auto simp: algebra_simps intro: add_mono)

lemma mean_between:
  fixes xs :: "real list"
  assumes "xs \<noteq> []"
  shows "Min (set xs) \<le> sum_list xs / real (length xs)"
    and "sum_list xs / real (length xs) \<le> Max (set xs)"
proof -
  have pos: "0 < real (length xs)" using assms by simp
  have "Min (set xs) * real (length xs) \<le> sum_list xs"
    by (rule sum_list_lower) simp
  then show "Min (set xs) \<le> sum_list xs / real (length xs)"
    using pos by (simp add: pos_le_divide_eq)
  have "sum_list xs \<le> Max (set xs) * real (length xs)"
    by (rule sum_list_upper) simp
  then show "sum_list xs / real (length xs) \<le> Max (set xs)"
    using pos by (simp add: pos_divide_le_eq)
qed

lemma plot_chart_exact:
  assumes "results \<noteq> []" and "[] \<notin> set results"
  shows "\<exists>c. plot_chart real_ops title names results = Inr c
           \<and> bar_heights c = map (\<lambda>r. sum_list r / real (length r)) results
           \<and> yerr_lower c = map (\<lambda>r. sum_list r / real (length r) - Min (set r)) results
           \<and> yerr_upper c = map (\<lambda>r. Max (set r) - sum_list r / real (length r)) results"
proof -
  have mins: "py_min (map (\<lambda>r. Min (set r)) results)
                = Inr (Min ((\<lambda>r. Min (set r)) ` set results))"
    using assms(1) by (simp add: py_min_Min)
  have maxs: "py_max (map (\<lambda>r. Max (set r)) results)
                = Inr (Max ((\<lambda>r. Max (set r)) ` set results))"
    using assms(1) by (simp add: py_max_Max)
  have ops: "f_sub real_ops = (-)" "f_div real_ops = (/)" "f_of_int real_ops = of_int"
    by (simp_all add: real_ops_def)
  show ?thesis
    by (simp add: plot_chart_def plot_stats_nonempty [OF assms(2)] mins maxs Let_def
        zip_map_map zip_same_conv_map f_sum_real_ops ops)
qed


text \<open>
  C6, as amended. In exact arithmetic the error-bar half-lengths that \<^verbatim>\<open>plot\<close> computes
  are never negative: for every nonempty sequence the arithmetic mean is at least the
  minimum and at most the maximum, and whenever the extraction function returns at least
  one sequence and no empty one, \<^verbatim>\<open>plot\<close> returns with the half-lengths \<open>mean - min\<close> and
  \<open>max - mean\<close> of each sequence, all of them at least 0.
\<close>

theorem plot_error_bars_exact:
  assumes "results \<noteq> []" and "[] \<notin> set results"
    and "function experiments arguments aggregate_function = Inr results"
  shows "(\<exists>c. plot real_ops title experiments function arguments aggregate_function = Inr c
            \<and> bar_heights c = map (\<lambda>r. sum_list r / real (length r)) results
            \<and> yerr_lower c = map (\<lambda>r. sum_list r / real (length r) - Min (set r)) results
            \<and> yerr_upper c = map (\<lambda>r. Max (set r) - sum_list r / real (length r)) results
            \<and> list_all (\<lambda>y. 0 \<le> y) (yerr_lower c)
            \<and> list_all (\<lambda>y. 0 \<le> y) (yerr_upper c))
       \<and> list_all (\<lambda>r. Min (set r) \<le> sum_list r / real (length r)
                         \<and> sum_list r / real (length r) \<le> Max (set r)) results"
proof -
  have between: "Min (set r) \<le> sum_list r / real (length r)
               \<and> sum_list r / real (length r) \<le> Max (set r)" if "r \<in> set results" for r
  proof -
    from that assms(2) have "r \<noteq> []" by auto
    then show ?thesis using mean_between [of r] by simp
  qed
  obtain c where c: "plot_chart real_ops title (map attr_name experiments) results = Inr c"
    and heights: "bar_heights c = map (\<lambda>r. sum_list r / real (length r)) results"
    and lower: "yerr_lower c = map (\<lambda>r. sum_list r / real (length r) - Min (set r)) results"
    and upper: "yerr_upper c = map (\<lambda>r. Max (set r) - sum_list r / real (length r)) results"
    using plot_chart_exact [OF assms(1,2)] by blast
  have "plot real_ops title experiments function arguments aggregate_function = Inr c"
    using c assms(3) by (simp add: plot_def)
  moreover have "list_all (\<lambda>y. 0 \<le> y) (yerr_lower c)"
    unfolding lower using between by (simp add: list_all_iff)
  moreover have "list_all (\<lambda>y. 0 \<le> y) (yerr_upper c)"
    unfolding upper using between by (simp add: list_all_iff)
  moreover have "list_all (\<lambda>r. Min (set r) \<le> sum_list r / real (length r)
                         \<and> sum_list r / real (length r) \<le> Max (set r)) results"
    using between by (simp add: list_all_iff)
  ultimately show ?thesis using heights lower upper by blast
qed

theorem plot_error_bars_exact_witness:
  "\<exists>c. plot real_ops ''t'' [] (\<lambda>e a g. Inr [[1, 2, 6]]) () (mean real_ops) = Inr c
       \<and> yerr_lower c = [2] \<and> yerr_upper c = [3]"
proof -
  have a: "[[1, 2, 6 :: real]] \<noteq> []" and b: "[] \<notin> set [[1, 2, 6 :: real]]" by simp_all
  from plot_error_bars_exact [of "[[1, 2, 6]]" "\<lambda>e a g. Inr [[1, 2, 6]]" "[]" "()"
      "mean real_ops" "''t''", OF a b]
  have "\<exists>c. plot real_ops ''t'' [] (\<lambda>e a g. Inr [[1, 2, 6]]) () (mean real_ops) = Inr c
       \<and> bar_heights c = [3] \<and> yerr_lower c = [2] \<and> yerr_upper c = [3]
       \<and> list_all ((\<le>) 0) (yerr_lower c) \<and> list_all ((\<le>) 0) (yerr_upper c)"
    by simp
  then show ?thesis by blast
qed

text \<open>
  C6 as stated fails on the floats \<^verbatim>\<open>plot\<close> computes with. Three runs with the value
  \<^verbatim>\<open>0.1\<close> (the binary64 number nearest to one tenth) give the sequence
  \<^verbatim>\<open>[0.1, 0.1, 0.1]\<close>; its sum rounds to \<^verbatim>\<open>0.30000000000000004\<close>, the mean to
  \<^verbatim>\<open>0.10000000000000002\<close>, which is above the maximum \<^verbatim>\<open>0.1\<close>, and the upper half-length
  \<open>max - mean\<close> is \<open>- 2^-56\<close>. The compensated \<^verbatim>\<open>sum\<close> of CPython from 3.12 on gives
  the same chart.
\<close>

theorem plot_error_bars_binary64:
  "plot binary64_ops ''Radio duty cycle, %''
     [\<lparr>attr_name = ''x'', attr_results_dir = ''./results-x'', attr_options = [],
         attr_results = Some [(''0'', [(''2'', [(''radio_duty_cycle_joined'', Some (3602879701896397 / 36028797018963968))])]),
                              (''1'', [(''2'', [(''radio_duty_cycle_joined'', Some (3602879701896397 / 36028797018963968))])]),
                              (''2'', [(''2'', [(''radio_duty_cycle_joined'', Some (3602879701896397 / 36028797018963968))])])]\<rparr>]
     extract_metric (''radio_duty_cycle_joined'', Some 0) (mean binary64_ops)
   = Inr \<lparr>bar_heights = [7205759403792795 / 72057594037927936],
          yerr_lower = [1 / 72057594037927936],
          yerr_upper = [- (1 / 72057594037927936)],
          xtick_labels = [''x''],
          ylabel = ''Radio duty cycle, %'',
          ylim_low = 0, ylim_high = 2,
          file_name = ''plot Radio duty cycle, %.pdf''\<rparr>
   \<and> binary64 (1 / 10) = 3602879701896397 / 36028797018963968
   \<and> plot binary64_compensated_ops ''Radio duty cycle, %''
     [\<lparr>attr_name = ''x'', attr_results_dir = ''./results-x'', attr_options = [],
         attr_results = Some [(''0'', [(''2'', [(''radio_duty_cycle_joined'', Some (3602879701896397 / 36028797018963968))])]),
                              (''1'', [(''2'', [(''radio_duty_cycle_joined'', Some (3602879701896397 / 36028797018963968))])]),
                              (''2'', [(''2'', [(''radio_duty_cycle_joined'', Some (3602879701896397 / 36028797018963968))])])]\<rparr>]
     extract_metric (''radio_duty_cycle_joined'', Some 0) (mean binary64_compensated_ops)
   = Inr \<lparr>bar_heights = [7205759403792795 / 72057594037927936],
          yerr_lower = [1 / 72057594037927936],
          yerr_upper = [- (1 / 72057594037927936)],
          xtick_labels = [''x''],
          ylabel = ''Radio duty cycle, %'',
          ylim_low = 0, ylim_high = 2,
          file_name = ''plot Radio duty cycle, %.pdf''\<rparr>"
  by (simp add: plot_def plot_chart_def extract_metric_def mean_def py_sum_def py_truediv_def
      binary64_compensated_ops_def compensated_sum_def binary64_eval)


section \<open>Failures of the configuration rendering\<close>

lemma option_text_examples:
  "option_text (PyBool True) = ''true''"
  "option_text (PyInt 3600) = ''3600''"
  "option_text (PyStr ''ab'') = [CHR 0x22] @ ''ab'' @ [CHR 0x22]"
  "option_text_rv (PyBool True) = ''True''"
  by (simp_all add: option_text_def option_text_rv_def is_plain_str_def py_lower_def
      str_int_def str_nat.simps)



lemma example_render:
  \<open>fold (\<lambda>(key, v) contents. py_replace (''%'' @ key @ ''%'') (option_text v) contents)
     [(''SIMULATION_DURATION_SEC'', PyInt 3600), (''RESULTS_DIR'', PyStr ''./results-x'')]
     ''{"DURATION": %SIMULATION_DURATION_SEC%, "NODES": %NUM_NODES%}''
   = ''{"DURATION": 3600, "NODES": %NUM_NODES%}''\<close>
  by (simp add: py_replace.simps option_text_def is_plain_str_def str_int_def str_nat.simps)






section \<open>Precedence of the options of a constructed experiment\<close>

lemma map_of_fold_update:
  "map_of (fold (\<lambda>(key, v) d. AList.update key v d) xs d) = map_of d ++ map_of (rev xs)"
proof (induction xs arbitrary: d)
  case Nil
  show ?case by simp
next
  case (Cons p xs)
  obtain k v where p: "p = (k, v)" by (cases p)
  show ?case
    by (rule ext) (simp add: p Cons.IH map_add_def update_conv split: option.splits)
qed

lemma map_of_rev_distinct:
  assumes "distinct (map fst xs)"
  shows "map_of (rev xs) = map_of xs"
proof -
  have "distinct (map fst (rev xs))" using assms by (simp add: rev_map [symmetric])
  then show ?thesis using assms by (simp add: map_of_inject_set)
qed

lemma map_of_dict_loop:
  assumes "distinct (map fst xs)"
  shows "map_of (fold (\<lambda>(key, v) d. AList.update key v d) xs d) = map_of d ++ map_of xs"
  by (simp add: map_of_fold_update map_of_rev_distinct [OF assms])

lemma Experiment_init_options:
  assumes "distinct (map fst options)"
  shows "map_of (attr_options (Experiment_init ops nc npc options)) =
           map_of [(''SIMULATION_DURATION_SEC'', PyInt 3600),
                   (''RESULTS_DIR'', PyStr (''./results-'' @ str_int nc @ ''_clusters_''
                                              @ str_int npc @ ''_nodes''))]
           ++ map_of options
           ++ map_of [(''NUM_NODES'', PyStr (str_int (1 + nc + nc * npc))),
                      (''CONNECTIONS'', PyStr (generate_connections nc npc)),
                      (''POSITIONS'', PyStr (generate_positions ops nc npc))]"
  by (rule ext)
    (simp add: Experiment_init_def Let_def AList.update_conv' map_of_dict_loop [OF assms]
      SIM_DURATION_SEC_def map_add_def split: option.splits)

lemma DEFAULT_OPTIONS_mobile_distinct: "distinct (map fst DEFAULT_OPTIONS_mobile)"
  by (simp add: DEFAULT_OPTIONS_mobile_def)

lemma Experiment_init_mobile_options:
  assumes "distinct (map fst options)"
  shows "map_of (attr_options (Experiment_init_mobile ops nc npc options)) =
           map_of ((''RESULTS_DIR'', PyStr (''./results-'' @ str_int nc @ ''_clusters_''
                                              @ str_int npc @ ''_nodes_mobile''))
                   # DEFAULT_OPTIONS_mobile)
           ++ map_of options
           ++ map_of [(''NUM_ROUTER_NODES'', PyStr (str_int (1 + nc))),
                      (''NUM_STATIC_LEAF_NODES'',
                         PyStr (str_int (nc * snd (get_num_mobile_per_cluster npc)))),
                      (''NUM_MOBILE_LEAF_NODES'',
                         PyStr (str_int (nc * fst (get_num_mobile_per_cluster npc)))),
                      (''CONNECTIONS'', PyStr (generate_connections_mobile nc npc)),
                      (''POSITIONS'', PyStr (generate_positions_mobile ops nc npc))]"
proof -
  obtain nm ns where split: "get_num_mobile_per_cluster npc = (nm, ns)"
    by (cases "get_num_mobile_per_cluster npc")
  have d: "map_of (fold (\<lambda>(key, v) d. AList.update key v d) DEFAULT_OPTIONS_mobile d)
             = map_of d ++ map_of DEFAULT_OPTIONS_mobile" for d
    by (rule map_of_dict_loop [OF DEFAULT_OPTIONS_mobile_distinct])
  show ?thesis
    by (rule ext)
      (simp add: Experiment_init_mobile_def Let_def split AList.update_conv'
        map_of_dict_loop [OF assms] d map_add_def DEFAULT_OPTIONS_mobile_def
        split: option.splits)
qed

lemma map_of_dict_entry:
  assumes "distinct (map fst options)" and "(key, v) \<in> set options"
  shows "map_of options key = Some v"
  using assms by simp

text \<open>
  C7, as amended. The options of a constructed experiment are the merge, in increasing
  precedence, of the built-in values, then the caller's options, then the values derived
  from the topology: in both scripts the constructor stores the node counts, the
  connection list and the position list after it has copied the caller's options. In the
  static script the built-in values are the simulation duration and the results
  directory; in the mobile script they are the results directory and the entries of
  \<^verbatim>\<open>DEFAULT_OPTIONS\<close>. So for every key of the caller's options other than a derived one
  the experiment holds the caller's value, and for a derived key it holds the derived
  value whatever the caller gave. The caller's options are a dictionary: no key occurs
  twice.
\<close>

theorem Experiment_init_precedence:
  assumes "distinct (map fst options)"
  shows "map_of (attr_options (Experiment_init ops nc npc options)) =
           map_of [(''SIMULATION_DURATION_SEC'', PyInt 3600),
                   (''RESULTS_DIR'', PyStr (''./results-'' @ str_int nc @ ''_clusters_''
                                              @ str_int npc @ ''_nodes''))]
           ++ map_of options
           ++ map_of [(''NUM_NODES'', PyStr (str_int (1 + nc + nc * npc))),
                      (''CONNECTIONS'', PyStr (generate_connections nc npc)),
                      (''POSITIONS'', PyStr (generate_positions ops nc npc))]
       \<and> map_of (attr_options (Experiment_init_mobile ops nc npc options)) =
           map_of ((''RESULTS_DIR'', PyStr (''./results-'' @ str_int nc @ ''_clusters_''
                                              @ str_int npc @ ''_nodes_mobile''))
                   # DEFAULT_OPTIONS_mobile)
           ++ map_of options
           ++ map_of [(''NUM_ROUTER_NODES'', PyStr (str_int (1 + nc))),
                      (''NUM_STATIC_LEAF_NODES'',
                         PyStr (str_int (nc * snd (get_num_mobile_per_cluster npc)))),
                      (''NUM_MOBILE_LEAF_NODES'',
                         PyStr (str_int (nc * fst (get_num_mobile_per_cluster npc)))),
                      (''CONNECTIONS'', PyStr (generate_connections_mobile nc npc)),
                      (''POSITIONS'', PyStr (generate_positions_mobile ops nc npc))]
       \<and> (\<forall>key v. (key, v) \<in> set options
             \<and> key \<notin> {''NUM_NODES'', ''CONNECTIONS'', ''POSITIONS''}
           \<longrightarrow> map_of (attr_options (Experiment_init ops nc npc options)) key = Some v)
       \<and> (\<forall>key v. (key, v) \<in> set options
             \<and> key \<notin> {''NUM_ROUTER_NODES'', ''NUM_STATIC_LEAF_NODES'',
                        ''NUM_MOBILE_LEAF_NODES'', ''CONNECTIONS'', ''POSITIONS''}
           \<longrightarrow> map_of (attr_options (Experiment_init_mobile ops nc npc options)) key = Some v)
       \<and> attr_name (Experiment_init ops nc npc options)
           = str_int nc @ ''_clusters_'' @ str_int npc @ ''_nodes''
       \<and> attr_name (Experiment_init_mobile ops nc npc options)
           = str_int nc @ ''_clusters_'' @ str_int npc @ ''_nodes_mobile''
       \<and> attr_results (Experiment_init ops nc npc options) = None
       \<and> attr_results (Experiment_init_mobile ops nc npc options) = None"
proof -
  note static = Experiment_init_options [OF assms, of ops nc npc]
  note mobile = Experiment_init_mobile_options [OF assms, of ops nc npc]
  have s: "map_of (attr_options (Experiment_init ops nc npc options)) key = Some v"
    if "(key, v) \<in> set options \<and> key \<notin> {''NUM_NODES'', ''CONNECTIONS'', ''POSITIONS''}"
    for key v
  proof -
    have "map_of options key = Some v"
      using map_of_dict_entry [OF assms] that by blast
    then show ?thesis
      unfolding static using that by (simp add: map_add_def)
  qed
  have m: "map_of (attr_options (Experiment_init_mobile ops nc npc options)) key = Some v"
    if "(key, v) \<in> set options
          \<and> key \<notin> {''NUM_ROUTER_NODES'', ''NUM_STATIC_LEAF_NODES'',
                     ''NUM_MOBILE_LEAF_NODES'', ''CONNECTIONS'', ''POSITIONS''}"
    for key v
  proof -
    have "map_of options key = Some v"
      using map_of_dict_entry [OF assms] that by blast
    then show ?thesis
      unfolding mobile using that by (simp add: map_add_def)
  qed
  have n: "attr_name (Experiment_init ops nc npc options)
             = str_int nc @ ''_clusters_'' @ str_int npc @ ''_nodes''"
    "attr_name (Experiment_init_mobile ops nc npc options)
       = str_int nc @ ''_clusters_'' @ str_int npc @ ''_nodes_mobile''"
    "attr_results (Experiment_init ops nc npc options) = None"
    "attr_results (Experiment_init_mobile ops nc npc options) = None"
    by (simp_all add: Experiment_init_def Experiment_init_mobile_def Let_def split_def)
  show ?thesis
    using static mobile s m n by blast
qed

lemma generate_connections_mobile_1_1:
  \<open>generate_connections_mobile 1 1 =
     ''[{"FROM_ID": 1, "TO_ID": 2, "RSSI": -80, "LINK_QUALITY": 0.9, "LINK_MODEL": "Fixed"},''
       @ [CHR 0x0A] @
     ''    {"FROM_ID": 2, "TO_ID": 1, "RSSI": -80, "LINK_QUALITY": 0.9, "LINK_MODEL": "Fixed"},''
       @ [CHR 0x0A] @
     ''    {"NODE_TYPE": "mobile_leaf_nodes", "LINK_MODEL": "UDGM"},'' @ [CHR 0x0A] @
     ''    {"NODE_TYPE": "static_leaf_nodes", "LINK_MODEL": "UDGM"},'' @ [CHR 0x0A] @
     ''    {"FROM_NODE_TYPE": "static_leaf_nodes", "TO_NODE_TYPE": "router_nodes", "LINK_MODEL": "UDGM"},''
       @ [CHR 0x0A] @
     ''    {"FROM_NODE_TYPE": "router_nodes", "TO_NODE_TYPE": "static_leaf_nodes", "LINK_MODEL": "UDGM"},''
       @ [CHR 0x0A] @
     ''    {"FROM_NODE_TYPE": "mobile_leaf_nodes", "TO_NODE_TYPE": "router_nodes", "LINK_MODEL": "UDGM"},''
       @ [CHR 0x0A] @
     ''    {"FROM_NODE_TYPE": "router_nodes", "TO_NODE_TYPE": "mobile_leaf_nodes", "LINK_MODEL": "UDGM"},''
       @ [CHR 0x0A] @
     ''    {"FROM_NODE_TYPE": "mobile_leaf_nodes", "TO_NODE_TYPE": "static_leaf_nodes", "LINK_MODEL": "UDGM"},''
       @ [CHR 0x0A] @
     ''    {"FROM_NODE_TYPE": "static_leaf_nodes", "TO_NODE_TYPE": "mobile_leaf_nodes", "LINK_MODEL": "UDGM"}]''
       @ [CHR 0x0A]\<close>
  by (simp add: generate_connections_mobile_def Let_def py_range_def bracketed_def
      fixed_link_str_def link_def DEFAULT_RSSI_def TTP_TO_GATEWAY_LINK_QUALITY_def
      str_int_def str_nat.simps)

theorem Experiment_init_precedence_witness:
  \<open>distinct (map fst [(''SIMULATION_DURATION_SEC'', PyInt 60), (''NUM_NODES'', PyStr ''99'')])
   \<and> map_of (attr_options (Experiment_init real_ops 3 1
        [(''SIMULATION_DURATION_SEC'', PyInt 60), (''NUM_NODES'', PyStr ''99'')]))
        ''SIMULATION_DURATION_SEC'' = Some (PyInt 60)
   \<and> map_of (attr_options (Experiment_init real_ops 3 1
        [(''SIMULATION_DURATION_SEC'', PyInt 60), (''NUM_NODES'', PyStr ''99'')]))
        ''NUM_NODES'' = Some (PyStr ''7'')
   \<and> map_of (attr_options (Experiment_init real_ops 3 1
        [(''SIMULATION_DURATION_SEC'', PyInt 60), (''NUM_NODES'', PyStr ''99'')]))
        ''RESULTS_DIR'' = Some (PyStr ''./results-3_clusters_1_nodes'')
   \<and> map_of (attr_options (Experiment_init_mobile real_ops 3 1
        [(''SIMULATION_DURATION_SEC'', PyInt 60), (''NUM_NODES'', PyStr ''99'')]))
        ''SIMULATION_DURATION_SEC'' = Some (PyInt 60)
   \<and> map_of (attr_options (Experiment_init_mobile real_ops 3 1
        [(''SIMULATION_DURATION_SEC'', PyInt 60), (''NUM_NODES'', PyStr ''99'')]))
        ''NUM_NODES'' = Some (PyStr ''99'')
   \<and> map_of (attr_options (Experiment_init_mobile real_ops 3 1
        [(''SIMULATION_DURATION_SEC'', PyInt 60), (''NUM_NODES'', PyStr ''99'')]))
        ''RANGE_X'' = Some (PyInt 100)
   \<and> map_of (attr_options (Experiment_init_mobile real_ops 3 1
        [(''SIMULATION_DURATION_SEC'', PyInt 60), (''NUM_NODES'', PyStr ''99'')]))
        ''NUM_ROUTER_NODES'' = Some (PyStr ''4'')
   \<and> attr_name (Experiment_init real_ops 3 1
        [(''SIMULATION_DURATION_SEC'', PyInt 60), (''NUM_NODES'', PyStr ''99'')])
       = ''3_clusters_1_nodes''
   \<and> map_of (attr_options (Experiment_init_mobile real_ops 1 1 [])) ''CONNECTIONS''
       = Some (PyStr (
     ''[{"FROM_ID": 1, "TO_ID": 2, "RSSI": -80, "LINK_QUALITY": 0.9, "LINK_MODEL": "Fixed"},''
       @ [CHR 0x0A] @
     ''    {"FROM_ID": 2, "TO_ID": 1, "RSSI": -80, "LINK_QUALITY": 0.9, "LINK_MODEL": "Fixed"},''
       @ [CHR 0x0A] @
     ''    {"NODE_TYPE": "mobile_leaf_nodes", "LINK_MODEL": "UDGM"},'' @ [CHR 0x0A] @
     ''    {"NODE_TYPE": "static_leaf_nodes", "LINK_MODEL": "UDGM"},'' @ [CHR 0x0A] @
     ''    {"FROM_NODE_TYPE": "static_leaf_nodes", "TO_NODE_TYPE": "router_nodes", "LINK_MODEL": "UDGM"},''
       @ [CHR 0x0A] @
     ''    {"FROM_NODE_TYPE": "router_nodes", "TO_NODE_TYPE": "static_leaf_nodes", "LINK_MODEL": "UDGM"},''
       @ [CHR 0x0A] @
     ''    {"FROM_NODE_TYPE": "mobile_leaf_nodes", "TO_NODE_TYPE": "router_nodes", "LINK_MODEL": "UDGM"},''
       @ [CHR 0x0A] @
     ''    {"FROM_NODE_TYPE": "router_nodes", "TO_NODE_TYPE": "mobile_leaf_nodes", "LINK_MODEL": "UDGM"},''
       @ [CHR 0x0A] @
     ''    {"FROM_NODE_TYPE": "mobile_leaf_nodes", "TO_NODE_TYPE": "static_leaf_nodes", "LINK_MODEL": "UDGM"},''
       @ [CHR 0x0A] @
     ''    {"FROM_NODE_TYPE": "static_leaf_nodes", "TO_NODE_TYPE": "mobile_leaf_nodes", "LINK_MODEL": "UDGM"}]''
       @ [CHR 0x0A]))
   \<and> map_of (attr_options (Experiment_init_mobile real_ops 1 1 [])) ''NUM_MOBILE_LEAF_NODES''
       = Some (PyStr ''1'')
   \<and> map_of (attr_options (Experiment_init_mobile real_ops 1 1 [])) ''NUM_STATIC_LEAF_NODES''
       = Some (PyStr ''0'')\<close>
proof -
  let ?options = "[(''SIMULATION_DURATION_SEC'', PyInt 60), (''NUM_NODES'', PyStr ''99'')]"
  have d: "distinct (map fst ?options)" by simp
  note t = Experiment_init_precedence [OF d, of real_ops 3 1]
  from t have static: "map_of (attr_options (Experiment_init real_ops 3 1 ?options)) =
           map_of [(''SIMULATION_DURATION_SEC'', PyInt 3600),
                   (''RESULTS_DIR'', PyStr (''./results-'' @ str_int 3 @ ''_clusters_''
                                              @ str_int 1 @ ''_nodes''))]
           ++ map_of ?options
           ++ map_of [(''NUM_NODES'', PyStr (str_int (1 + 3 + 3 * 1))),
                      (''CONNECTIONS'', PyStr (generate_connections 3 1)),
                      (''POSITIONS'', PyStr (generate_positions real_ops 3 1))]"
    by blast
  from t have mobile: "map_of (attr_options (Experiment_init_mobile real_ops 3 1 ?options)) =
           map_of ((''RESULTS_DIR'', PyStr (''./results-'' @ str_int 3 @ ''_clusters_''
                                              @ str_int 1 @ ''_nodes_mobile''))
                   # DEFAULT_OPTIONS_mobile)
           ++ map_of ?options
           ++ map_of [(''NUM_ROUTER_NODES'', PyStr (str_int (1 + 3))),
                      (''NUM_STATIC_LEAF_NODES'',
                         PyStr (str_int (3 * snd (get_num_mobile_per_cluster 1)))),
                      (''NUM_MOBILE_LEAF_NODES'',
                         PyStr (str_int (3 * fst (get_num_mobile_per_cluster 1)))),
                      (''CONNECTIONS'', PyStr (generate_connections_mobile 3 1)),
                      (''POSITIONS'', PyStr (generate_positions_mobile real_ops 3 1))]"
    by blast
  from t have name: "attr_name (Experiment_init real_ops 3 1 ?options)
                       = str_int 3 @ ''_clusters_'' @ str_int 1 @ ''_nodes''"
    by blast
  have e: "distinct (map fst ([] :: (string \<times> pyval) list))" by simp
  from Experiment_init_precedence [OF e, of real_ops 1 1]
  have mobile0: "map_of (attr_options (Experiment_init_mobile real_ops 1 1 [])) =
           map_of ((''RESULTS_DIR'', PyStr (''./results-'' @ str_int 1 @ ''_clusters_''
                                              @ str_int 1 @ ''_nodes_mobile''))
                   # DEFAULT_OPTIONS_mobile)
           ++ map_of []
           ++ map_of [(''NUM_ROUTER_NODES'', PyStr (str_int (1 + 1))),
                      (''NUM_STATIC_LEAF_NODES'',
                         PyStr (str_int (1 * snd (get_num_mobile_per_cluster 1)))),
                      (''NUM_MOBILE_LEAF_NODES'',
                         PyStr (str_int (1 * fst (get_num_mobile_per_cluster 1)))),
                      (''CONNECTIONS'', PyStr (generate_connections_mobile 1 1)),
                      (''POSITIONS'', PyStr (generate_positions_mobile real_ops 1 1))]"
    by blast
  show ?thesis
    unfolding static mobile mobile0 name generate_connections_mobile_1_1
    by (simp add: map_add_def DEFAULT_OPTIONS_mobile_def str_int_def str_nat.simps
        get_num_mobile_per_cluster_def)
qed

text \<open>
  C7 as stated fails: a caller's value for a derived key does not survive. Constructed
  for 3 clusters of 1 node with the caller's option \<^verbatim>\<open>NUM_NODES\<close> = \<^verbatim>\<open>"99"\<close>, the static
  experiment holds \<^verbatim>\<open>NUM_NODES\<close> = \<^verbatim>\<open>"7"\<close>; with the caller's option
  \<^verbatim>\<open>NUM_ROUTER_NODES\<close> = \<^verbatim>\<open>"9"\<close> the mobile experiment holds \<^verbatim>\<open>"4"\<close>.
\<close>

theorem Experiment_init_caller_overridden:
  "map_of (attr_options (Experiment_init real_ops 3 1 [(''NUM_NODES'', PyStr ''99'')]))
     ''NUM_NODES'' = Some (PyStr ''7'')
   \<and> map_of [(''NUM_NODES'', PyStr ''99'')] ''NUM_NODES'' = Some (PyStr ''99'')
   \<and> map_of (attr_options (Experiment_init_mobile real_ops 3 1
               [(''NUM_ROUTER_NODES'', PyStr ''9'')]))
     ''NUM_ROUTER_NODES'' = Some (PyStr ''4'')
   \<and> map_of [(''NUM_ROUTER_NODES'', PyStr ''9'')] ''NUM_ROUTER_NODES'' = Some (PyStr ''9'')"
  by (simp add: Experiment_init_def Experiment_init_mobile_def Let_def update_conv'
      split_def str_int_def str_nat.simps)

end
